(* ===== verification/JS_Prelude.thy ===== *)
theory JS_Prelude
  imports Main "HOL-Library.Sublist"
begin

text \<open>
  Shared vocabulary of the development: the JavaScript primitives that the two scripts
  (\<^verbatim>\<open>src/src/index.ts\<close> and the older variant \<^verbatim>\<open>src/unnamed/part_000\<close>) rely on,
  as executable HOL functions, with the lemmas the component theories share.

  \<^item> A value that may be \<^verbatim>\<open>undefined\<close> is an \<open>option\<close>; \<open>truthy\<close> is the test an
    \<^verbatim>\<open>if (x)\<close> or an \<^verbatim>\<open>&&\<close> makes of a \<^verbatim>\<open>string | undefined\<close>, \<open>or_else\<close> is \<^verbatim>\<open>a || b\<close>,
    \<open>template\<close> is the text a template literal inserts for \<^verbatim>\<open>${x}\<close> (\<open>template_bool\<close>
    for a boolean), \<open>opt_chain\<close> is
    \<^verbatim>\<open>x?.f\<close> and \<open>index0\<close> is \<^verbatim>\<open>xs[0]\<close>.
  \<^item> \<^verbatim>\<open>Array.prototype.find\<close> is \<open>List.find\<close>, \<^verbatim>\<open>Array.prototype.some\<close> is \<open>list_ex\<close>,
    \<^verbatim>\<open>String.prototype.includes\<close> is \<open>str_includes\<close> (a contiguous \<open>sublist\<close>), and
    \<^verbatim>\<open>String.prototype.toLowerCase\<close> is \<open>toLowerCase\<close>.
  \<^item> A thrown value is \<open>thrown\<close>: an \<^verbatim>\<open>Error\<close> object with its message, or any other
    value; \<open>message_or\<close> is \<^verbatim>\<open>e instanceof Error ? e.message : d\<close>.

  Strings are lists of bytes. \<open>toLowerCase\<close> maps the 26 ASCII capitals and leaves every
  other byte alone, which is what JavaScript does on ASCII text; the language-specific
  mappings of non-ASCII letters are outside the model.
\<close>

section \<open>Collections of facts\<close>

named_theorems io_simps "laws of the effect monad and of its primitive actions"

section \<open>Values that may be undefined\<close>

definition truthy :: "string option \<Rightarrow> bool" where
  "truthy v = (case v of None \<Rightarrow> False | Some s \<Rightarrow> s \<noteq> [])"

definition or_else :: "string option \<Rightarrow> string option \<Rightarrow> string option" where
  "or_else a b = (if truthy a then a else b)"

definition template :: "string option \<Rightarrow> string" where
  "template v = (case v of None \<Rightarrow> ''undefined'' | Some s \<Rightarrow> s)"

definition template_bool :: "bool \<Rightarrow> string" where
  "template_bool b = (if b then ''true'' else ''false'')"

definition opt_chain :: "'a option \<Rightarrow> ('a \<Rightarrow> 'b option) \<Rightarrow> 'b option" where
  "opt_chain x f = (case x of None \<Rightarrow> None | Some a \<Rightarrow> f a)"

definition index0 :: "'a list \<Rightarrow> 'a option" where
  "index0 xs = (case xs of [] \<Rightarrow> None | x # _ \<Rightarrow> Some x)"

section \<open>Strings\<close>

definition upper_alpha :: string where
  "upper_alpha = ''ABCDEFGHIJKLMNOPQRSTUVWXYZ''"

definition lower_alpha :: string where
  "lower_alpha = ''abcdefghijklmnopqrstuvwxyz''"

definition lower_char :: "char \<Rightarrow> char" where
  "lower_char c = (case map_of (zip upper_alpha lower_alpha) c of Some l \<Rightarrow> l | None \<Rightarrow> c)"

definition toLowerCase :: "string \<Rightarrow> string" where
  "toLowerCase s = map lower_char s"

definition str_includes :: "string \<Rightarrow> string \<Rightarrow> bool" where
  "str_includes s k = sublist k s"

section \<open>Thrown values\<close>

datatype thrown = Error (error_message: string) | NonError

definition message_or :: "string \<Rightarrow> thrown \<Rightarrow> string" where
  "message_or d e = (case e of Error m \<Rightarrow> m | NonError \<Rightarrow> d)"

section \<open>Lemmas on undefined values\<close>

lemma truthy_simps [simp]:
  "truthy None = False"
  "truthy (Some s) = (s \<noteq> [])"
  by (simp_all add: truthy_def)

lemma truthy_iff: "truthy v \<longleftrightarrow> (\<exists>s. v = Some s \<and> s \<noteq> [])"
  by (cases v) simp_all

lemma truthyE:
  assumes "truthy v"
  obtains s where "v = Some s" and "s \<noteq> []"
  using assms by (auto simp: truthy_iff)

lemma or_else_simps [simp]:
  "truthy a \<Longrightarrow> or_else a b = a"
  "\<not> truthy a \<Longrightarrow> or_else a b = b"
  by (simp_all add: or_else_def)

lemma template_simps [simp]:
  "template None = ''undefined''"
  "template (Some s) = s"
  by (simp_all add: template_def)

lemma template_bool_simps [simp]:
  "template_bool True = ''true''"
  "template_bool False = ''false''"
  by (simp_all add: template_bool_def)

lemma opt_chain_simps [simp]:
  "opt_chain None f = None"
  "opt_chain (Some a) f = f a"
  by (simp_all add: opt_chain_def)

lemma index0_simps [simp]:
  "index0 [] = None"
  "index0 (x # xs) = Some x"
  by (simp_all add: index0_def)

section \<open>Lemmas on the first match of a scan\<close>

lemma find_Some_sat: "List.find P xs = Some x \<Longrightarrow> P x"
  by (auto simp: find_Some_iff)

lemma find_Some_mem: "List.find P xs = Some x \<Longrightarrow> x \<in> set xs"
  by (auto simp: find_Some_iff)

lemma find_filter: "List.find P xs = (case filter P xs of [] \<Rightarrow> None | x # _ \<Rightarrow> Some x)"
  by (induction xs) simp_all

lemma find_first:
  assumes "\<forall>y \<in> set ps. \<not> P y" and "P x"
  shows "List.find P (ps @ x # ss) = Some x"
  using assms by (induction ps) simp_all

section \<open>Lemmas on substrings\<close>

lemma str_includes_empty [simp]: "str_includes s []"
  by (simp add: str_includes_def)

lemma str_includes_self [simp]: "str_includes s s"
  by (simp add: str_includes_def)

lemma str_includes_trans:
  "str_includes s k \<Longrightarrow> str_includes k j \<Longrightarrow> str_includes s j"
  unfolding str_includes_def by (rule sublist_order.order_trans)

lemma str_includes_append [simp]: "str_includes (p @ k @ q) k"
  by (simp add: str_includes_def)

lemma str_includes_appendI:
  "str_includes s k \<Longrightarrow> str_includes (p @ s @ q) k"
  by (rule str_includes_trans [OF str_includes_append])

lemma str_includes_suffixI: "str_includes s k \<Longrightarrow> str_includes (p @ s) k"
  using str_includes_appendI [of s k p "[]"] by simp

lemma str_includes_Nil [simp]: "str_includes [] k \<longleftrightarrow> k = []"
  by (simp add: str_includes_def)

lemma str_includes_Cons:
  "str_includes (c # s) k \<longleftrightarrow> prefix k (c # s) \<or> str_includes s k"
  by (simp add: str_includes_def sublist_Cons_right)

lemmas str_includes_eval = str_includes_Nil str_includes_Cons prefix_code

section \<open>Lemmas on lower case\<close>

lemma lower_char_idem [simp]: "lower_char (lower_char c) = lower_char c"
  by (auto simp: lower_char_def upper_alpha_def lower_alpha_def)

lemma lower_char_not_upper [simp]: "lower_char c \<notin> set upper_alpha"
  by (auto simp: lower_char_def upper_alpha_def lower_alpha_def)

lemma toLowerCase_simps [simp]:
  "toLowerCase [] = []"
  "toLowerCase (c # s) = lower_char c # toLowerCase s"
  by (simp_all add: toLowerCase_def)

lemma toLowerCase_append [simp]: "toLowerCase (s @ t) = toLowerCase s @ toLowerCase t"
  by (simp add: toLowerCase_def)

lemma length_toLowerCase [simp]: "length (toLowerCase s) = length s"
  by (simp add: toLowerCase_def)

lemma toLowerCase_idem [simp]: "toLowerCase (toLowerCase s) = toLowerCase s"
  by (simp add: toLowerCase_def)

lemma str_includes_toLowerCase:
  "str_includes s k \<Longrightarrow> str_includes (toLowerCase s) (toLowerCase k)"
  by (simp add: str_includes_def toLowerCase_def map_mono_sublist)

lemmas lower_eval = lower_char_def upper_alpha_def lower_alpha_def

section \<open>Lemmas on thrown values\<close>

lemma message_or_simps [simp]:
  "message_or d (Error m) = m"
  "message_or d NonError = d"
  by (simp_all add: message_or_def)

end
