(* ===== verification/Interfaces.thy ===== *)
theory Interfaces
  imports JS_Prelude
begin

text \<open>
  The data that crosses the program's boundary, as the source reads and builds it:
  the tweet lookup's request and response (\<^verbatim>\<open>readOnlyTwitterClient.v2.singleTweet\<close>),
  the inference request and its completion (\<^verbatim>\<open>openai.beta.chat.completions.parse\<close> in
  \<^verbatim>\<open>index.ts\<close>, \<^verbatim>\<open>openai.responses.create\<close> in the older variant), the process
  environment and what is written to the console. The two remote services are not
  modelled: each is a function from the request to what the \<^verbatim>\<open>await\<close> yields, a thrown
  value or a response, and every theorem holds for all such functions.

  A service is a total function, so every \<^verbatim>\<open>await\<close> of a call settles, with a
  thrown value or with a response; a call that never returns is not a behaviour of the
  model.

  A field the source reads with \<^verbatim>\<open>?.\<close>, tests for truthiness or compares with
  \<^verbatim>\<open>undefined\<close> is an \<open>option\<close>; a field it reads without such a test
  (\<^verbatim>\<open>choices\<close> of a completion, \<^verbatim>\<open>type\<close> of a media object) is always present. Field names are the source's; \<open>text'\<close>,
  \<open>includes'\<close> and \<open>content'\<close> carry a prime because the plain words are
  reserved.
\<close>

section \<open>Tweet lookup\<close>

record media_object =
  type :: string
  url :: "string option"
  preview_image_url :: "string option"

record api_error =
  detail :: "string option"
  title :: "string option"

record tweet_data =
  text' :: "string option"

record includes_obj =
  media :: "media_object list option"

record tweet_response =
  errors :: "api_error list option"
  data :: "tweet_data option"
  includes' :: "includes_obj option"

record tweet_request =
  tweet_id :: string
  expansions :: "string list"
  media_fields :: "string list"

section \<open>Inference\<close>

datatype content_part = Text string | Image_url string | Input_text string

datatype message_content = Plain string | Parts "content_part list"

record chat_message =
  role :: string
  content :: message_content

datatype zod = z_boolean string | z_string string | z_object "(string \<times> zod) list"

record response_format =
  schema :: zod
  format_name :: string

record request_base =
  model :: string
  temperature :: int

record chat_request = request_base +
  messages :: "chat_message list"
  response_format :: response_format

record responses_request = request_base +
  input :: "chat_message list"
  text_format :: response_format

record verification =
  result :: bool
  reasoning :: string

record response_message =
  parsed :: "verification option"
  content' :: "string option"

record choice =
  message :: "response_message option"

record completion =
  choices :: "choice list"

section \<open>The two services and the environment\<close>

datatype request =
  SingleTweet tweet_request
| ChatParse chat_request
| ResponsesCreate responses_request

type_synonym twitter_api = "tweet_request \<Rightarrow> thrown + tweet_response"
type_synonym openai_api = "chat_request \<Rightarrow> thrown + completion"
type_synonym responses_api = "responses_request \<Rightarrow> thrown + completion"
type_synonym env = "string \<rightharpoonup> string"

section \<open>Console\<close>

datatype level = LOG | WARN | ERROR

datatype console_arg =
  AString string
| AUndefined
| AErrors "api_error list"
| AThrown thrown
| AParsed "verification option"

type_synonym log_entry = "level \<times> console_arg list"

definition arg_of :: "string option \<Rightarrow> console_arg" where
  "arg_of v = (case v of None \<Rightarrow> AUndefined | Some s \<Rightarrow> AString s)"

section \<open>Lemmas\<close>

lemma arg_of_simps [simp]:
  "arg_of None = AUndefined"
  "arg_of (Some s) = AString s"
  by (simp_all add: arg_of_def)

end
