(* ===== verification/Effects.thy ===== *)
theory Effects
  imports Interfaces
begin

text \<open>
  What a run of the script does besides computing: it writes to the console, it sends
  requests, it throws and catches, and it ends the process. The \<open>world\<close> records the
  console lines and the requests sent, each in the order it happened. An action
  (\<open>'a io\<close>) maps a world to an outcome and the world after it; the outcome is a value,
  a thrown value (\<open>Throw\<close>, which \<open>try_catch\<close> hands to its handler) or the end of
  the process (\<open>Exit\<close>, which nothing catches, as \<^verbatim>\<open>process.exit\<close> never returns).
  \<open>io_bind\<close> is the sequencing of two statements, the second of which may use the
  value the first awaited.

  The laws below (collection \<open>io_simps\<close>) are the monad laws of \<open>io_bind\<close> and the
  laws of \<open>try_catch\<close> on the three outcomes.

  \<open>emits m r ls qs\<close> is the summary of an action that does not read the world: from
  every world, \<open>m\<close> ends with the outcome \<open>r\<close>, having written the lines \<open>ls\<close> and sent
  the requests \<open>qs\<close>. The rules for \<open>emits\<close> compose the summaries of the parts of a
  function into the summary of the function, so that a caller is verified against the
  summaries of what it calls.
\<close>

section \<open>World and actions\<close>

record world =
  console :: "log_entry list"
  outbound :: "request list"

datatype abrupt = Throw thrown | Exit nat

type_synonym 'a io = "world \<Rightarrow> (abrupt + 'a) \<times> world"

type_synonym 'a summary = "(abrupt + 'a) \<times> log_entry list \<times> request list"

definition init_world :: world where
  "init_world = \<lparr>console = [], outbound = []\<rparr>"

definition io_return :: "'a \<Rightarrow> 'a io" where
  "io_return x = (\<lambda>w. (Inr x, w))"

definition io_throw :: "thrown \<Rightarrow> 'a io" where
  "io_throw e = (\<lambda>w. (Inl (Throw e), w))"

definition io_exit :: "nat \<Rightarrow> 'a io" where
  "io_exit n = (\<lambda>w. (Inl (Exit n), w))"

definition io_bind :: "'a io \<Rightarrow> ('a \<Rightarrow> 'b io) \<Rightarrow> 'b io" where
  "io_bind m f = (\<lambda>w. case m w of (Inl a, w') \<Rightarrow> (Inl a, w') | (Inr x, w') \<Rightarrow> f x w')"

definition io_then :: "'a io \<Rightarrow> 'b io \<Rightarrow> 'b io" where
  "io_then m n = io_bind m (\<lambda>_. n)"

definition try_catch :: "'a io \<Rightarrow> (thrown \<Rightarrow> 'a io) \<Rightarrow> 'a io" where
  "try_catch m h = (\<lambda>w. case m w of (Inl (Throw e), w') \<Rightarrow> h e w' | r \<Rightarrow> r)"

definition console_write :: "level \<Rightarrow> console_arg list \<Rightarrow> unit io" where
  "console_write l args = (\<lambda>w. (Inr (), w\<lparr>console := console w @ [(l, args)]\<rparr>))"

definition call :: "request \<Rightarrow> thrown + 'a \<Rightarrow> 'a io" where
  "call r answer = (\<lambda>w.
     (case answer of Inl e \<Rightarrow> Inl (Throw e) | Inr v \<Rightarrow> Inr v,
      w\<lparr>outbound := outbound w @ [r]\<rparr>))"

definition emits :: "'a io \<Rightarrow> abrupt + 'a \<Rightarrow> log_entry list \<Rightarrow> request list \<Rightarrow> bool" where
  "emits m r ls qs =
     (\<forall>w. m w = (r, w\<lparr>console := console w @ ls, outbound := outbound w @ qs\<rparr>))"

section \<open>Laws of sequencing\<close>

lemma io_bind_return [io_simps]: "io_bind (io_return x) f = f x"
  by (simp add: io_bind_def io_return_def)

lemma io_bind_throw [io_simps]: "io_bind (io_throw e) f = io_throw e"
  by (simp add: io_bind_def io_throw_def)

lemma io_bind_exit [io_simps]: "io_bind (io_exit n) f = io_exit n"
  by (simp add: io_bind_def io_exit_def)

lemma io_bind_return_right [io_simps]: "io_bind m io_return = m"
  by (auto simp: io_bind_def io_return_def fun_eq_iff split: prod.splits sum.splits)

lemma io_bind_assoc [io_simps]:
  "io_bind (io_bind m f) g = io_bind m (\<lambda>x. io_bind (f x) g)"
  by (auto simp: io_bind_def fun_eq_iff split: prod.splits sum.splits)

lemma io_then_bind [io_simps]: "io_then m n = io_bind m (\<lambda>_. n)"
  by (simp add: io_then_def)

section \<open>Laws of catching\<close>

lemma try_catch_return [io_simps]: "try_catch (io_return x) h = io_return x"
  by (simp add: try_catch_def io_return_def)

lemma try_catch_throw [io_simps]: "try_catch (io_throw e) h = h e"
  by (simp add: try_catch_def io_throw_def)

lemma try_catch_exit [io_simps]: "try_catch (io_exit n) h = io_exit n"
  by (simp add: try_catch_def io_exit_def)

section \<open>Unfolding an action\<close>

lemmas io_unfold =
  io_return_def io_throw_def io_exit_def io_bind_def io_then_def try_catch_def
  console_write_def call_def

section \<open>Summaries of actions\<close>

lemma emits_fst: "emits m r ls qs \<Longrightarrow> fst (m w) = r"
  by (simp add: emits_def)

lemma emits_console: "emits m r ls qs \<Longrightarrow> console (snd (m w)) = console w @ ls"
  by (simp add: emits_def)

lemma emits_outbound: "emits m r ls qs \<Longrightarrow> outbound (snd (m w)) = outbound w @ qs"
  by (simp add: emits_def)

lemmas emitsD = emits_fst emits_console emits_outbound

lemma emits_apply:
  "emits m r ls qs \<Longrightarrow>
     m w = (r, w\<lparr>console := console w @ ls, outbound := outbound w @ qs\<rparr>)"
  by (simp add: emits_def)

lemma emits_return [intro, simp]: "emits (io_return x) (Inr x) [] []"
  by (simp add: emits_def io_return_def)

lemma emits_throw [intro, simp]: "emits (io_throw e) (Inl (Throw e)) [] []"
  by (simp add: emits_def io_throw_def)

lemma emits_exit [intro, simp]: "emits (io_exit n) (Inl (Exit n)) [] []"
  by (simp add: emits_def io_exit_def)

lemma emits_write [intro, simp]: "emits (console_write l args) (Inr ()) [(l, args)] []"
  by (simp add: emits_def console_write_def)

lemma emits_call_Inr [intro]: "answer = Inr v \<Longrightarrow> emits (call q answer) (Inr v) [] [q]"
  by (simp add: emits_def call_def)

lemma emits_call_Inl [intro]: "answer = Inl e \<Longrightarrow> emits (call q answer) (Inl (Throw e)) [] [q]"
  by (simp add: emits_def call_def)

lemma emits_bind_Inr:
  assumes "emits m (Inr x) ls qs" and "emits (f x) r ls' qs'"
  shows "emits (io_bind m f) r (ls @ ls') (qs @ qs')"
  using assms by (simp add: emits_def io_bind_def)

lemma emits_bind_Inl:
  assumes "emits m (Inl a) ls qs"
  shows "emits (io_bind m f) (Inl a) ls qs"
  using assms by (simp add: emits_def io_bind_def)

lemma emits_then_Inr:
  assumes "emits m (Inr x) ls qs" and "emits n r ls' qs'"
  shows "emits (io_then m n) r (ls @ ls') (qs @ qs')"
  using assms by (simp add: emits_def io_bind_def io_then_def)

lemma emits_then_Inl:
  assumes "emits m (Inl a) ls qs"
  shows "emits (io_then m n) (Inl a) ls qs"
  using assms by (simp add: emits_def io_bind_def io_then_def)

lemma emits_try_Inr:
  assumes "emits m (Inr x) ls qs"
  shows "emits (try_catch m h) (Inr x) ls qs"
  using assms by (simp add: emits_def try_catch_def)

lemma emits_try_Exit:
  assumes "emits m (Inl (Exit n)) ls qs"
  shows "emits (try_catch m h) (Inl (Exit n)) ls qs"
  using assms by (simp add: emits_def try_catch_def)

lemma emits_try_Throw:
  assumes "emits m (Inl (Throw e)) ls qs" and "emits (h e) r ls' qs'"
  shows "emits (try_catch m h) r (ls @ ls') (qs @ qs')"
  using assms by (simp add: emits_def try_catch_def)

lemma emits_try_no_Throw:
  assumes "emits m r ls qs" and "\<And>e. r \<noteq> Inl (Throw e)"
  shows "emits (try_catch m h) r ls qs"
  using assms by (auto simp: emits_def try_catch_def split: sum.splits abrupt.splits)

lemma emits_eq:
  assumes "emits m r ls qs" and "emits m' r ls qs"
  shows "m = m'"
  using assms by (auto simp: emits_def fun_eq_iff)

end
