(* ===== verification/Tweet_Resolver.thy ===== *)
theory Tweet_Resolver
  imports Effects
begin

text \<open>
  The tweet resolver: \<^verbatim>\<open>fetchTweetData\<close> of \<^verbatim>\<open>src/src/index.ts\<close> (lines 38 to 91; the
  older variant \<^verbatim>\<open>src/unnamed/part_000\<close> has the same function, line for line, at 45 to
  98). \<open>fetchTweetData_try\<close> is the body of its \<^verbatim>\<open>try\<close> block, \<open>fetchTweetData\<close> the
  whole function with the first console line and the \<^verbatim>\<open>catch\<close> handler, and
  \<open>select_image\<close> the block that chooses \<^verbatim>\<open>imageUrl\<close> from the media list and
  \<open>fetchTweetData_catch\<close> the handler. The texts the function writes or throws are
  named (\<open>fetching_line\<close>, \<open>api_error_message\<close>, \<open>no_data_message\<close>,
  \<open>no_image_warning\<close>, \<open>catch_line\<close>, \<open>process_error_message\<close>), so that the
  theorems can speak of them.

  \<open>candidates\<close> and \<open>select_spec\<close> state the precedence the resolver promises: the
  direct URLs of the photos, then the preview URLs of the photos, then the preview URLs
  of the videos, each group in the order of the list, and the first of them all.
  \<open>resolved\<close> is the image a lookup's answer leads to, if any. \<open>fetch_result\<close> and
  \<open>fetch_lines\<close> give the outcome and the console lines of the function as pure
  functions of the lookup's answer, and \<open>fetch_emits\<close> proves that the function
  produces them.
\<close>

section \<open>Definitions\<close>

record tweet_result = tweet_data +
  imageUrl :: "string option"

definition singleTweet_request :: "string \<Rightarrow> tweet_request" where
  "singleTweet_request tweetId =
     \<lparr>tweet_id = tweetId,
      expansions = [''attachments.media_keys''],
      media_fields = [''url'', ''type'', ''preview_image_url'']\<rparr>"

definition photo_with_url :: "media_object \<Rightarrow> bool" where
  "photo_with_url m \<longleftrightarrow> type m = ''photo'' \<and> truthy (url m)"

definition photo_with_preview :: "media_object \<Rightarrow> bool" where
  "photo_with_preview m \<longleftrightarrow> type m = ''photo'' \<and> truthy (preview_image_url m)"

definition video_with_preview :: "media_object \<Rightarrow> bool" where
  "video_with_preview m \<longleftrightarrow> type m = ''video'' \<and> truthy (preview_image_url m)"

definition select_image :: "media_object list option \<Rightarrow> string option" where
  "select_image media_opt =
     (case media_opt of
        None \<Rightarrow> None
      | Some ms \<Rightarrow>
          if 0 < length ms then
            (let photoMedia = List.find photo_with_url ms in
             if truthy (opt_chain photoMedia url) then opt_chain photoMedia url
             else
               (let photoPreviewMedia = List.find photo_with_preview ms in
                if truthy (opt_chain photoPreviewMedia preview_image_url)
                then opt_chain photoPreviewMedia preview_image_url
                else
                  (let videoMediaWithPreview = List.find video_with_preview ms in
                   if truthy (opt_chain videoMediaWithPreview preview_image_url)
                   then opt_chain videoMediaWithPreview preview_image_url
                   else None)))
          else None)"

definition fetching_line :: "string \<Rightarrow> string" where
  "fetching_line tweetId = ''Fetching tweet from Twitter API: '' @ tweetId"

definition api_error_message :: "string option \<Rightarrow> string" where
  "api_error_message errorDetail = ''Failed to fetch tweet: '' @ template errorDetail"

definition no_data_message :: string where
  "no_data_message = ''Tweet data not found in API response.''"

definition no_image_warning :: "string \<Rightarrow> string" where
  "no_image_warning tweetId =
     ''Tweet '' @ tweetId @
     '' does not appear to contain a usable image URL (photo or video thumbnail).''"

definition catch_line :: "string \<Rightarrow> string" where
  "catch_line tweetId = ''Error fetching or processing tweet '' @ tweetId @ '' from API:''"

definition process_error_message :: "string \<Rightarrow> string \<Rightarrow> string" where
  "process_error_message tweetId msg =
     ''Failed to process tweet '' @ tweetId @ '': '' @ msg"

definition fetchTweetData_try :: "twitter_api \<Rightarrow> string \<Rightarrow> tweet_result io" where
  "fetchTweetData_try twitter tweetId =
     io_bind (call (SingleTweet (singleTweet_request tweetId))
                (twitter (singleTweet_request tweetId)))
       (\<lambda>tweet.
          case errors tweet of
            Some (e # es) \<Rightarrow>
              (let errorDetail = or_else (detail e) (title e) in
               io_then
                 (console_write ERROR
                    [AString ''Error fetching tweet:'', arg_of errorDetail, AErrors (e # es)])
                 (io_throw (Error (api_error_message errorDetail))))
          | _ \<Rightarrow>
              (case data tweet of
                 None \<Rightarrow> io_throw (Error no_data_message)
               | Some d \<Rightarrow>
                   (let imageUrl = select_image (opt_chain (includes' tweet) media) in
                    io_then
                      (if \<not> truthy imageUrl
                       then console_write WARN [AString (no_image_warning tweetId)]
                       else io_return ())
                      (io_return \<lparr>text' = text' d, imageUrl = imageUrl\<rparr>))))"

definition fetchTweetData_catch :: "string \<Rightarrow> thrown \<Rightarrow> tweet_result io" where
  "fetchTweetData_catch tweetId error =
     (let message = message_or ''Unknown error'' error in
      io_then
        (console_write ERROR [AString (catch_line tweetId), AString message, AThrown error])
        (io_throw (Error (process_error_message tweetId message))))"

definition fetchTweetData :: "twitter_api \<Rightarrow> string \<Rightarrow> tweet_result io" where
  "fetchTweetData twitter tweetId =
     io_then
       (console_write LOG [AString (fetching_line tweetId)])
       (try_catch (fetchTweetData_try twitter tweetId) (fetchTweetData_catch tweetId))"

subsection \<open>The promised precedence\<close>

definition candidates :: "media_object list \<Rightarrow> string option list" where
  "candidates ms =
     map url (filter photo_with_url ms) @
     map preview_image_url (filter photo_with_preview ms) @
     map preview_image_url (filter video_with_preview ms)"

definition select_spec :: "media_object list \<Rightarrow> string option" where
  "select_spec ms = (case candidates ms of [] \<Rightarrow> None | c # _ \<Rightarrow> c)"

definition select_simple :: "media_object list \<Rightarrow> string option" where
  "select_simple ms =
     (case List.find photo_with_url ms of
        Some m \<Rightarrow> url m
      | None \<Rightarrow>
          (case List.find photo_with_preview ms of
             Some m \<Rightarrow> preview_image_url m
           | None \<Rightarrow>
               (case List.find video_with_preview ms of
                  Some m \<Rightarrow> preview_image_url m
                | None \<Rightarrow> None)))"

definition no_errors :: "tweet_response \<Rightarrow> bool" where
  "no_errors tweet \<longleftrightarrow> errors tweet = None \<or> errors tweet = Some []"

definition resolved :: "thrown + tweet_response \<Rightarrow> string option" where
  "resolved answer =
     (case answer of
        Inl _ \<Rightarrow> None
      | Inr tweet \<Rightarrow>
          if no_errors tweet \<and> data tweet \<noteq> None
          then select_image (opt_chain (includes' tweet) media)
          else None)"


subsection \<open>Transcript of a fetch\<close>

definition fetch_result :: "thrown + tweet_response \<Rightarrow> string \<Rightarrow> abrupt + tweet_result" where
  "fetch_result answer tweetId =
     (case answer of
        Inl e \<Rightarrow> Inl (Throw (Error (process_error_message tweetId (message_or ''Unknown error'' e))))
      | Inr tweet \<Rightarrow>
          (case errors tweet of
             Some (e # es) \<Rightarrow>
               Inl (Throw (Error (process_error_message tweetId
                                    (api_error_message (or_else (detail e) (title e))))))
           | _ \<Rightarrow>
               (case data tweet of
                  None \<Rightarrow> Inl (Throw (Error (process_error_message tweetId no_data_message)))
                | Some d \<Rightarrow>
                    Inr \<lparr>text' = text' d,
                         imageUrl = select_image (opt_chain (includes' tweet) media)\<rparr>)))"

definition catch_entry :: "string \<Rightarrow> thrown \<Rightarrow> log_entry" where
  "catch_entry tweetId e =
     (ERROR, [AString (catch_line tweetId), AString (message_or ''Unknown error'' e), AThrown e])"

definition fetch_lines :: "thrown + tweet_response \<Rightarrow> string \<Rightarrow> log_entry list" where
  "fetch_lines answer tweetId =
     (LOG, [AString (fetching_line tweetId)]) #
     (case answer of
        Inl e \<Rightarrow> [catch_entry tweetId e]
      | Inr tweet \<Rightarrow>
          (case errors tweet of
             Some (e # es) \<Rightarrow>
               [(ERROR, [AString ''Error fetching tweet:'',
                         arg_of (or_else (detail e) (title e)), AErrors (e # es)]),
                catch_entry tweetId (Error (api_error_message (or_else (detail e) (title e))))]
           | _ \<Rightarrow>
               (case data tweet of
                  None \<Rightarrow> [catch_entry tweetId (Error no_data_message)]
                | Some d \<Rightarrow>
                    if truthy (select_image (opt_chain (includes' tweet) media)) then []
                    else [(WARN, [AString (no_image_warning tweetId)])])))"

subsection \<open>Sample media\<close>

definition photo_both :: media_object where
  "photo_both = \<lparr>type = ''photo'', url = Some ''https://pbs.example/a.jpg'',
                  preview_image_url = Some ''https://pbs.example/a_small.jpg''\<rparr>"

definition photo_preview_only :: media_object where
  "photo_preview_only = \<lparr>type = ''photo'', url = Some [],
                          preview_image_url = Some ''https://pbs.example/b_small.jpg''\<rparr>"

definition video_thumb :: media_object where
  "video_thumb = \<lparr>type = ''video'', url = None,
                   preview_image_url = Some ''https://pbs.example/v_thumb.jpg''\<rparr>"

definition gif_item :: media_object where
  "gif_item = \<lparr>type = ''animated_gif'', url = None,
                preview_image_url = Some ''https://pbs.example/g_thumb.jpg''\<rparr>"

definition tweet_with :: "media_object list \<Rightarrow> tweet_response" where
  "tweet_with ms = \<lparr>errors = None, data = Some \<lparr>text' = Some ''my new hat''\<rparr>,
                     includes' = Some \<lparr>media = Some ms\<rparr>\<rparr>"

definition tweet_failed :: tweet_response where
  "tweet_failed = \<lparr>errors = Some [\<lparr>detail = Some ''Could not find tweet'',
                                    title = Some ''Not Found Error''\<rparr>],
                    data = None, includes' = None\<rparr>"

definition tweet_empty :: tweet_response where
  "tweet_empty = \<lparr>errors = Some [], data = None, includes' = None\<rparr>"

lemmas sample_media = photo_both_def photo_preview_only_def video_thumb_def gif_item_def

lemmas sample_tweets = tweet_with_def tweet_failed_def tweet_empty_def

section \<open>Choosing the image\<close>

lemmas media_preds = photo_with_url_def photo_with_preview_def video_with_preview_def

lemma find_media_truthy:
  "List.find photo_with_url ms = Some m \<Longrightarrow> truthy (url m)"
  "List.find photo_with_preview ms = Some m \<Longrightarrow> truthy (preview_image_url m)"
  "List.find video_with_preview ms = Some m \<Longrightarrow> truthy (preview_image_url m)"
  by (auto dest!: find_Some_sat simp: media_preds)

lemma select_image_None [simp]: "select_image None = None"
  by (simp add: select_image_def)

lemma select_image_Some: "select_image (Some ms) = select_simple ms"
proof (cases "ms = []")
  case True
  then show ?thesis by (simp add: select_image_def select_simple_def)
next
  case False
  then show ?thesis
    by (auto simp: select_image_def select_simple_def Let_def split: option.splits
        dest: find_media_truthy)
qed

lemma select_simple_spec: "select_simple ms = select_spec ms"
  by (simp add: select_simple_def select_spec_def candidates_def find_filter split: list.splits)

lemma select_simple_direct:
  "List.find photo_with_url ms = Some m \<Longrightarrow> select_simple ms = url m"
  by (simp add: select_simple_def)

lemma select_simple_photo_preview:
  "List.find photo_with_url ms = None \<Longrightarrow> List.find photo_with_preview ms = Some m
   \<Longrightarrow> select_simple ms = preview_image_url m"
  by (simp add: select_simple_def)

lemma select_simple_video_preview:
  "List.find photo_with_url ms = None \<Longrightarrow> List.find photo_with_preview ms = None
   \<Longrightarrow> List.find video_with_preview ms = Some m \<Longrightarrow> select_simple ms = preview_image_url m"
  by (simp add: select_simple_def)

lemma select_simple_None_iff:
  "select_simple ms = None \<longleftrightarrow>
     (\<forall>m \<in> set ms. \<not> photo_with_url m \<and> \<not> photo_with_preview m \<and> \<not> video_with_preview m)"
  by (auto simp: select_simple_def find_None_iff split: option.splits
      dest: find_media_truthy find_Some_mem find_Some_sat)

lemma candidates_truthy: "c \<in> set (candidates ms) \<Longrightarrow> truthy c"
  by (auto simp: candidates_def media_preds)

lemma candidates_origin:
  "c \<in> set (candidates ms) \<longleftrightarrow>
     (\<exists>m \<in> set ms. photo_with_url m \<and> c = url m
                 \<or> photo_with_preview m \<and> c = preview_image_url m
                 \<or> video_with_preview m \<and> c = preview_image_url m)"
  by (auto simp: candidates_def)

lemma select_spec_mem: "select_spec ms = Some u \<Longrightarrow> Some u \<in> set (candidates ms)"
  by (auto simp: select_spec_def split: list.splits)

lemma select_image_mem:
  assumes "select_image media_opt = Some u"
  shows "\<exists>ms. media_opt = Some ms \<and> Some u \<in> set (candidates ms)"
proof (cases media_opt)
  case None
  with assms show ?thesis by simp
next
  case (Some ms)
  with assms have "select_spec ms = Some u"
    by (simp add: select_image_Some select_simple_spec)
  with Some show ?thesis by (simp add: select_spec_mem)
qed

lemma select_image_truthy_iff: "truthy (select_image media_opt) \<longleftrightarrow> select_image media_opt \<noteq> None"
proof (cases "select_image media_opt")
  case None
  then show ?thesis by simp
next
  case (Some u)
  then obtain ms where "Some u \<in> set (candidates ms)"
    using select_image_mem by blast
  then have "truthy (Some u)" by (rule candidates_truthy)
  with Some show ?thesis by simp
qed

lemma select_image_not_empty: "select_image media_opt = Some u \<Longrightarrow> u \<noteq> []"
  using select_image_truthy_iff [of media_opt] by simp

lemma no_errors_case [simp]:
  "no_errors tweet \<Longrightarrow>
     (case errors tweet of None \<Rightarrow> g | Some [] \<Rightarrow> g | Some (e # es) \<Rightarrow> f e es) = g"
  by (auto simp: no_errors_def)

lemma errors_not_no_errors [simp]: "errors tweet = Some (e # es) \<Longrightarrow> \<not> no_errors tweet"
  by (simp add: no_errors_def)

text \<open>
  C4. The block of \<^verbatim>\<open>fetchTweetData\<close> that chooses \<^verbatim>\<open>imageUrl\<close> implements the promised
  precedence: for every media list it returns the first of the candidates, where the
  candidates are the direct URLs of the photos, then the preview URLs of the photos,
  then the preview URLs of the videos, each group in list order and only non-empty URLs.
\<close>

theorem select_image_refines: "select_image (Some ms) = select_spec ms"
  by (simp add: select_image_Some select_simple_spec)

text \<open>
  C5. An image URL that the resolver chooses is never empty and never made up: it is the
  direct or preview URL of a photo, or the preview URL of a video, of the media list the
  lookup returned.
\<close>

theorem select_image_sound:
  assumes "select_image media_opt = Some u"
  shows "u \<noteq> [] \<and>
    (\<exists>ms. media_opt = Some ms \<and>
       (\<exists>m \<in> set ms. type m = ''photo'' \<and> (url m = Some u \<or> preview_image_url m = Some u)
                   \<or> type m = ''video'' \<and> preview_image_url m = Some u))"
proof -
  from assms obtain ms where ms: "media_opt = Some ms" and c: "Some u \<in> set (candidates ms)"
    using select_image_mem by blast
  from c have "truthy (Some u)" by (rule candidates_truthy)
  moreover from c have "\<exists>m \<in> set ms.
      type m = ''photo'' \<and> (url m = Some u \<or> preview_image_url m = Some u)
    \<or> type m = ''video'' \<and> preview_image_url m = Some u"
    by (auto simp: candidates_origin media_preds)
  ultimately show ?thesis using ms by simp
qed

theorem select_image_sound_witness:
  "select_image (Some [gif_item, video_thumb, photo_both]) = Some ''https://pbs.example/a.jpg''
   \<and> ''https://pbs.example/a.jpg'' \<noteq> []
   \<and> (\<exists>m \<in> set [gif_item, video_thumb, photo_both]. url m = Some ''https://pbs.example/a.jpg'')"
  using select_image_sound [of "Some [gif_item, video_thumb, photo_both]" "''https://pbs.example/a.jpg''"]
  by (simp add: select_image_Some select_simple_def media_preds sample_media)

text \<open>
  C34. Precedence rule 1: when the list holds a photo with a non-empty direct URL, the
  resolver returns the direct URL of the first such photo, whatever preview URLs it or
  any other attachment carries and wherever in the list it stands.
\<close>

theorem select_image_direct_photo:
  assumes "\<forall>p \<in> set ps. \<not> photo_with_url p" and "photo_with_url m"
  shows "select_image (Some (ps @ m # ss)) = url m"
  using assms by (simp add: select_image_Some select_simple_direct find_first)

theorem select_image_direct_photo_witness:
  "select_image (Some ([video_thumb, photo_preview_only] @ photo_both # [gif_item]))
     = Some ''https://pbs.example/a.jpg''"
  using select_image_direct_photo [of "[video_thumb, photo_preview_only]" photo_both "[gif_item]"]
  by (simp add: media_preds sample_media)

text \<open>
  C35. Precedence rule 2: when no photo has a non-empty direct URL, the resolver returns
  the preview URL of the first photo that has a non-empty one, even if a video with a
  preview comes earlier in the list.
\<close>

theorem select_image_photo_preview:
  assumes "\<forall>p \<in> set (ps @ m # ss). \<not> photo_with_url p"
    and "\<forall>p \<in> set ps. \<not> photo_with_preview p" and "photo_with_preview m"
  shows "select_image (Some (ps @ m # ss)) = preview_image_url m"
proof -
  from assms(1) have "List.find photo_with_url (ps @ m # ss) = None"
    by (auto simp: find_None_iff)
  moreover from assms(2,3) have "List.find photo_with_preview (ps @ m # ss) = Some m"
    by (rule find_first)
  ultimately show ?thesis
    by (simp add: select_image_Some select_simple_photo_preview)
qed

theorem select_image_photo_preview_witness:
  "select_image (Some ([video_thumb] @ photo_preview_only # [gif_item]))
     = Some ''https://pbs.example/b_small.jpg''"
  using select_image_photo_preview [of "[video_thumb]" photo_preview_only "[gif_item]"]
  by (simp add: media_preds sample_media)

text \<open>
  C36. Precedence rule 3: when no photo has a usable URL of either kind, the resolver
  returns the preview URL of the first video that has a non-empty one.
\<close>

theorem select_image_video_preview:
  assumes "\<forall>p \<in> set (ps @ m # ss). \<not> photo_with_url p \<and> \<not> photo_with_preview p"
    and "\<forall>p \<in> set ps. \<not> video_with_preview p" and "video_with_preview m"
  shows "select_image (Some (ps @ m # ss)) = preview_image_url m"
proof -
  from assms(1) have "List.find photo_with_url (ps @ m # ss) = None"
    and "List.find photo_with_preview (ps @ m # ss) = None"
    by (auto simp: find_None_iff)
  moreover from assms(2,3) have "List.find video_with_preview (ps @ m # ss) = Some m"
    by (rule find_first)
  ultimately show ?thesis
    by (simp add: select_image_Some select_simple_video_preview)
qed

theorem select_image_video_preview_witness:
  "select_image (Some ([gif_item] @ video_thumb # [])) = Some ''https://pbs.example/v_thumb.jpg''"
  using select_image_video_preview [of "[gif_item]" video_thumb "[]"]
  by (simp add: media_preds sample_media)

text \<open>
  C37. Precedence rule 4: the resolver leaves \<^verbatim>\<open>imageUrl\<close> undefined exactly when the
  response has no media list or the list has neither a photo with a non-empty direct or
  preview URL nor a video with a non-empty preview URL.
\<close>

theorem select_image_None_iff:
  "select_image media_opt = None \<longleftrightarrow>
     (\<forall>ms. media_opt = Some ms \<longrightarrow>
        (\<forall>m \<in> set ms. \<not> photo_with_url m \<and> \<not> photo_with_preview m \<and> \<not> video_with_preview m))"
  by (cases media_opt) (simp_all add: select_image_Some select_simple_None_iff)

theorem select_image_None_iff_witness:
  "select_image (Some [gif_item]) = None \<and> select_image (Some [video_thumb]) \<noteq> None"
  using select_image_None_iff [of "Some [gif_item]"] select_image_None_iff [of "Some [video_thumb]"]
  by (simp add: media_preds sample_media)

section \<open>Fetching the tweet\<close>

lemmas fetch_texts = fetching_line_def api_error_message_def no_data_message_def
  no_image_warning_def catch_line_def process_error_message_def

lemma tweet_answer_cases [case_names transport api_errors no_data found]:
  fixes answer :: "thrown + tweet_response"
  obtains e where "answer = Inl e"
  | tweet e es where "answer = Inr tweet" and "errors tweet = Some (e # es)"
  | tweet where "answer = Inr tweet" and "no_errors tweet" and "data tweet = None"
  | tweet d where "answer = Inr tweet" and "no_errors tweet" and "data tweet = Some d"
proof (cases answer)
  case (Inl e)
  then show ?thesis by (rule that(1))
next
  case (Inr tweet)
  show ?thesis
  proof (cases "no_errors tweet")
    case True
    with Inr that(3,4) show ?thesis by (cases "data tweet") auto
  next
    case False
    then obtain e es where "errors tweet = Some (e # es)"
      by (cases "errors tweet"; cases "the (errors tweet)") (auto simp: no_errors_def)
    with Inr show ?thesis by (rule that(2))
  qed
qed

lemma fetch_catch_emits:
  "emits (fetchTweetData_catch tweetId e)
     (Inl (Throw (Error (process_error_message tweetId (message_or ''Unknown error'' e)))))
     [(ERROR, [AString (catch_line tweetId), AString (message_or ''Unknown error'' e), AThrown e])]
     []"
  by (simp add: fetchTweetData_catch_def emits_def io_unfold Let_def)

lemma fetch_try_transport:
  assumes "twitter (singleTweet_request tweetId) = Inl e"
  shows "emits (fetchTweetData_try twitter tweetId) (Inl (Throw e)) []
     [SingleTweet (singleTweet_request tweetId)]"
  using assms by (simp add: fetchTweetData_try_def emits_def io_unfold)

lemma fetch_try_api_errors:
  assumes "twitter (singleTweet_request tweetId) = Inr tweet"
    and "errors tweet = Some (e # es)"
  shows "emits (fetchTweetData_try twitter tweetId)
     (Inl (Throw (Error (api_error_message (or_else (detail e) (title e))))))
     [(ERROR, [AString ''Error fetching tweet:'', arg_of (or_else (detail e) (title e)),
               AErrors (e # es)])]
     [SingleTweet (singleTweet_request tweetId)]"
  using assms by (simp add: fetchTweetData_try_def emits_def io_unfold Let_def)

lemma fetch_try_no_data:
  assumes "twitter (singleTweet_request tweetId) = Inr tweet"
    and "no_errors tweet" and "data tweet = None"
  shows "emits (fetchTweetData_try twitter tweetId) (Inl (Throw (Error no_data_message))) []
     [SingleTweet (singleTweet_request tweetId)]"
  using assms by (auto simp: fetchTweetData_try_def emits_def io_unfold no_errors_def)

lemma fetch_try_found:
  assumes "twitter (singleTweet_request tweetId) = Inr tweet"
    and "no_errors tweet" and "data tweet = Some d"
  shows "emits (fetchTweetData_try twitter tweetId)
     (Inr \<lparr>text' = text' d, imageUrl = select_image (opt_chain (includes' tweet) media)\<rparr>)
     (if truthy (select_image (opt_chain (includes' tweet) media)) then []
      else [(WARN, [AString (no_image_warning tweetId)])])
     [SingleTweet (singleTweet_request tweetId)]"
  using assms by (auto simp: fetchTweetData_try_def emits_def io_unfold Let_def no_errors_def)

lemma fetch_emits_Throw:
  assumes "emits (fetchTweetData_try twitter tweetId) (Inl (Throw e)) ls qs"
  shows "emits (fetchTweetData twitter tweetId)
     (Inl (Throw (Error (process_error_message tweetId (message_or ''Unknown error'' e)))))
     ((LOG, [AString (fetching_line tweetId)]) # ls @
      [(ERROR, [AString (catch_line tweetId), AString (message_or ''Unknown error'' e),
                AThrown e])])
     qs"
  unfolding fetchTweetData_def
  using emits_then_Inr [OF emits_write emits_try_Throw [OF assms fetch_catch_emits]]
  by simp

lemma fetch_emits_Inr:
  assumes "emits (fetchTweetData_try twitter tweetId) (Inr r) ls qs"
  shows "emits (fetchTweetData twitter tweetId) (Inr r)
     ((LOG, [AString (fetching_line tweetId)]) # ls) qs"
  unfolding fetchTweetData_def
  using emits_then_Inr [OF emits_write emits_try_Inr [OF assms]]
  by simp

lemmas fetch_transport = fetch_emits_Throw [OF fetch_try_transport, simplified]
lemmas fetch_api_errors = fetch_emits_Throw [OF fetch_try_api_errors, simplified]
lemmas fetch_no_data = fetch_emits_Throw [OF fetch_try_no_data, simplified]
lemmas fetch_found = fetch_emits_Inr [OF fetch_try_found]
lemma fetch_emits:
  "emits (fetchTweetData twitter tweetId)
     (fetch_result (twitter (singleTweet_request tweetId)) tweetId)
     (fetch_lines (twitter (singleTweet_request tweetId)) tweetId)
     [SingleTweet (singleTweet_request tweetId)]"
proof (cases "twitter (singleTweet_request tweetId)" rule: tweet_answer_cases)
  case (transport e)
  from fetch_transport [of twitter tweetId, OF this] transport show ?thesis
    by (simp add: fetch_result_def fetch_lines_def catch_entry_def)
next
  case (api_errors tweet e es)
  from fetch_api_errors [of twitter tweetId, OF this] api_errors show ?thesis
    by (simp add: fetch_result_def fetch_lines_def catch_entry_def)
next
  case (no_data tweet)
  from fetch_no_data [of twitter tweetId, OF this] no_data show ?thesis
    by (auto simp: fetch_result_def fetch_lines_def catch_entry_def no_errors_def)
next
  case (found tweet d)
  from fetch_found [of twitter tweetId, OF this] found show ?thesis
    by (auto simp: fetch_result_def fetch_lines_def no_errors_def)
qed

lemma fetch_outbound:
  "outbound (snd (fetchTweetData twitter tweetId w)) =
     outbound w @ [SingleTweet (singleTweet_request tweetId)]"
  using fetch_emits by (rule emits_outbound)

lemma fetch_outcome:
  "fst (fetchTweetData twitter tweetId w) =
     fetch_result (twitter (singleTweet_request tweetId)) tweetId"
  using fetch_emits by (rule emits_fst)

lemma fetch_result_cases:
  obtains r where "fetch_result answer tweetId = Inr r"
  | msg where "fetch_result answer tweetId = Inl (Throw (Error msg))"
  by (cases answer rule: tweet_answer_cases) (auto simp: fetch_result_def no_errors_def)

lemma fetch_result_not_Exit: "fetch_result answer tweetId \<noteq> Inl (Exit n)"
  by (rule fetch_result_cases [of answer tweetId]) simp_all

lemma resolved_simps:
  "resolved (Inl e) = None"
  "errors tweet = Some (x # xs) \<Longrightarrow> resolved (Inr tweet) = None"
  "data tweet = None \<Longrightarrow> resolved (Inr tweet) = None"
  "no_errors tweet \<Longrightarrow> data tweet = Some d
     \<Longrightarrow> resolved (Inr tweet) = select_image (opt_chain (includes' tweet) media)"
  by (simp_all add: resolved_def)

lemma resolved_explicit:
  "resolved answer = Some u \<longleftrightarrow>
     (\<exists>tweet d. answer = Inr tweet \<and> no_errors tweet
        \<and> data tweet = Some d \<and> select_image (opt_chain (includes' tweet) media) = Some u)"
  by (cases answer) (auto simp: resolved_def)

lemma resolved_truthy:
  assumes "resolved answer = Some u"
  shows "u \<noteq> []"
proof -
  from assms obtain tweet :: tweet_response
    where "select_image (opt_chain (includes' tweet) media) = Some u"
    by (auto simp: resolved_explicit)
  then show ?thesis
    using select_image_truthy_iff [of "opt_chain (includes' tweet) media"] by simp
qed

lemma fetch_result_Inr_resolved:
  "fetch_result answer tweetId = Inr r \<Longrightarrow> imageUrl r = resolved answer"
  by (cases answer rule: tweet_answer_cases)
    (auto simp: fetch_result_def resolved_def no_errors_def)

lemma fetch_result_Inl_resolved:
  "fetch_result answer tweetId = Inl a \<Longrightarrow> resolved answer = None"
  by (cases answer rule: tweet_answer_cases)
    (auto simp: fetch_result_def resolved_def no_errors_def)

lemma fetch_lines_resolved:
  assumes "resolved answer = Some u"
  shows "fetch_lines answer tweetId = [(LOG, [AString (fetching_line tweetId)])]"
  using assms resolved_truthy [OF assms]
  by (auto simp: resolved_explicit fetch_lines_def no_errors_def)

lemma resolved_Some_iff:
  "resolved answer = Some u \<longleftrightarrow>
     (\<exists>r. fetch_result answer tweetId = Inr r \<and> imageUrl r = Some u \<and> u \<noteq> [])"
  using fetch_result_Inr_resolved [of answer tweetId] fetch_result_Inl_resolved [of answer tweetId]
  by (cases "fetch_result answer tweetId") (auto dest: resolved_truthy)


lemma process_error_message_includes:
  "str_includes msg d \<Longrightarrow> str_includes (process_error_message tweetId msg) d"
  unfolding process_error_message_def
  using str_includes_suffixI [of msg d "''Failed to process tweet '' @ tweetId @ '': ''"]
  by simp

lemma api_error_message_includes: "str_includes (api_error_message v) (template v)"
  unfolding api_error_message_def by (rule str_includes_suffixI) simp

text \<open>
  C33. When the lookup's response carries a non-empty error list, \<^verbatim>\<open>fetchTweetData\<close>
  fails whatever else the response holds. After the line that announces the fetch it
  writes two error lines: the first with the detail of the first entry (its title when
  the detail is absent or empty) and the whole list, the second, written by its handler,
  with the message of the error thrown for that entry. It throws an \<^verbatim>\<open>Error\<close> whose
  message wraps that message once more and therefore contains the detail (or title).
  It has sent the one lookup request and nothing else.
\<close>

theorem fetchTweetData_api_error:
  assumes "twitter (singleTweet_request tweetId) = Inr tweet"
    and "errors tweet = Some (e # es)"
  shows "fetchTweetData twitter tweetId w =
      (Inl (Throw (Error (process_error_message tweetId
         (api_error_message (if truthy (detail e) then detail e else title e))))),
       w\<lparr>console := console w @
            [(LOG, [AString (fetching_line tweetId)]),
             (ERROR, [AString ''Error fetching tweet:'',
                      arg_of (if truthy (detail e) then detail e else title e),
                      AErrors (e # es)]),
             (ERROR, [AString (catch_line tweetId),
                AString (api_error_message (if truthy (detail e) then detail e else title e)),
                AThrown (Error
                  (api_error_message (if truthy (detail e) then detail e else title e)))])],
          outbound := outbound w @ [SingleTweet (singleTweet_request tweetId)]\<rparr>)
     \<and> str_includes
         (process_error_message tweetId
            (api_error_message (if truthy (detail e) then detail e else title e)))
         (template (if truthy (detail e) then detail e else title e))"
proof -
  let ?v = "if truthy (detail e) then detail e else title e"
  have v: "or_else (detail e) (title e) = ?v"
    by (simp add: or_else_def)
  have "str_includes (process_error_message tweetId (api_error_message ?v)) (template ?v)"
    by (intro process_error_message_includes api_error_message_includes)
  with emits_apply [OF fetch_api_errors [of twitter tweetId, OF assms], of w] show ?thesis
    unfolding v by simp
qed

theorem fetchTweetData_api_error_witness:
  "fetchTweetData (\<lambda>_. Inr tweet_failed) ''1921299860000518230'' init_world =
     (Inl (Throw (Error
        ''Failed to process tweet 1921299860000518230: Failed to fetch tweet: Could not find tweet'')),
      \<lparr>console =
         [(LOG, [AString ''Fetching tweet from Twitter API: 1921299860000518230'']),
          (ERROR, [AString ''Error fetching tweet:'', AString ''Could not find tweet'',
                   AErrors [\<lparr>detail = Some ''Could not find tweet'',
                             title = Some ''Not Found Error''\<rparr>]]),
          (ERROR, [AString ''Error fetching or processing tweet 1921299860000518230 from API:'',
                   AString ''Failed to fetch tweet: Could not find tweet'',
                   AThrown (Error ''Failed to fetch tweet: Could not find tweet'')])],
       outbound = [SingleTweet (singleTweet_request ''1921299860000518230'')]\<rparr>)"
  using fetchTweetData_api_error [of "\<lambda>_. Inr tweet_failed" "''1921299860000518230''" tweet_failed
      "\<lparr>detail = Some ''Could not find tweet'', title = Some ''Not Found Error''\<rparr>" "[]" init_world]
  by (simp add: sample_tweets fetch_texts init_world_def)

text \<open>
  C10. \<^verbatim>\<open>fetchTweetData\<close> fails when the response has no error entry and no tweet
  payload, and when the lookup itself throws. In both cases the function sends the one
  lookup request, writes the line that announces the fetch and then one error line
  through its handler (the context text, the message of the cause, and the cause), and
  throws an \<^verbatim>\<open>Error\<close> whose message is \<^verbatim>\<open>Failed to process tweet <id>: \<close> followed by
  the message of the cause. The message of the cause is the "tweet data not found"
  text, the message of the thrown \<^verbatim>\<open>Error\<close>, or \<^verbatim>\<open>Unknown error\<close> for a thrown value
  that is no \<^verbatim>\<open>Error\<close>.
\<close>

theorem fetchTweetData_failures:
  assumes "twitter (singleTweet_request tweetId) = answer"
  shows "(\<forall>tweet. answer = Inr tweet \<longrightarrow> no_errors tweet \<longrightarrow> data tweet = None \<longrightarrow>
            fetchTweetData twitter tweetId w =
              (Inl (Throw (Error (process_error_message tweetId no_data_message))),
               w\<lparr>console := console w @
                    [(LOG, [AString (fetching_line tweetId)]),
                     (ERROR, [AString (catch_line tweetId), AString no_data_message,
                              AThrown (Error no_data_message)])],
                  outbound := outbound w @ [SingleTweet (singleTweet_request tweetId)]\<rparr>))
       \<and> (\<forall>e. answer = Inl e \<longrightarrow>
            fetchTweetData twitter tweetId w =
              (Inl (Throw (Error (process_error_message tweetId
                 (case e of Error m \<Rightarrow> m | NonError \<Rightarrow> ''Unknown error'')))),
               w\<lparr>console := console w @
                    [(LOG, [AString (fetching_line tweetId)]),
                     (ERROR, [AString (catch_line tweetId),
                              AString (case e of Error m \<Rightarrow> m | NonError \<Rightarrow> ''Unknown error''),
                              AThrown e])],
                  outbound := outbound w @ [SingleTweet (singleTweet_request tweetId)]\<rparr>))"
proof (intro conjI allI impI)
  fix tweet
  assume "answer = Inr tweet" and "no_errors tweet" and "data tweet = None"
  with assms show "fetchTweetData twitter tweetId w =
      (Inl (Throw (Error (process_error_message tweetId no_data_message))),
       w\<lparr>console := console w @
            [(LOG, [AString (fetching_line tweetId)]),
             (ERROR, [AString (catch_line tweetId), AString no_data_message,
                      AThrown (Error no_data_message)])],
          outbound := outbound w @ [SingleTweet (singleTweet_request tweetId)]\<rparr>)"
    using emits_apply [OF fetch_no_data [of twitter tweetId tweet], of w] by simp
next
  fix e
  assume "answer = Inl e"
  with assms have "twitter (singleTweet_request tweetId) = Inl e" by simp
  from emits_apply [OF fetch_transport [of twitter tweetId e, OF this], of w]
  show "fetchTweetData twitter tweetId w =
      (Inl (Throw (Error (process_error_message tweetId
         (case e of Error m \<Rightarrow> m | NonError \<Rightarrow> ''Unknown error'')))),
       w\<lparr>console := console w @
            [(LOG, [AString (fetching_line tweetId)]),
             (ERROR, [AString (catch_line tweetId),
                      AString (case e of Error m \<Rightarrow> m | NonError \<Rightarrow> ''Unknown error''),
                      AThrown e])],
          outbound := outbound w @ [SingleTweet (singleTweet_request tweetId)]\<rparr>)"
    by (simp add: message_or_def)
qed

theorem fetchTweetData_failures_witness:
  "fetchTweetData (\<lambda>_. Inr tweet_empty) ''7'' init_world =
     (Inl (Throw (Error ''Failed to process tweet 7: Tweet data not found in API response.'')),
      \<lparr>console =
         [(LOG, [AString ''Fetching tweet from Twitter API: 7'']),
          (ERROR, [AString ''Error fetching or processing tweet 7 from API:'',
                   AString ''Tweet data not found in API response.'',
                   AThrown (Error ''Tweet data not found in API response.'')])],
       outbound = [SingleTweet (singleTweet_request ''7'')]\<rparr>)
   \<and> fetchTweetData (\<lambda>_. Inl (Error ''429 Too Many Requests'')) ''7'' init_world =
     (Inl (Throw (Error ''Failed to process tweet 7: 429 Too Many Requests'')),
      \<lparr>console =
         [(LOG, [AString ''Fetching tweet from Twitter API: 7'']),
          (ERROR, [AString ''Error fetching or processing tweet 7 from API:'',
                   AString ''429 Too Many Requests'', AThrown (Error ''429 Too Many Requests'')])],
       outbound = [SingleTweet (singleTweet_request ''7'')]\<rparr>)
   \<and> fetchTweetData (\<lambda>_. Inl NonError) ''7'' init_world =
     (Inl (Throw (Error ''Failed to process tweet 7: Unknown error'')),
      \<lparr>console =
         [(LOG, [AString ''Fetching tweet from Twitter API: 7'']),
          (ERROR, [AString ''Error fetching or processing tweet 7 from API:'',
                   AString ''Unknown error'', AThrown NonError])],
       outbound = [SingleTweet (singleTweet_request ''7'')]\<rparr>)"
  using fetchTweetData_failures [of "\<lambda>_. Inr tweet_empty" "''7''" "Inr tweet_empty" init_world]
    fetchTweetData_failures [of "\<lambda>_. Inl (Error ''429 Too Many Requests'')" "''7''"
      "Inl (Error ''429 Too Many Requests'')" init_world]
    fetchTweetData_failures [of "\<lambda>_. Inl NonError" "''7''" "Inl NonError" init_world]
  by (simp add: sample_tweets fetch_texts no_errors_def init_world_def)

text \<open>
  C11. When the response has a tweet payload and no error entry, \<^verbatim>\<open>fetchTweetData\<close>
  returns the chosen image URL and the tweet's text. A missing image is no error: the
  function still returns, with \<^verbatim>\<open>imageUrl\<close> undefined, and it has written the warning
  to the console exactly in that case, after the line that announces the fetch. It has
  sent the one lookup request and nothing else.
\<close>

theorem fetchTweetData_found:
  assumes "twitter (singleTweet_request tweetId) = Inr tweet"
    and "no_errors tweet" and "data tweet = Some d"
  shows "fetchTweetData twitter tweetId w =
      (Inr \<lparr>text' = text' d, imageUrl = select_image (opt_chain (includes' tweet) media)\<rparr>,
       w\<lparr>console := console w @ (LOG, [AString (fetching_line tweetId)]) #
             (if select_image (opt_chain (includes' tweet) media) = None
              then [(WARN, [AString (no_image_warning tweetId)])] else []),
          outbound := outbound w @ [SingleTweet (singleTweet_request tweetId)]\<rparr>)"
  using emits_apply [OF fetch_found [of twitter tweetId, OF assms], of w]
  by (simp add: select_image_truthy_iff)

theorem fetchTweetData_found_witness:
  "fetchTweetData (\<lambda>_. Inr (tweet_with [gif_item])) ''7'' init_world =
     (Inr \<lparr>text' = Some ''my new hat'', imageUrl = None\<rparr>,
      \<lparr>console =
         [(LOG, [AString ''Fetching tweet from Twitter API: 7'']),
          (WARN, [AString
            ''Tweet 7 does not appear to contain a usable image URL (photo or video thumbnail).''])],
       outbound = [SingleTweet (singleTweet_request ''7'')]\<rparr>)"
  using fetchTweetData_found [of "\<lambda>_. Inr (tweet_with [gif_item])" "''7''" "tweet_with [gif_item]"
      "\<lparr>text' = Some ''my new hat''\<rparr>" init_world]
  by (simp add: sample_tweets sample_media fetch_texts no_errors_def init_world_def
      select_image_Some select_simple_def media_preds)

text \<open>
  C38. Whatever the lookup answers, \<^verbatim>\<open>fetchTweetData\<close> sends exactly one request, the
  lookup of the given tweet with the media expansion and the three media fields, and it
  never ends the process: its outcome is a value or a thrown \<^verbatim>\<open>Error\<close>.
\<close>

theorem fetchTweetData_one_request:
  "outbound (snd (fetchTweetData twitter tweetId w)) =
     outbound w @ [SingleTweet \<lparr>tweet_id = tweetId,
                                expansions = [''attachments.media_keys''],
                                media_fields = [''url'', ''type'', ''preview_image_url'']\<rparr>]
   \<and> ((\<exists>r. fst (fetchTweetData twitter tweetId w) = Inr r)
      \<or> (\<exists>msg. fst (fetchTweetData twitter tweetId w) = Inl (Throw (Error msg))))"
proof -
  have "(\<exists>r. fst (fetchTweetData twitter tweetId w) = Inr r)
      \<or> (\<exists>msg. fst (fetchTweetData twitter tweetId w) = Inl (Throw (Error msg)))"
    by (rule fetch_result_cases [of "twitter (singleTweet_request tweetId)" tweetId])
      (simp_all add: fetch_outcome)
  then show ?thesis
    by (simp add: fetch_outbound singleTweet_request_def)
qed

text \<open>
  C39. The \<^verbatim>\<open>imageUrl\<close> of a result that \<^verbatim>\<open>fetchTweetData\<close> returns, when present, is
  non-empty and is one of the candidates of the media list that the lookup returned for
  this tweet.
\<close>

theorem fetchTweetData_image_sound:
  assumes "fst (fetchTweetData twitter tweetId w) = Inr r" and "imageUrl r = Some u"
  shows "u \<noteq> [] \<and>
    (\<exists>tweet inc ms. twitter (singleTweet_request tweetId) = Inr tweet
        \<and> includes' tweet = Some inc \<and> media inc = Some ms \<and> Some u \<in> set (candidates ms))"
proof (cases "twitter (singleTweet_request tweetId)" rule: tweet_answer_cases)
  case (found tweet d)
  with assms have sel: "select_image (opt_chain (includes' tweet) media) = Some u"
    by (auto simp: fetch_outcome fetch_result_def no_errors_def)
  then obtain ms where ms: "opt_chain (includes' tweet) media = Some ms"
    and c: "Some u \<in> set (candidates ms)"
    using select_image_mem by blast
  from ms obtain inc where "includes' tweet = Some inc" and "media inc = Some ms"
    by (cases "includes' tweet") simp_all
  moreover from c have "truthy (Some u)" by (rule candidates_truthy)
  ultimately show ?thesis using found(1) c by simp
qed (use assms in \<open>auto simp: fetch_outcome fetch_result_def no_errors_def\<close>)

theorem fetchTweetData_image_sound_witness:
  "fst (fetchTweetData (\<lambda>_. Inr (tweet_with [video_thumb])) ''7'' init_world) =
     Inr \<lparr>text' = Some ''my new hat'', imageUrl = Some ''https://pbs.example/v_thumb.jpg''\<rparr>
   \<and> Some ''https://pbs.example/v_thumb.jpg'' \<in> set (candidates [video_thumb])"
  using fetchTweetData_image_sound [of "\<lambda>_. Inr (tweet_with [video_thumb])" "''7''" init_world
      "\<lparr>text' = Some ''my new hat'', imageUrl = Some ''https://pbs.example/v_thumb.jpg''\<rparr>"
      "''https://pbs.example/v_thumb.jpg''"]
  by (simp add: fetch_outcome fetch_result_def sample_tweets sample_media select_image_Some
      select_simple_def media_preds candidates_def)

end
