(* ===== verification/Visual_Verifier.thy ===== *)
theory Visual_Verifier
  imports Effects
begin

text \<open>
  The visual verifier of \<^verbatim>\<open>src/src/index.ts\<close>: the three reference image URLs, the
  response schema, the two prompts, and \<^verbatim>\<open>askOpenAIAboutImage\<close> (lines 96 to 140), which
  builds one chat request from them and the candidate image, sends it, and returns the
  parsed object of the first choice. \<open>verification_request\<close> is the argument of the
  \<^verbatim>\<open>parse\<close> call; \<open>askOpenAIAboutImage_catch\<close> is the \<^verbatim>\<open>catch\<close> handler.

  The inference service is a parameter: a function from the request to a thrown value
  or a completion. That the service fills \<^verbatim>\<open>parsed\<close> only with objects of the schema is
  the service's promise and is carried by the type \<open>verification\<close>. A completion has
  the shape line 135 reads: a \<^verbatim>\<open>choices\<close> array, possibly empty, of choices whose message
  and parsed object may be absent. A completion without that array, on which line 135
  would raise a \<^verbatim>\<open>TypeError\<close> that the handler of line 136 catches, is not a value of
  the model.

  \<open>request_images\<close> reads the image URLs of a request in the order they are sent.
  \<open>ask_result\<close> and \<open>ask_lines\<close> give the outcome and the console lines of the
  function as pure functions of the service's answer, and \<open>ask_emits\<close> proves that the
  function produces them.
\<close>

section \<open>Constants\<close>

definition referenceImageUrls :: "string list" where
  "referenceImageUrls =
     [''https://raw.githubusercontent.com/KuphJr/proof-of-hat/main/tunnl-hat-front.jpg'',
      ''https://raw.githubusercontent.com/KuphJr/proof-of-hat/main/tunnl-hat-side-1.jpg'',
      ''https://raw.githubusercontent.com/KuphJr/proof-of-hat/main/tunnl-hat-side-2.jpg'']"

definition verificationResponseSchema :: zod where
  "verificationResponseSchema =
     z_object
       [(''result'', z_boolean ''Whether the image contains a Tunnl hat.''),
        (''reasoning'', z_string ''A short explanation of the reasoning for the result.'')]"

definition systemPrompt :: string where
  \<open>systemPrompt =
     ''You are a vision model that analyzes images to determine if they contain a black baseball hat with a "tunnl" logo on it anywhere within the image.''\<close>

definition userPrompt :: string where
  \<open>userPrompt =
     ''The first 3 images are reference photos of the black baseball cap with the white "tunnl" logo. The last image is the image you are analyzing.\<newline>'' @
     ''Please analyze the final image and return your answer in this exact JSON format:\<newline>'' @
     ''{\<newline>'' @
     ''  "result": true if the image contains a black baseball hat with a "tunnl" logo on it. false if you cannot see the hat with the logo anywhere in the image.\<newline>'' @
     ''  "reasoning": "Short explanation of why or why not you think the image contains a black baseball hat with a "tunnl" logo on it."\<newline>'' @
     ''}\<newline>'' @
     ''\<newline>'' @
     ''Only output the JSON object.''\<close>

section \<open>The request\<close>

definition zodResponseFormat :: "zod \<Rightarrow> string \<Rightarrow> response_format" where
  "zodResponseFormat s n = \<lparr>schema = s, format_name = n\<rparr>"

definition referenceImageMessages :: "content_part list" where
  "referenceImageMessages = map (\<lambda>imageUrl. Image_url imageUrl) referenceImageUrls"

definition imageToAnalyzeMessage :: "string \<Rightarrow> content_part" where
  "imageToAnalyzeMessage imageUrl = Image_url imageUrl"

definition verification_request :: "string \<Rightarrow> chat_request" where
  "verification_request imageUrl =
     \<lparr>model = ''gpt-4o'',
      temperature = 0,
      messages =
        [\<lparr>role = ''system'', content = Plain systemPrompt\<rparr>,
         \<lparr>role = ''user'',
          content = Parts (Text userPrompt # referenceImageMessages @
                           [imageToAnalyzeMessage imageUrl])\<rparr>],
      response_format = zodResponseFormat verificationResponseSchema ''response''\<rparr>"

section \<open>Asking\<close>

definition openai_failure_message :: "thrown \<Rightarrow> string" where
  "openai_failure_message error =
     ''Failed to get response from OpenAI about the image. '' @ message_or [] error"

definition askOpenAIAboutImage_catch :: "thrown \<Rightarrow> 'a io" where
  "askOpenAIAboutImage_catch error =
     io_then
       (console_write ERROR
          [AString ''Error asking OpenAI:'',
           (case error of Error m \<Rightarrow> AString m | NonError \<Rightarrow> AThrown error)])
       (io_throw (Error (openai_failure_message error)))"

definition askOpenAIAboutImage :: "openai_api \<Rightarrow> string \<Rightarrow> verification option io" where
  "askOpenAIAboutImage openai imageUrl =
     try_catch
       (io_bind (call (ChatParse (verification_request imageUrl))
                   (openai (verification_request imageUrl)))
          (\<lambda>result. io_return (opt_chain (opt_chain (index0 (choices result)) message) parsed)))
       askOpenAIAboutImage_catch"

section \<open>Reading a request\<close>

fun part_image :: "content_part \<Rightarrow> string option" where
  "part_image (Image_url u) = Some u"
| "part_image (Text t) = None"
| "part_image (Input_text t) = None"

fun content_images :: "message_content \<Rightarrow> string list" where
  "content_images (Plain s) = []"
| "content_images (Parts ps) = List.map_filter part_image ps"

definition request_images :: "chat_message list \<Rightarrow> string list" where
  "request_images ms = concat (map (\<lambda>m. content_images (content m)) ms)"

subsection \<open>Transcript of a question\<close>

definition first_parsed :: "completion \<Rightarrow> verification option" where
  "first_parsed c = opt_chain (opt_chain (index0 (choices c)) message) parsed"

definition ask_result :: "thrown + completion \<Rightarrow> abrupt + verification option" where
  "ask_result answer =
     (case answer of
        Inl e \<Rightarrow> Inl (Throw (Error (openai_failure_message e)))
      | Inr c \<Rightarrow> Inr (first_parsed c))"

definition ask_lines :: "thrown + completion \<Rightarrow> log_entry list" where
  "ask_lines answer =
     (case answer of
        Inl e \<Rightarrow> [(ERROR, [AString ''Error asking OpenAI:'',
                           (case e of Error m \<Rightarrow> AString m | NonError \<Rightarrow> AThrown e)])]
      | Inr c \<Rightarrow> [])"

subsection \<open>Sample completions\<close>

definition hat_seen :: verification where
  "hat_seen = \<lparr>result = True, reasoning = ''hat visible on subject's head''\<rparr>"

definition completion_with :: "verification option \<Rightarrow> completion" where
  "completion_with p = \<lparr>choices = [\<lparr>message = Some \<lparr>parsed = p, content' = None\<rparr>\<rparr>]\<rparr>"

definition completion_empty :: completion where
  "completion_empty = \<lparr>choices = []\<rparr>"

lemmas sample_completions = hat_seen_def completion_with_def completion_empty_def

section \<open>Lemmas on the request\<close>

lemmas request_defs = verification_request_def referenceImageMessages_def
  imageToAnalyzeMessage_def zodResponseFormat_def

lemma map_filter_part_image [simp]: "List.map_filter part_image (map Image_url us) = us"
  by (induction us) (simp_all add: List.map_filter_simps)

lemma map_filter_part_image_append [simp]:
  "List.map_filter part_image (ps @ qs) =
     List.map_filter part_image ps @ List.map_filter part_image qs"
  by (simp add: List.map_filter_def)

lemma length_referenceImageUrls [simp]: "length referenceImageUrls = 3"
  by (simp add: referenceImageUrls_def)

lemma request_images_verification [simp]:
  "request_images (messages (verification_request u)) = referenceImageUrls @ [u]"
  by (simp add: request_images_def request_defs List.map_filter_simps)

section \<open>Lemmas on asking\<close>

lemma first_parsed_cases:
  "first_parsed c =
     (case choices c of
        [] \<Rightarrow> None
      | ch # _ \<Rightarrow> (case message ch of None \<Rightarrow> None | Some m \<Rightarrow> parsed m))"
  by (simp add: first_parsed_def index0_def opt_chain_def split: list.splits option.splits)

lemma ask_catch_emits:
  "emits (askOpenAIAboutImage_catch e) (Inl (Throw (Error (openai_failure_message e))))
     [(ERROR, [AString ''Error asking OpenAI:'',
               (case e of Error m \<Rightarrow> AString m | NonError \<Rightarrow> AThrown e)])]
     []"
  by (simp add: askOpenAIAboutImage_catch_def emits_def io_unfold)

lemma ask_answered:
  assumes "openai (verification_request u) = Inr c"
  shows "emits (askOpenAIAboutImage openai u) (Inr (first_parsed c)) []
     [ChatParse (verification_request u)]"
  unfolding askOpenAIAboutImage_def first_parsed_def
  using emits_try_Inr [OF emits_bind_Inr [OF emits_call_Inr [OF assms] emits_return]]
  by simp

lemma ask_thrown:
  assumes "openai (verification_request u) = Inl e"
  shows "emits (askOpenAIAboutImage openai u) (Inl (Throw (Error (openai_failure_message e))))
     [(ERROR, [AString ''Error asking OpenAI:'',
               (case e of Error m \<Rightarrow> AString m | NonError \<Rightarrow> AThrown e)])]
     [ChatParse (verification_request u)]"
  unfolding askOpenAIAboutImage_def
  using emits_try_Throw [OF emits_bind_Inl [OF emits_call_Inl [OF assms]] ask_catch_emits]
  by simp

lemma ask_emits:
  "emits (askOpenAIAboutImage openai u)
     (ask_result (openai (verification_request u)))
     (ask_lines (openai (verification_request u)))
     [ChatParse (verification_request u)]"
proof (cases "openai (verification_request u)")
  case (Inl e)
  from ask_thrown [of openai u, OF this] Inl show ?thesis
    by (simp add: ask_result_def ask_lines_def)
next
  case (Inr c)
  from ask_answered [of openai u, OF this] Inr show ?thesis
    by (simp add: ask_result_def ask_lines_def)
qed

lemma ask_outbound:
  "outbound (snd (askOpenAIAboutImage openai u w)) =
     outbound w @ [ChatParse (verification_request u)]"
  using ask_emits by (rule emits_outbound)

lemma ask_outcome:
  "fst (askOpenAIAboutImage openai u w) = ask_result (openai (verification_request u))"
  using ask_emits by (rule emits_fst)

lemma ask_result_not_Exit: "ask_result answer \<noteq> Inl (Exit n)"
  by (cases answer) (simp_all add: ask_result_def)

text \<open>
  C6. The request that \<^verbatim>\<open>askOpenAIAboutImage\<close> builds has a system message and a user
  message, in this order; the images of the request are the three reference images in
  their fixed order followed by the candidate image, which is therefore the last one;
  the model is \<^verbatim>\<open>gpt-4o\<close>, the temperature is 0 and the response format binds the
  two-field schema under the name \<^verbatim>\<open>response\<close>.
\<close>

theorem verification_request_shape:
  "map role (messages (verification_request u)) = [''system'', ''user'']
   \<and> map content (messages (verification_request u)) =
       [Plain systemPrompt, Parts (Text userPrompt # map Image_url (referenceImageUrls @ [u]))]
   \<and> request_images (messages (verification_request u)) = referenceImageUrls @ [u]
   \<and> length (request_images (messages (verification_request u))) = 4
   \<and> last (request_images (messages (verification_request u))) = u
   \<and> model (verification_request u) = ''gpt-4o''
   \<and> temperature (verification_request u) = 0
   \<and> response_format (verification_request u) =
       \<lparr>schema = z_object [(''result'', z_boolean ''Whether the image contains a Tunnl hat.''),
                           (''reasoning'',
                            z_string ''A short explanation of the reasoning for the result.'')],
        format_name = ''response''\<rparr>"
proof -
  have "request_images (messages (verification_request u)) = referenceImageUrls @ [u]"
    and "length (request_images (messages (verification_request u))) = 4"
    and "last (request_images (messages (verification_request u))) = u"
    by simp_all
  moreover have "map role (messages (verification_request u)) = [''system'', ''user'']"
    and "map content (messages (verification_request u)) =
       [Plain systemPrompt, Parts (Text userPrompt # map Image_url (referenceImageUrls @ [u]))]"
    and "model (verification_request u) = ''gpt-4o''"
    and "temperature (verification_request u) = 0"
    by (simp_all add: request_defs)
  moreover have "response_format (verification_request u) =
       \<lparr>schema = z_object [(''result'', z_boolean ''Whether the image contains a Tunnl hat.''),
                           (''reasoning'',
                            z_string ''A short explanation of the reasoning for the result.'')],
        format_name = ''response''\<rparr>"
    by (simp add: request_defs verificationResponseSchema_def)
  ultimately show ?thesis by blast
qed

text \<open>
  C12. When the service answers with a completion, \<^verbatim>\<open>askOpenAIAboutImage\<close> returns the
  parsed object of the first choice as it is, writes nothing to the console, and has
  sent exactly the request above. In particular a parsed verdict is returned unmodified.
  With no choice, no message or no parsed object it returns \<^verbatim>\<open>undefined\<close> and does not
  fail.
\<close>

theorem askOpenAIAboutImage_returns:
  assumes "openai (verification_request u) = Inr c"
  shows "fst (askOpenAIAboutImage openai u w) =
           Inr (case choices c of
                  [] \<Rightarrow> None
                | ch # _ \<Rightarrow> (case message ch of None \<Rightarrow> None | Some m \<Rightarrow> parsed m))
     \<and> console (snd (askOpenAIAboutImage openai u w)) = console w
     \<and> outbound (snd (askOpenAIAboutImage openai u w)) =
         outbound w @ [ChatParse (verification_request u)]"
  using ask_answered [of openai u, OF assms] by (simp add: emitsD first_parsed_cases)

theorem askOpenAIAboutImage_returns_witness:
  "fst (askOpenAIAboutImage (\<lambda>_. Inr (completion_with (Some hat_seen))) ''https://pbs.example/a.jpg''
          init_world) =
     Inr (Some \<lparr>result = True, reasoning = ''hat visible on subject's head''\<rparr>)
   \<and> fst (askOpenAIAboutImage (\<lambda>_. Inr completion_empty) ''https://pbs.example/a.jpg'' init_world)
       = Inr None"
  using askOpenAIAboutImage_returns [of "\<lambda>_. Inr (completion_with (Some hat_seen))"
      "''https://pbs.example/a.jpg''" "completion_with (Some hat_seen)" init_world]
    askOpenAIAboutImage_returns [of "\<lambda>_. Inr completion_empty"
      "''https://pbs.example/a.jpg''" completion_empty init_world]
  by (simp add: sample_completions)

text \<open>
  C13. When the call to the service throws, \<^verbatim>\<open>askOpenAIAboutImage\<close> returns no verdict.
  It has sent the one request built for the image; it writes one error line, with the
  message of what was thrown (the thrown value itself when it is no \<^verbatim>\<open>Error\<close>); and it
  throws an \<^verbatim>\<open>Error\<close> whose message is the fixed context text followed by the message
  of what was thrown (by nothing for a value that is no \<^verbatim>\<open>Error\<close>).
\<close>

theorem askOpenAIAboutImage_throws:
  assumes "openai (verification_request u) = Inl e"
  shows "askOpenAIAboutImage openai u w =
      (Inl (Throw (Error (''Failed to get response from OpenAI about the image. '' @
                          (case e of Error m \<Rightarrow> m | NonError \<Rightarrow> [])))),
       w\<lparr>console := console w @
            [(ERROR, [AString ''Error asking OpenAI:'',
                      (case e of Error m \<Rightarrow> AString m | NonError \<Rightarrow> AThrown e)])],
          outbound := outbound w @ [ChatParse (verification_request u)]\<rparr>)"
  using emits_apply [OF ask_thrown [of openai u, OF assms], of w]
  by (simp add: openai_failure_message_def message_or_def)

theorem askOpenAIAboutImage_throws_witness:
  "askOpenAIAboutImage (\<lambda>_. Inl (Error ''503'')) ''https://pbs.example/a.jpg'' init_world =
     (Inl (Throw (Error ''Failed to get response from OpenAI about the image. 503'')),
      \<lparr>console = [(ERROR, [AString ''Error asking OpenAI:'', AString ''503''])],
       outbound = [ChatParse (verification_request ''https://pbs.example/a.jpg'')]\<rparr>)
   \<and> askOpenAIAboutImage (\<lambda>_. Inl NonError) ''https://pbs.example/a.jpg'' init_world =
     (Inl (Throw (Error ''Failed to get response from OpenAI about the image. '')),
      \<lparr>console = [(ERROR, [AString ''Error asking OpenAI:'', AThrown NonError])],
       outbound = [ChatParse (verification_request ''https://pbs.example/a.jpg'')]\<rparr>)"
  using askOpenAIAboutImage_throws [of "\<lambda>_. Inl (Error ''503'')" "''https://pbs.example/a.jpg''"
      "Error ''503''" init_world]
    askOpenAIAboutImage_throws [of "\<lambda>_. Inl NonError" "''https://pbs.example/a.jpg''"
      NonError init_world]
  by (simp add: init_world_def)

text \<open>
  C40. Whatever the service answers, \<^verbatim>\<open>askOpenAIAboutImage\<close> sends exactly one request,
  never ends the process, and its outcome is a value or a thrown \<^verbatim>\<open>Error\<close>.
\<close>

theorem askOpenAIAboutImage_one_request:
  "outbound (snd (askOpenAIAboutImage openai u w)) =
     outbound w @ [ChatParse (verification_request u)]
   \<and> ((\<exists>v. fst (askOpenAIAboutImage openai u w) = Inr v)
      \<or> (\<exists>msg. fst (askOpenAIAboutImage openai u w) = Inl (Throw (Error msg))))"
  by (cases "openai (verification_request u)")
    (simp_all add: ask_outbound ask_outcome ask_result_def)

end
