(* ===== verification/Main_Flow.thy ===== *)
theory Main_Flow
  imports Tweet_Resolver Visual_Verifier
begin

text \<open>
  The top level of \<^verbatim>\<open>src/src/index.ts\<close>: the two checks of the environment (lines 16 to
  24, \<open>check_openai_key\<close> and \<open>check_twitter_token\<close>), \<^verbatim>\<open>main\<close> (lines 154 to 175) and
  the call of \<^verbatim>\<open>main\<close> with its \<^verbatim>\<open>catch\<close> (lines 177 to 181, \<open>unhandled_catch\<close>).
  \<open>main_try\<close> is the body of the \<^verbatim>\<open>try\<close> block of \<^verbatim>\<open>main\<close> and \<open>main_catch\<close> its
  handler; \<open>script\<close> is the module's top-level code in statement order; \<open>run\<close> starts
  it in the empty world and gives the exit code of the process with the final world.

  The exit code is the argument of \<^verbatim>\<open>process.exit\<close> when the script calls it, 0 when the
  script runs to its end, and 1 for an exception nobody caught
  (\<open>exit_code\<close>). Constructing the two clients (lines 26 to 28, 35 and 36) has no effect
  that the script observes and is not modelled.

  \<open>after_fetch\<close>, \<open>caught\<close>, \<open>main_summary\<close> and \<open>script_summary\<close> give the outcome,
  the console lines and the requests of a run as pure functions of the environment and
  of the services' answers; \<open>verdict\<close> is what a run prints when it succeeds.
\<close>

section \<open>Definitions\<close>

definition TWEET_ID :: string where
  "TWEET_ID = ''1921299860000518230''"

definition missing_openai_key :: string where
  "missing_openai_key = ''Error: OPENAI_API_KEY is not set in the .env file.''"

definition missing_twitter_token :: string where
  "missing_twitter_token =
     ''Error: TWITTER_BEARER_TOKEN is not set in the .env file. This is required to fetch tweet data.''"

definition processing_line :: string where
  "processing_line = ''Processing Tweet ID: '' @ TWEET_ID"

definition image_url_line :: "string option \<Rightarrow> string" where
  "image_url_line v = ''Image URL: '' @ template v"

definition no_image_message :: string where
  "no_image_message = ''No image URL found for Tweet ID: '' @ TWEET_ID @ ''.''"

definition main_try :: "twitter_api \<Rightarrow> openai_api \<Rightarrow> unit io" where
  "main_try twitter openai =
     io_bind (fetchTweetData twitter TWEET_ID)
       (\<lambda>tweetData.
          io_then (console_write LOG [AString (image_url_line (imageUrl tweetData))])
            (case imageUrl tweetData of
               None \<Rightarrow> io_throw (Error no_image_message)
             | Some u \<Rightarrow>
                 if u = [] then io_throw (Error no_image_message)
                 else io_bind (askOpenAIAboutImage openai u)
                        (\<lambda>openAIResponse. console_write LOG [AParsed openAIResponse])))"

definition main_catch :: "thrown \<Rightarrow> unit io" where
  "main_catch error =
     (let errorMessage = message_or ''An unknown error occurred'' error in
      io_then
        (console_write ERROR
           [AString ''Error in main execution:'', AString errorMessage, AThrown error])
        (io_exit 1))"

definition main :: "twitter_api \<Rightarrow> openai_api \<Rightarrow> unit io" where
  "main twitter openai =
     io_then (console_write LOG [AString processing_line])
       (try_catch (main_try twitter openai) main_catch)"

definition unhandled_catch :: "thrown \<Rightarrow> unit io" where
  "unhandled_catch error =
     (let errorMessage = message_or ''An unknown unhandled error'' error in
      io_then
        (console_write ERROR
           [AString ''Unhandled error in main execution:'', AString errorMessage, AThrown error])
        (io_exit 1))"

definition check_openai_key :: "env \<Rightarrow> unit io" where
  "check_openai_key env =
     (if \<not> truthy (env ''OPENAI_API_KEY'')
      then io_then (console_write ERROR [AString missing_openai_key]) (io_exit 1)
      else io_return ())"

definition check_twitter_token :: "env \<Rightarrow> unit io" where
  "check_twitter_token env =
     (if \<not> truthy (env ''TWITTER_BEARER_TOKEN'')
      then io_then (console_write ERROR [AString missing_twitter_token]) (io_exit 1)
      else io_return ())"

definition script :: "env \<Rightarrow> twitter_api \<Rightarrow> openai_api \<Rightarrow> unit io" where
  "script env twitter openai =
     io_then (check_openai_key env)
       (io_then (check_twitter_token env)
          (try_catch (main twitter openai) unhandled_catch))"

definition exit_code :: "abrupt + unit \<Rightarrow> nat" where
  "exit_code r = (case r of Inr _ \<Rightarrow> 0 | Inl (Exit n) \<Rightarrow> n | Inl (Throw _) \<Rightarrow> 1)"

definition run :: "env \<Rightarrow> twitter_api \<Rightarrow> openai_api \<Rightarrow> nat \<times> world" where
  "run env twitter openai =
     (exit_code (fst (script env twitter openai init_world)),
      snd (script env twitter openai init_world))"

subsection \<open>Summary of a run\<close>

definition main_error_entry :: "thrown \<Rightarrow> log_entry" where
  "main_error_entry e =
     (ERROR, [AString ''Error in main execution:'',
              AString (message_or ''An unknown error occurred'' e), AThrown e])"

definition after_fetch ::
  "openai_api \<Rightarrow> abrupt + tweet_result \<Rightarrow> (abrupt + unit) \<times> log_entry list \<times> request list" where
  "after_fetch openai fetched =
     (case fetched of
        Inl a \<Rightarrow> (Inl a, [], [])
      | Inr r \<Rightarrow>
          (case imageUrl r of
             None \<Rightarrow> (Inl (Throw (Error no_image_message)),
                       [(LOG, [AString (image_url_line None)])], [])
           | Some u \<Rightarrow>
               if u = [] then (Inl (Throw (Error no_image_message)),
                               [(LOG, [AString (image_url_line (Some u))])], [])
               else
                 (case ask_result (openai (verification_request u)) of
                    Inl a \<Rightarrow> (Inl a,
                              (LOG, [AString (image_url_line (Some u))]) #
                              ask_lines (openai (verification_request u)),
                              [ChatParse (verification_request u)])
                  | Inr p \<Rightarrow> (Inr (),
                              (LOG, [AString (image_url_line (Some u))]) #
                              ask_lines (openai (verification_request u)) @
                              [(LOG, [AParsed p])],
                              [ChatParse (verification_request u)]))))"

definition caught :: "(thrown \<Rightarrow> log_entry) \<Rightarrow> (abrupt + unit) \<times> log_entry list \<times> request list
    \<Rightarrow> (abrupt + unit) \<times> log_entry list \<times> request list" where
  "caught entry t =
     (case t of
        (Inl (Throw e), ls, qs) \<Rightarrow> (Inl (Exit 1), ls @ [entry e], qs)
      | _ \<Rightarrow> t)"

definition lookup :: "twitter_api \<Rightarrow> thrown + tweet_response" where
  "lookup twitter = twitter (singleTweet_request TWEET_ID)"

definition main_summary ::
  "twitter_api \<Rightarrow> openai_api \<Rightarrow> (abrupt + unit) \<times> log_entry list \<times> request list" where
  "main_summary twitter openai =
     (case caught main_error_entry (after_fetch openai (fetch_result (lookup twitter) TWEET_ID)) of
        (r, ls, qs) \<Rightarrow>
          (r, (LOG, [AString processing_line]) # fetch_lines (lookup twitter) TWEET_ID @ ls,
           SingleTweet (singleTweet_request TWEET_ID) # qs))"

definition script_summary ::
  "env \<Rightarrow> twitter_api \<Rightarrow> openai_api \<Rightarrow> (abrupt + unit) \<times> log_entry list \<times> request list" where
  "script_summary env twitter openai =
     (if \<not> truthy (env ''OPENAI_API_KEY'')
      then (Inl (Exit 1), [(ERROR, [AString missing_openai_key])], [])
      else if \<not> truthy (env ''TWITTER_BEARER_TOKEN'')
      then (Inl (Exit 1), [(ERROR, [AString missing_twitter_token])], [])
      else main_summary twitter openai)"

subsection \<open>What a run depends on\<close>

definition configured :: "env \<Rightarrow> bool" where
  "configured env \<longleftrightarrow> truthy (env ''OPENAI_API_KEY'') \<and> truthy (env ''TWITTER_BEARER_TOKEN'')"

definition verdict :: "thrown + tweet_response \<Rightarrow> openai_api \<Rightarrow> verification option option" where
  "verdict answer openai =
     (case resolved answer of
        None \<Rightarrow> None
      | Some u \<Rightarrow>
          (case openai (verification_request u) of
             Inl _ \<Rightarrow> None
           | Inr c \<Rightarrow> Some (first_parsed c)))"

definition failure_message :: "thrown + tweet_response \<Rightarrow> openai_api \<Rightarrow> string" where
  "failure_message answer openai =
     (case answer of
        Inl e \<Rightarrow> process_error_message TWEET_ID (message_or ''Unknown error'' e)
      | Inr tweet \<Rightarrow>
          (case errors tweet of
             Some (x # xs) \<Rightarrow>
               process_error_message TWEET_ID (api_error_message (or_else (detail x) (title x)))
           | _ \<Rightarrow>
               (case data tweet of
                  None \<Rightarrow> process_error_message TWEET_ID no_data_message
                | Some d \<Rightarrow>
                    (case select_image (opt_chain (includes' tweet) media) of
                       None \<Rightarrow> no_image_message
                     | Some u \<Rightarrow>
                         (case openai (verification_request u) of
                            Inl e \<Rightarrow> openai_failure_message e
                          | Inr c \<Rightarrow> [])))))"


subsection \<open>Sample environments and services\<close>

definition env_ok :: env where
  "env_ok = [''OPENAI_API_KEY'' \<mapsto> ''sk-test'', ''TWITTER_BEARER_TOKEN'' \<mapsto> ''AAAA'']"

definition env_no_twitter :: env where
  "env_no_twitter = [''OPENAI_API_KEY'' \<mapsto> ''sk-test'', ''TWITTER_BEARER_TOKEN'' \<mapsto> []]"

definition twitter_ok :: twitter_api where
  "twitter_ok = (\<lambda>_. Inr (tweet_with [video_thumb, photo_both]))"

definition openai_ok :: openai_api where
  "openai_ok = (\<lambda>_. Inr (completion_with (Some hat_seen)))"

section \<open>Lemmas on main\<close>

lemmas main_texts = TWEET_ID_def missing_openai_key_def missing_twitter_token_def
  processing_line_def image_url_line_def no_image_message_def

lemma main_catch_emits:
  "emits (main_catch e) (Inl (Exit 1))
     [(ERROR, [AString ''Error in main execution:'',
               AString (message_or ''An unknown error occurred'' e), AThrown e])] []"
  by (simp add: main_catch_def emits_def io_unfold Let_def)

lemma main_Throw:
  assumes "emits (main_try twitter openai) (Inl (Throw e)) ls qs"
  shows "emits (main twitter openai) (Inl (Exit 1))
     ((LOG, [AString processing_line]) # ls @
      [(ERROR, [AString ''Error in main execution:'',
                AString (message_or ''An unknown error occurred'' e), AThrown e])]) qs"
  unfolding main_def
  using emits_then_Inr [OF emits_write emits_try_Throw [OF assms main_catch_emits]] by simp

lemma main_Inr:
  assumes "emits (main_try twitter openai) (Inr x) ls qs"
  shows "emits (main twitter openai) (Inr x) ((LOG, [AString processing_line]) # ls) qs"
  unfolding main_def
  using emits_then_Inr [OF emits_write emits_try_Inr [OF assms]] by simp

lemma main_try_emits:
  "case after_fetch openai (fetch_result (twitter (singleTweet_request TWEET_ID)) TWEET_ID) of
     (r, ls, qs) \<Rightarrow>
       emits (main_try twitter openai) r
         (fetch_lines (twitter (singleTweet_request TWEET_ID)) TWEET_ID @ ls)
         (SingleTweet (singleTweet_request TWEET_ID) # qs)"
proof -
  let ?a = "twitter (singleTweet_request TWEET_ID)"
  have fetched: "emits (fetchTweetData twitter TWEET_ID) (fetch_result ?a TWEET_ID)
      (fetch_lines ?a TWEET_ID) [SingleTweet (singleTweet_request TWEET_ID)]"
    by (rule fetch_emits)
  show ?thesis
  proof (cases "fetch_result ?a TWEET_ID")
    case (Inl a)
    with fetched show ?thesis
      by (simp add: after_fetch_def main_try_def emits_def io_unfold)
  next
    case (Inr t)
    show ?thesis
    proof (cases "truthy (imageUrl t)")
      case False
      with fetched Inr show ?thesis
        by (cases "imageUrl t") (simp_all add: after_fetch_def main_try_def emits_def io_unfold)
    next
      case True
      then obtain u where u: "imageUrl t = Some u" "u \<noteq> []" by (rule truthyE)
      have "emits (askOpenAIAboutImage openai u) (ask_result (openai (verification_request u)))
          (ask_lines (openai (verification_request u))) [ChatParse (verification_request u)]"
        by (rule ask_emits)
      with fetched Inr u show ?thesis
        by (cases "ask_result (openai (verification_request u))")
          (simp_all add: after_fetch_def main_try_def emits_def io_unfold)
    qed
  qed
qed

lemma main_emits:
  "case main_summary twitter openai of (r, ls, qs) \<Rightarrow> emits (main twitter openai) r ls qs"
proof -
  let ?a = "twitter (singleTweet_request TWEET_ID)"
  obtain r ls qs where t: "after_fetch openai (fetch_result ?a TWEET_ID) = (r, ls, qs)"
    by (cases "after_fetch openai (fetch_result ?a TWEET_ID)")
  with main_try_emits [where twitter = twitter and openai = openai]
  have e: "emits (main_try twitter openai) r (fetch_lines ?a TWEET_ID @ ls)
         (SingleTweet (singleTweet_request TWEET_ID) # qs)" by simp
  show ?thesis
  proof (cases r)
    case (Inr x)
    from e have "emits (main twitter openai) (Inr x)
        ((LOG, [AString processing_line]) # fetch_lines ?a TWEET_ID @ ls)
        (SingleTweet (singleTweet_request TWEET_ID) # qs)"
      unfolding Inr by (rule main_Inr)
    with t Inr show ?thesis
      by (simp add: main_summary_def lookup_def caught_def)
  next
    case (Inl a)
    show ?thesis
    proof (cases a)
      case (Throw ex)
      from e have "emits (main twitter openai) (Inl (Exit 1))
        ((LOG, [AString processing_line]) # (fetch_lines ?a TWEET_ID @ ls) @
         [(ERROR, [AString ''Error in main execution:'',
                AString (message_or ''An unknown error occurred'' ex), AThrown ex])])
        (SingleTweet (singleTweet_request TWEET_ID) # qs)"
        unfolding Inl Throw by (rule main_Throw)
      with t Inl Throw show ?thesis
        by (simp add: main_summary_def lookup_def caught_def main_error_entry_def)
    next
      case (Exit n)
      with e t Inl show ?thesis
        by (simp add: main_summary_def lookup_def caught_def main_def emits_def io_unfold)
    qed
  qed
qed

section \<open>Lemmas on the script\<close>

lemma after_fetch_not_Exit:
  "fst (after_fetch openai (fetch_result answer tweetId)) \<noteq> Inl (Exit n)"
  using fetch_result_not_Exit [of answer tweetId] ask_result_not_Exit
  by (auto simp: after_fetch_def split: sum.splits option.splits)

lemma main_summary_outcome:
  "fst (main_summary twitter openai) = Inr () \<or> fst (main_summary twitter openai) = Inl (Exit 1)"
proof -
  let ?t = "after_fetch openai (fetch_result (lookup twitter) TWEET_ID)"
  have "fst (caught main_error_entry ?t) = Inr () \<or> fst (caught main_error_entry ?t) = Inl (Exit 1)"
    using after_fetch_not_Exit [of openai "lookup twitter" TWEET_ID]
    by (cases ?t) (auto simp: caught_def split: sum.splits abrupt.splits)
  then show ?thesis
    by (auto simp: main_summary_def split: prod.splits)
qed

lemmas script_checks = script_def check_openai_key_def check_twitter_token_def

lemma script_configured:
  "configured env \<Longrightarrow>
     script env twitter openai = try_catch (main twitter openai) unhandled_catch"
  by (simp add: script_checks configured_def io_simps)

lemma script_emits:
  "case script_summary env twitter openai of (r, ls, qs) \<Rightarrow>
     emits (script env twitter openai) r ls qs"
proof (cases "configured env")
  case False
  then show ?thesis
    by (auto simp: configured_def script_summary_def script_checks emits_def io_unfold)
next
  case True
  obtain r ls qs where s: "main_summary twitter openai = (r, ls, qs)"
    by (cases "main_summary twitter openai")
  with main_emits [of twitter openai] have "emits (main twitter openai) r ls qs" by simp
  moreover from s main_summary_outcome [of twitter openai] have "r \<noteq> Inl (Throw e)" for e
    by auto
  ultimately have "emits (try_catch (main twitter openai) unhandled_catch) r ls qs"
    by (rule emits_try_no_Throw)
  with True s show ?thesis
    by (simp add: configured_def script_summary_def script_configured)
qed

lemma run_summary:
  "run env twitter openai =
     (case script_summary env twitter openai of
        (r, ls, qs) \<Rightarrow> (exit_code r, \<lparr>console = ls, outbound = qs\<rparr>))"
proof -
  obtain r ls qs where s: "script_summary env twitter openai = (r, ls, qs)"
    by (cases "script_summary env twitter openai")
  with script_emits [of env twitter openai] have "emits (script env twitter openai) r ls qs"
    by simp
  then have "script env twitter openai init_world = (r, \<lparr>console = ls, outbound = qs\<rparr>)"
    by (simp add: emits_def init_world_def)
  with s show ?thesis by (simp add: run_def)
qed

section \<open>Lemmas on what a run depends on\<close>

lemma verdict_Some_iff:
  "verdict answer openai = Some p \<longleftrightarrow>
     (\<exists>u c. resolved answer = Some u \<and> openai (verification_request u) = Inr c
          \<and> p = first_parsed c)"
  by (auto simp: verdict_def split: option.splits sum.splits)

lemma after_fetch_resolved:
  assumes "after_fetch openai (fetch_result answer tweetId) = (r, ls, qs)"
  shows "qs = (case resolved answer of None \<Rightarrow> [] | Some u \<Rightarrow> [ChatParse (verification_request u)])"
proof (cases "fetch_result answer tweetId")
  case (Inl a)
  with assms fetch_result_Inl_resolved [OF Inl] show ?thesis
    by (simp add: after_fetch_def)
next
  case (Inr t)
  with assms fetch_result_Inr_resolved [OF Inr] resolved_truthy [of answer] show ?thesis
    by (auto simp: after_fetch_def split: sum.splits option.splits if_splits)
qed

lemma after_fetch_verdict:
  assumes "after_fetch openai (fetch_result answer tweetId) = (r, ls, qs)"
  shows "case verdict answer openai of
          None \<Rightarrow> (\<exists>a. r = Inl a)
        | Some p \<Rightarrow> r = Inr () \<and> ls \<noteq> [] \<and> last ls = (LOG, [AParsed p])"
proof (cases "fetch_result answer tweetId")
  case (Inl a)
  with assms fetch_result_Inl_resolved [OF Inl] show ?thesis
    by (auto simp: after_fetch_def verdict_def)
next
  case (Inr t)
  with assms fetch_result_Inr_resolved [OF Inr] resolved_truthy [of answer] show ?thesis
    by (auto simp: after_fetch_def verdict_def ask_result_def
        split: sum.splits option.splits if_splits)
qed

lemma main_summary_requests:
  "snd (snd (main_summary twitter openai)) =
     SingleTweet (singleTweet_request TWEET_ID) #
     (case resolved (lookup twitter) of
        None \<Rightarrow> [] | Some u \<Rightarrow> [ChatParse (verification_request u)])"
proof -
  obtain r ls qs where t:
    "after_fetch openai (fetch_result (lookup twitter) TWEET_ID) = (r, ls, qs)"
    by (cases "after_fetch openai (fetch_result (lookup twitter) TWEET_ID)")
  from after_fetch_resolved [OF t] t show ?thesis
    by (auto simp: main_summary_def lookup_def caught_def split: sum.splits abrupt.splits)
qed

lemma main_summary_verdict:
  "fst (main_summary twitter openai) =
     (case verdict (lookup twitter) openai of None \<Rightarrow> Inl (Exit 1) | Some p \<Rightarrow> Inr ())"
proof -
  obtain r ls qs where t:
    "after_fetch openai (fetch_result (lookup twitter) TWEET_ID) = (r, ls, qs)"
    by (cases "after_fetch openai (fetch_result (lookup twitter) TWEET_ID)")
  from after_fetch_verdict [OF t] t after_fetch_not_Exit [of openai "lookup twitter" TWEET_ID]
  show ?thesis
    by (auto simp: main_summary_def lookup_def caught_def
        split: sum.splits abrupt.splits option.splits)
qed

lemma main_summary_last:
  "last (fst (snd (main_summary twitter openai))) =
     (case verdict (lookup twitter) openai of
        Some p \<Rightarrow> (LOG, [AParsed p])
      | None \<Rightarrow>
          (case fst (after_fetch openai (fetch_result (lookup twitter) TWEET_ID)) of
             Inl (Throw e) \<Rightarrow> main_error_entry e
           | _ \<Rightarrow> (LOG, [AString processing_line])))"
proof -
  obtain r ls qs where t:
    "after_fetch openai (fetch_result (lookup twitter) TWEET_ID) = (r, ls, qs)"
    by (cases "after_fetch openai (fetch_result (lookup twitter) TWEET_ID)")
  from after_fetch_verdict [OF t] t after_fetch_not_Exit [of openai "lookup twitter" TWEET_ID]
  show ?thesis
    by (auto simp: main_summary_def lookup_def caught_def
        split: sum.splits abrupt.splits option.splits)
qed

lemma after_fetch_failure:
  assumes "verdict answer openai = None"
  shows "fst (after_fetch openai (fetch_result answer TWEET_ID)) =
     Inl (Throw (Error (failure_message answer openai)))"
proof (cases answer rule: tweet_answer_cases)
  case (found tweet d)
  show ?thesis
  proof (cases "select_image (opt_chain (includes' tweet) media)")
    case None
    with found show ?thesis
      by (simp add: after_fetch_def fetch_result_def failure_message_def)
  next
    case (Some u)
    with found assms select_image_not_empty [OF Some] show ?thesis
      by (auto simp: after_fetch_def fetch_result_def failure_message_def verdict_def
          resolved_simps ask_result_def split: sum.splits)
  qed
qed (simp_all add: after_fetch_def fetch_result_def failure_message_def)


lemma after_fetch_cong:
  assumes "\<And>u. resolved answer = Some u
    \<Longrightarrow> openai' (verification_request u) = openai (verification_request u)"
  shows "after_fetch openai' (fetch_result answer tweetId) =
     after_fetch openai (fetch_result answer tweetId)"
proof (cases "fetch_result answer tweetId")
  case (Inl a)
  then show ?thesis by (simp add: after_fetch_def)
next
  case (Inr r)
  from fetch_result_Inr_resolved [OF Inr] assms
  have "imageUrl r = Some u \<Longrightarrow>
      openai' (verification_request u) = openai (verification_request u)" for u
    by simp
  with Inr show ?thesis
    by (cases "imageUrl r") (simp_all add: after_fetch_def split: sum.splits)
qed

lemma main_summary_success:
  assumes "resolved (lookup twitter) = Some u" and "openai (verification_request u) = Inr c"
  shows "main_summary twitter openai =
    (Inr (),
     [(LOG, [AString processing_line]),
      (LOG, [AString (fetching_line TWEET_ID)]),
      (LOG, [AString (image_url_line (Some u))]),
      (LOG, [AParsed (first_parsed c)])],
     [SingleTweet (singleTweet_request TWEET_ID), ChatParse (verification_request u)])"
proof -
  from assms(1) obtain t where t: "fetch_result (lookup twitter) TWEET_ID = Inr t"
      "imageUrl t = Some u" "u \<noteq> []"
    by (auto simp: resolved_Some_iff [of _ _ TWEET_ID])
  with assms fetch_lines_resolved [OF assms(1), of TWEET_ID] show ?thesis
    by (simp add: main_summary_def caught_def after_fetch_def ask_result_def ask_lines_def)
qed

lemma main_summary_console_not_Nil [simp]: "fst (snd (main_summary twitter openai)) \<noteq> []"
  by (simp add: main_summary_def split: prod.splits)

lemma main_summary_failure_last:
  assumes "verdict (lookup twitter) openai = None"
  shows "fst (last (fst (snd (main_summary twitter openai)))) = ERROR"
proof -
  obtain r ls qs where t: "after_fetch openai (fetch_result (lookup twitter) TWEET_ID) = (r, ls, qs)"
    by (cases "after_fetch openai (fetch_result (lookup twitter) TWEET_ID)")
  from after_fetch_verdict [OF t] assms obtain a where a: "r = Inl a" by auto
  with t after_fetch_not_Exit [of openai "lookup twitter" TWEET_ID]
  obtain e where "a = Throw e" by (cases a) auto
  with assms t a show ?thesis
    by (simp add: main_summary_last main_error_entry_def)
qed

section \<open>Lemmas on a run\<close>

lemma run_fst:
  "fst (run env twitter openai) = exit_code (fst (script_summary env twitter openai))"
  by (simp add: run_summary split: prod.splits)

lemma run_console:
  "console (snd (run env twitter openai)) = fst (snd (script_summary env twitter openai))"
  by (simp add: run_summary split: prod.splits)

lemma run_outbound:
  "outbound (snd (run env twitter openai)) = snd (snd (script_summary env twitter openai))"
  by (simp add: run_summary split: prod.splits)

lemmas run_simps = run_fst run_console run_outbound

lemmas failed_lookup_defs = caught_def after_fetch_def fetch_result_def fetch_lines_def
  catch_entry_def exit_code_def main_error_entry_def

lemma script_summary_configured:
  "configured env \<Longrightarrow> script_summary env twitter openai = main_summary twitter openai"
  by (simp add: script_summary_def configured_def)

lemma script_summary_unconfigured:
  "\<not> configured env \<Longrightarrow> script_summary env twitter openai =
     (Inl (Exit 1),
      [(ERROR, [AString (if truthy (env ''OPENAI_API_KEY'')
                         then missing_twitter_token else missing_openai_key)])], [])"
  by (auto simp: script_summary_def configured_def)

lemma configured_env_ok [simp]: "configured env_ok"
  by (simp add: configured_def env_ok_def)

lemma resolved_twitter_ok: "resolved (lookup twitter_ok) = Some ''https://pbs.example/a.jpg''"
  by (simp add: resolved_def lookup_def no_errors_def twitter_ok_def sample_tweets sample_media
      select_image_Some select_simple_def media_preds)

section \<open>The run of the script\<close>

text \<open>
  C1. The exit code of the process is 0 exactly when both credentials are set, the lookup
  answered without errors and with data, an image was chosen, and the inference service
  answered the request made for that image; in every other case it is 1.
\<close>

theorem run_exit_code:
  "fst (run env twitter openai) =
     (if configured env \<and>
         (\<exists>tweet d u c. twitter (singleTweet_request TWEET_ID) = Inr tweet \<and> no_errors tweet
            \<and> data tweet = Some d \<and> select_image (opt_chain (includes' tweet) media) = Some u
            \<and> openai (verification_request u) = Inr c)
      then 0 else 1)"
proof (cases "configured env")
  case False
  then show ?thesis
    by (simp add: run_fst script_summary_unconfigured exit_code_def)
next
  case True
  have "(\<exists>p. verdict (lookup twitter) openai = Some p) \<longleftrightarrow>
     (\<exists>tweet d u c. twitter (singleTweet_request TWEET_ID) = Inr tweet \<and> no_errors tweet
            \<and> data tweet = Some d \<and> select_image (opt_chain (includes' tweet) media) = Some u
            \<and> openai (verification_request u) = Inr c)"
    by (auto simp: verdict_Some_iff resolved_explicit lookup_def)
  with True show ?thesis
    by (cases "verdict (lookup twitter) openai")
      (auto simp: run_fst script_summary_configured main_summary_verdict exit_code_def simp del: not_None_eq)
qed

text \<open>
  C2. The requests a run sends are fixed by the environment and by the lookup's answer:
  none when a credential is missing; otherwise the lookup of \<^verbatim>\<open>TWEET_ID\<close> first, followed
  by exactly one inference request, built for the chosen image, when an image was
  chosen, and by nothing when the lookup failed or no image was found.
\<close>

theorem run_requests:
  "outbound (snd (run env twitter openai)) =
     (if configured env
      then SingleTweet (singleTweet_request TWEET_ID) #
           (case resolved (lookup twitter) of
              None \<Rightarrow> [] | Some u \<Rightarrow> [ChatParse (verification_request u)])
      else [])"
  by (simp add: run_outbound script_summary_configured script_summary_unconfigured
      main_summary_requests)

text \<open>
  C14. The exit code tells whether an error was printed: the process exits with code 0 if
  and only if no line of its console was written with \<^verbatim>\<open>console.error\<close>.
\<close>

theorem run_exit_code_errors:
  "fst (run env twitter openai) = 0 \<longleftrightarrow>
     \<not> list_ex (\<lambda>e. fst e = ERROR) (console (snd (run env twitter openai)))"
proof (cases "configured env")
  case False
  then show ?thesis
    by (simp add: run_simps script_summary_unconfigured exit_code_def)
next
  case True
  show ?thesis
  proof (cases "verdict (lookup twitter) openai")
    case None
    from main_summary_failure_last [OF None]
    have "list_ex (\<lambda>e. fst e = ERROR) (fst (snd (main_summary twitter openai)))"
      unfolding list_ex_iff using last_in_set [OF main_summary_console_not_Nil] by blast
    with True None show ?thesis
      by (simp add: run_simps script_summary_configured main_summary_verdict exit_code_def)
  next
    case (Some p)
    then obtain u c where "resolved (lookup twitter) = Some u" "openai (verification_request u) = Inr c"
      by (auto simp: verdict_Some_iff)
    with True show ?thesis
      by (simp add: run_simps script_summary_configured main_summary_success exit_code_def)
  qed
qed

text \<open>
  C8. When a credential is missing the script prints the one message that names the
  missing variable (the OpenAI key is tested first), sends no request and exits with
  code 1.
\<close>

theorem run_unconfigured:
  assumes "\<not> configured env"
  shows "run env twitter openai =
    (1, \<lparr>console = [(ERROR, [AString (if truthy (env ''OPENAI_API_KEY'')
                                        then missing_twitter_token else missing_openai_key)])],
         outbound = []\<rparr>)"
  using assms by (simp add: run_summary script_summary_unconfigured exit_code_def)

theorem run_unconfigured_witness:
  "run env_no_twitter twitter_ok openai_ok =
    (1, \<lparr>console = [(ERROR, [AString
      ''Error: TWITTER_BEARER_TOKEN is not set in the .env file. This is required to fetch tweet data.''])],
         outbound = []\<rparr>)"
  using run_unconfigured [of env_no_twitter twitter_ok openai_ok]
  by (simp add: configured_def env_no_twitter_def missing_twitter_token_def)

text \<open>
  C7. The whole transcript of a successful run: when both credentials are set, an image
  was chosen and the inference service answers, the script prints the tweet it
  processes, the fetch, the image URL and the parsed verdict of the first choice of the
  answer (which is \<^verbatim>\<open>undefined\<close> when the answer has no choice or no parsed message); it
  sends the lookup and then the inference request; it ends with exit code 0.
\<close>

theorem run_success:
  assumes "configured env" and "resolved (lookup twitter) = Some u"
    and "openai (verification_request u) = Inr c"
  shows "run env twitter openai =
    (0, \<lparr>console =
           [(LOG, [AString processing_line]),
            (LOG, [AString (fetching_line TWEET_ID)]),
            (LOG, [AString (image_url_line (Some u))]),
            (LOG, [AParsed (first_parsed c)])],
         outbound = [SingleTweet (singleTweet_request TWEET_ID),
                     ChatParse (verification_request u)]\<rparr>)"
  using assms
  by (simp add: run_summary script_summary_configured main_summary_success exit_code_def)

theorem run_success_witness:
  "run env_ok twitter_ok openai_ok =
    (0, \<lparr>console =
           [(LOG, [AString ''Processing Tweet ID: 1921299860000518230'']),
            (LOG, [AString ''Fetching tweet from Twitter API: 1921299860000518230'']),
            (LOG, [AString ''Image URL: https://pbs.example/a.jpg'']),
            (LOG, [AParsed (Some \<lparr>result = True, reasoning = ''hat visible on subject's head''\<rparr>)])],
         outbound = [SingleTweet (singleTweet_request TWEET_ID),
                     ChatParse (verification_request ''https://pbs.example/a.jpg'')]\<rparr>)"
  using run_success [of env_ok twitter_ok "''https://pbs.example/a.jpg''" openai_ok
      "completion_with (Some hat_seen)"]
  by (simp add: resolved_twitter_ok openai_ok_def main_texts fetch_texts first_parsed_def
      completion_with_def hat_seen_def)

text \<open>
  C16. When both credentials are set and no verdict is obtained, the run ends with exit
  code 1 and the last thing it prints is the line of the handler of \<^verbatim>\<open>main\<close> with the
  message that tells what failed: the wrapped message of the lookup's failure, the
  missing image, or the wrapped message of the inference call's failure. Every failure
  on the way is an \<^verbatim>\<open>Error\<close> object, never the text for unknown errors.
\<close>

theorem run_failure:
  assumes "configured env" and "verdict (lookup twitter) openai = None"
  shows "fst (run env twitter openai) = 1
     \<and> last (console (snd (run env twitter openai))) =
         (ERROR, [AString ''Error in main execution:'',
                  AString (failure_message (lookup twitter) openai),
                  AThrown (Error (failure_message (lookup twitter) openai))])"
  using assms after_fetch_failure [OF assms(2)]
  by (simp add: run_simps script_summary_configured main_summary_verdict main_summary_last
      exit_code_def main_error_entry_def)

theorem run_failure_witness:
  "fst (run env_ok (\<lambda>_. Inr tweet_failed) openai_ok) = 1
   \<and> last (console (snd (run env_ok (\<lambda>_. Inr tweet_failed) openai_ok))) =
       (ERROR, [AString ''Error in main execution:'',
          AString ''Failed to process tweet 1921299860000518230: Failed to fetch tweet: Could not find tweet'',
          AThrown (Error ''Failed to process tweet 1921299860000518230: Failed to fetch tweet: Could not find tweet'')])"
  using run_failure [of env_ok "\<lambda>_. Inr tweet_failed" openai_ok]
  by (simp add: verdict_def resolved_def lookup_def no_errors_def tweet_failed_def
      failure_message_def process_error_message_def api_error_message_def TWEET_ID_def)


text \<open>
  C17. The whole transcript of a run on a tweet without a usable image: the script prints
  the tweet it processes, the fetch, the warning, the line \<^verbatim>\<open>Image URL: undefined\<close> and
  the error of \<^verbatim>\<open>main\<close>; it sends the lookup and never an inference request; it exits
  with code 1.
\<close>

theorem run_no_image:
  assumes "configured env" and "twitter (singleTweet_request TWEET_ID) = Inr tweet"
    and "no_errors tweet" and "data tweet = Some d"
    and "select_image (opt_chain (includes' tweet) media) = None"
  shows "run env twitter openai =
    (1, \<lparr>console =
           [(LOG, [AString processing_line]),
            (LOG, [AString (fetching_line TWEET_ID)]),
            (WARN, [AString (no_image_warning TWEET_ID)]),
            (LOG, [AString ''Image URL: undefined'']),
            (ERROR, [AString ''Error in main execution:'', AString no_image_message,
                     AThrown (Error no_image_message)])],
         outbound = [SingleTweet (singleTweet_request TWEET_ID)]\<rparr>)"
  using assms
  by (auto simp: run_summary script_summary_configured main_summary_def lookup_def caught_def
      after_fetch_def fetch_result_def fetch_lines_def no_errors_def exit_code_def
      main_error_entry_def image_url_line_def)

theorem run_no_image_witness:
  "run env_ok (\<lambda>_. Inr (tweet_with [gif_item])) openai_ok =
    (1, \<lparr>console =
           [(LOG, [AString ''Processing Tweet ID: 1921299860000518230'']),
            (LOG, [AString ''Fetching tweet from Twitter API: 1921299860000518230'']),
            (WARN, [AString ''Tweet 1921299860000518230 does not appear to contain a usable image URL (photo or video thumbnail).'']),
            (LOG, [AString ''Image URL: undefined'']),
            (ERROR, [AString ''Error in main execution:'',
                     AString ''No image URL found for Tweet ID: 1921299860000518230.'',
                     AThrown (Error ''No image URL found for Tweet ID: 1921299860000518230.'')])],
         outbound = [SingleTweet \<lparr>tweet_id = ''1921299860000518230'',
                                   expansions = [''attachments.media_keys''],
                                   media_fields = [''url'', ''type'', ''preview_image_url'']\<rparr>]\<rparr>)"
  using run_no_image [of env_ok "\<lambda>_. Inr (tweet_with [gif_item])" "tweet_with [gif_item]"
      "\<lparr>text' = Some ''my new hat''\<rparr>" openai_ok]
  by (simp add: tweet_with_def gif_item_def no_errors_def select_image_Some select_simple_def
      media_preds main_texts fetch_texts singleTweet_request_def)

text \<open>
  C20. The whole transcript of a run whose lookup throws: the script prints the tweet it
  processes and the fetch; the handler of \<^verbatim>\<open>fetchTweetData\<close> writes its error line with
  the message of what was thrown (\<^verbatim>\<open>Unknown error\<close> for a value that is no \<^verbatim>\<open>Error\<close>)
  and the thrown value; the handler of \<^verbatim>\<open>main\<close> writes its error line with the wrapped
  message. Only the lookup is sent, and the exit code is 1.
\<close>

theorem run_lookup_thrown:
  assumes "configured env" and "twitter (singleTweet_request TWEET_ID) = Inl e"
  shows "run env twitter openai =
    (1, \<lparr>console =
           [(LOG, [AString processing_line]),
            (LOG, [AString (fetching_line TWEET_ID)]),
            (ERROR, [AString (catch_line TWEET_ID),
                     AString (case e of Error m \<Rightarrow> m | NonError \<Rightarrow> ''Unknown error''),
                     AThrown e]),
            (ERROR, [AString ''Error in main execution:'',
                     AString (process_error_message TWEET_ID
                       (case e of Error m \<Rightarrow> m | NonError \<Rightarrow> ''Unknown error'')),
                     AThrown (Error (process_error_message TWEET_ID
                       (case e of Error m \<Rightarrow> m | NonError \<Rightarrow> ''Unknown error'')))])],
         outbound = [SingleTweet (singleTweet_request TWEET_ID)]\<rparr>)"
  using assms
  by (simp add: run_summary script_summary_configured main_summary_def lookup_def
      failed_lookup_defs message_or_def)

theorem run_lookup_thrown_witness:
  "run env_ok (\<lambda>_. Inl (Error ''429 Too Many Requests'')) openai_ok =
    (1, \<lparr>console =
           [(LOG, [AString ''Processing Tweet ID: 1921299860000518230'']),
            (LOG, [AString ''Fetching tweet from Twitter API: 1921299860000518230'']),
            (ERROR, [AString ''Error fetching or processing tweet 1921299860000518230 from API:'',
                     AString ''429 Too Many Requests'', AThrown (Error ''429 Too Many Requests'')]),
            (ERROR, [AString ''Error in main execution:'',
                     AString ''Failed to process tweet 1921299860000518230: 429 Too Many Requests'',
                     AThrown (Error
                       ''Failed to process tweet 1921299860000518230: 429 Too Many Requests'')])],
         outbound = [SingleTweet (singleTweet_request ''1921299860000518230'')]\<rparr>)"
  using run_lookup_thrown [of env_ok "\<lambda>_. Inl (Error ''429 Too Many Requests'')"
      "Error ''429 Too Many Requests''" openai_ok]
  by (simp add: main_texts fetch_texts)

text \<open>
  C19. The whole transcript of a run whose lookup answers with a non-empty error list: the
  failure is written three times. \<^verbatim>\<open>fetchTweetData\<close> writes the detail of the first entry
  (its title when the detail is absent or empty) with the list, its handler writes the
  message of the error thrown for it, and the handler of \<^verbatim>\<open>main\<close> writes that message
  wrapped once more. Only the lookup is sent, and the exit code is 1, whatever else the
  answer holds.
\<close>

theorem run_api_errors:
  assumes "configured env" and "twitter (singleTweet_request TWEET_ID) = Inr tweet"
    and "errors tweet = Some (e # es)"
  shows "run env twitter openai =
    (1, \<lparr>console =
           [(LOG, [AString processing_line]),
            (LOG, [AString (fetching_line TWEET_ID)]),
            (ERROR, [AString ''Error fetching tweet:'',
                     arg_of (if truthy (detail e) then detail e else title e),
                     AErrors (e # es)]),
            (ERROR, [AString (catch_line TWEET_ID),
               AString (api_error_message (if truthy (detail e) then detail e else title e)),
               AThrown (Error
                 (api_error_message (if truthy (detail e) then detail e else title e)))]),
            (ERROR, [AString ''Error in main execution:'',
               AString (process_error_message TWEET_ID
                 (api_error_message (if truthy (detail e) then detail e else title e))),
               AThrown (Error (process_error_message TWEET_ID
                 (api_error_message (if truthy (detail e) then detail e else title e))))])],
         outbound = [SingleTweet (singleTweet_request TWEET_ID)]\<rparr>)"
proof -
  have "or_else (detail e) (title e) = (if truthy (detail e) then detail e else title e)"
    by (simp add: or_else_def)
  with assms show ?thesis
    by (simp add: run_summary script_summary_configured main_summary_def lookup_def
        failed_lookup_defs)
qed

theorem run_api_errors_witness:
  "run env_ok (\<lambda>_. Inr tweet_failed) openai_ok =
    (1, \<lparr>console =
           [(LOG, [AString ''Processing Tweet ID: 1921299860000518230'']),
            (LOG, [AString ''Fetching tweet from Twitter API: 1921299860000518230'']),
            (ERROR, [AString ''Error fetching tweet:'', AString ''Could not find tweet'',
                     AErrors [\<lparr>detail = Some ''Could not find tweet'',
                               title = Some ''Not Found Error''\<rparr>]]),
            (ERROR, [AString ''Error fetching or processing tweet 1921299860000518230 from API:'',
                     AString ''Failed to fetch tweet: Could not find tweet'',
                     AThrown (Error ''Failed to fetch tweet: Could not find tweet'')]),
            (ERROR, [AString ''Error in main execution:'',
               AString ''Failed to process tweet 1921299860000518230: Failed to fetch tweet: Could not find tweet'',
               AThrown (Error ''Failed to process tweet 1921299860000518230: Failed to fetch tweet: Could not find tweet'')])],
         outbound = [SingleTweet (singleTweet_request ''1921299860000518230'')]\<rparr>)"
  using run_api_errors [of env_ok "\<lambda>_. Inr tweet_failed" tweet_failed
      "\<lparr>detail = Some ''Could not find tweet'', title = Some ''Not Found Error''\<rparr>" "[]" openai_ok]
  by (simp add: tweet_failed_def main_texts fetch_texts)

lemma run_no_data:
  assumes "configured env" and "twitter (singleTweet_request TWEET_ID) = Inr tweet"
    and "no_errors tweet" and "data tweet = None"
  shows "run env twitter openai =
    (1, \<lparr>console =
           [(LOG, [AString processing_line]),
            (LOG, [AString (fetching_line TWEET_ID)]),
            (ERROR, [AString (catch_line TWEET_ID), AString no_data_message,
                     AThrown (Error no_data_message)]),
            (ERROR, [AString ''Error in main execution:'',
                     AString (process_error_message TWEET_ID no_data_message),
                     AThrown (Error (process_error_message TWEET_ID no_data_message))])],
         outbound = [SingleTweet (singleTweet_request TWEET_ID)]\<rparr>)"
  using assms
  by (auto simp: run_summary script_summary_configured main_summary_def lookup_def
      failed_lookup_defs no_errors_def)

text \<open>
  C18. The whole transcript of a run whose inference call throws, after an image was
  chosen: the script prints the tweet it processes, the fetch and the image URL; the
  handler of \<^verbatim>\<open>askOpenAIAboutImage\<close> writes its error line with the message of what was
  thrown (the thrown value itself when it is no \<^verbatim>\<open>Error\<close>); the handler of \<^verbatim>\<open>main\<close>
  writes the wrapped message. No verdict is printed; the lookup and the inference request
  were sent; the exit code is 1.
\<close>

theorem run_inference_thrown:
  assumes "configured env" and "resolved (lookup twitter) = Some u"
    and "openai (verification_request u) = Inl e"
  shows "run env twitter openai =
    (1, \<lparr>console =
           [(LOG, [AString processing_line]),
            (LOG, [AString (fetching_line TWEET_ID)]),
            (LOG, [AString (image_url_line (Some u))]),
            (ERROR, [AString ''Error asking OpenAI:'',
                     (case e of Error m \<Rightarrow> AString m | NonError \<Rightarrow> AThrown e)]),
            (ERROR, [AString ''Error in main execution:'',
               AString (''Failed to get response from OpenAI about the image. '' @
                        (case e of Error m \<Rightarrow> m | NonError \<Rightarrow> [])),
               AThrown (Error (''Failed to get response from OpenAI about the image. '' @
                               (case e of Error m \<Rightarrow> m | NonError \<Rightarrow> [])))])],
         outbound = [SingleTweet (singleTweet_request TWEET_ID),
                     ChatParse (verification_request u)]\<rparr>)"
proof -
  from assms(2) obtain t where "fetch_result (lookup twitter) TWEET_ID = Inr t"
      "imageUrl t = Some u" "u \<noteq> []"
    by (auto simp: resolved_Some_iff [of _ _ TWEET_ID])
  with assms fetch_lines_resolved [OF assms(2), of TWEET_ID] show ?thesis
    by (simp add: run_summary script_summary_configured main_summary_def caught_def
        after_fetch_def ask_result_def ask_lines_def exit_code_def main_error_entry_def
        openai_failure_message_def message_or_def)
qed

theorem run_inference_thrown_witness:
  "run env_ok twitter_ok (\<lambda>_. Inl (Error ''503'')) =
    (1, \<lparr>console =
           [(LOG, [AString ''Processing Tweet ID: 1921299860000518230'']),
            (LOG, [AString ''Fetching tweet from Twitter API: 1921299860000518230'']),
            (LOG, [AString ''Image URL: https://pbs.example/a.jpg'']),
            (ERROR, [AString ''Error asking OpenAI:'', AString ''503'']),
            (ERROR, [AString ''Error in main execution:'',
               AString ''Failed to get response from OpenAI about the image. 503'',
               AThrown (Error ''Failed to get response from OpenAI about the image. 503'')])],
         outbound = [SingleTweet (singleTweet_request ''1921299860000518230''),
                     ChatParse (verification_request ''https://pbs.example/a.jpg'')]\<rparr>)"
  using run_inference_thrown [of env_ok twitter_ok "''https://pbs.example/a.jpg''"
      "\<lambda>_. Inl (Error ''503'')" "Error ''503''"]
  by (simp add: resolved_twitter_ok main_texts fetch_texts)

text \<open>
  C21. A run is determined by the environment and by two answers: the answer of the lookup
  to the request for \<^verbatim>\<open>TWEET_ID\<close> and, when that answer leads to an image, the answer of
  the inference service to the request built for that image. Two pairs of services that
  agree on these answers give the same exit code, the same console lines and the same
  requests, however they differ on every other request. With stable answers two
  successive runs therefore print the same verdict.
\<close>

theorem run_determined_by_answers:
  assumes "twitter' (singleTweet_request TWEET_ID) = twitter (singleTweet_request TWEET_ID)"
    and "\<forall>u. resolved (lookup twitter) = Some u
           \<longrightarrow> openai' (verification_request u) = openai (verification_request u)"
  shows "run env twitter' openai' = run env twitter openai"
proof -
  from assms(1) have l: "lookup twitter' = lookup twitter"
    by (simp add: lookup_def)
  from assms(2) have "after_fetch openai' (fetch_result (lookup twitter) TWEET_ID) =
      after_fetch openai (fetch_result (lookup twitter) TWEET_ID)"
    by (intro after_fetch_cong) simp
  with l have "main_summary twitter' openai' = main_summary twitter openai"
    by (simp add: main_summary_def)
  then show ?thesis
    by (simp add: run_summary script_summary_def)
qed

theorem run_determined_by_answers_witness:
  "run env_ok
     (\<lambda>q. if tweet_id q = TWEET_ID then twitter_ok q else Inl NonError)
     (\<lambda>q. if last (request_images (messages q)) = ''https://pbs.example/a.jpg''
          then openai_ok q else Inl (Error ''503''))
   = run env_ok twitter_ok openai_ok"
  using run_determined_by_answers [of
      "\<lambda>q. if tweet_id q = TWEET_ID then twitter_ok q else Inl NonError" twitter_ok
      "\<lambda>q. if last (request_images (messages q)) = ''https://pbs.example/a.jpg''
          then openai_ok q else Inl (Error ''503'')" openai_ok env_ok]
  by (simp add: resolved_twitter_ok singleTweet_request_def)

text \<open>
  C22. The handler attached to the call of \<^verbatim>\<open>main\<close> at the end of the script never runs:
  \<^verbatim>\<open>main\<close> catches everything thrown inside it and ends the process itself, so the
  script with that handler behaves as \<^verbatim>\<open>main\<close> alone, for all services.
\<close>

theorem unhandled_catch_dead:
  "try_catch (main twitter openai) unhandled_catch = main twitter openai"
proof -
  obtain r ls qs where s: "main_summary twitter openai = (r, ls, qs)"
    by (cases "main_summary twitter openai")
  with main_emits [of twitter openai] have m: "emits (main twitter openai) r ls qs" by simp
  moreover from s main_summary_outcome [of twitter openai] have "r \<noteq> Inl (Throw e)" for e
    by auto
  ultimately have "emits (try_catch (main twitter openai) unhandled_catch) r ls qs"
    by (rule emits_try_no_Throw)
  then show ?thesis using m by (rule emits_eq)
qed

end
