(* ===== verification/Script_Steps.thy ===== *)
theory Script_Steps
  imports Main_Flow
begin

text \<open>
  The run of \<^verbatim>\<open>src/src/index.ts\<close> one observable step at a time. A configuration is the
  point the script has reached (\<open>phase\<close>) with the world so far; \<open>step\<close> has one rule
  for each statement that writes, sends, throws or decides, in the order of the source,
  and \<open>advance\<close> is the same relation as an executable function. \<open>reachable\<close> are the
  configurations a run passes through, so that an invariant of \<open>reachable\<close> holds at
  every moment of a run and not only at its end. \<open>exec\<close> iterates \<open>advance\<close> with fuel;
  \<open>remaining\<close> bounds the steps left from each phase, twelve from the start.
\<close>

section \<open>Configurations\<close>

datatype phase =
    Boot
  | Key_Checked
  | Started
  | Processing
  | Fetching
  | Looked_Up "thrown + tweet_response"
  | Fetch_Thrown thrown
  | Fetched tweet_result
  | Url_Printed tweet_result
  | Asked "thrown + completion"
  | Main_Thrown thrown
  | Halting nat
  | Ended nat

type_synonym config = "phase \<times> world"

definition wrote :: "level \<Rightarrow> console_arg list \<Rightarrow> world \<Rightarrow> world" where
  "wrote l args w = snd (console_write l args w)"

definition sent :: "request \<Rightarrow> world \<Rightarrow> world" where
  "sent q w = snd (call q (Inr ()) w)"

section \<open>Steps\<close>

inductive step :: "env \<Rightarrow> twitter_api \<Rightarrow> openai_api \<Rightarrow> config \<Rightarrow> config \<Rightarrow> bool"
  for env :: env and twitter :: twitter_api and openai :: openai_api
  where
    key_missing:
      "\<not> truthy (env ''OPENAI_API_KEY'')
       \<Longrightarrow> step env twitter openai (Boot, w) (Halting 1, wrote ERROR [AString missing_openai_key] w)"
  | key_present:
      "truthy (env ''OPENAI_API_KEY'') \<Longrightarrow> step env twitter openai (Boot, w) (Key_Checked, w)"
  | token_missing:
      "\<not> truthy (env ''TWITTER_BEARER_TOKEN'')
       \<Longrightarrow> step env twitter openai (Key_Checked, w)
             (Halting 1, wrote ERROR [AString missing_twitter_token] w)"
  | token_present:
      "truthy (env ''TWITTER_BEARER_TOKEN'') \<Longrightarrow> step env twitter openai (Key_Checked, w) (Started, w)"
  | main_called:
      "step env twitter openai (Started, w) (Processing, wrote LOG [AString processing_line] w)"
  | fetch_called:
      "step env twitter openai (Processing, w)
         (Fetching, wrote LOG [AString (fetching_line TWEET_ID)] w)"
  | lookup_sent:
      "step env twitter openai (Fetching, w)
         (Looked_Up (twitter (singleTweet_request TWEET_ID)),
          sent (SingleTweet (singleTweet_request TWEET_ID)) w)"
  | lookup_threw:
      "step env twitter openai (Looked_Up (Inl e), w) (Fetch_Thrown e, w)"
  | lookup_errors:
      "errors tweet = Some (e # es)
       \<Longrightarrow> step env twitter openai (Looked_Up (Inr tweet), w)
             (Fetch_Thrown (Error (api_error_message (or_else (detail e) (title e)))),
              wrote ERROR [AString ''Error fetching tweet:'', arg_of (or_else (detail e) (title e)),
                           AErrors (e # es)] w)"
  | lookup_no_data:
      "no_errors tweet \<Longrightarrow> data tweet = None
       \<Longrightarrow> step env twitter openai (Looked_Up (Inr tweet), w)
             (Fetch_Thrown (Error no_data_message), w)"
  | image_chosen:
      "no_errors tweet \<Longrightarrow> data tweet = Some d
       \<Longrightarrow> select_image (opt_chain (includes' tweet) media) = Some u
       \<Longrightarrow> step env twitter openai (Looked_Up (Inr tweet), w)
             (Fetched \<lparr>text' = text' d, imageUrl = Some u\<rparr>, w)"
  | no_image_chosen:
      "no_errors tweet \<Longrightarrow> data tweet = Some d
       \<Longrightarrow> select_image (opt_chain (includes' tweet) media) = None
       \<Longrightarrow> step env twitter openai (Looked_Up (Inr tweet), w)
             (Fetched \<lparr>text' = text' d, imageUrl = None\<rparr>,
              wrote WARN [AString (no_image_warning TWEET_ID)] w)"
  | fetch_caught:
      "step env twitter openai (Fetch_Thrown e, w)
         (Main_Thrown (Error (process_error_message TWEET_ID (message_or ''Unknown error'' e))),
          wrote ERROR [AString (catch_line TWEET_ID), AString (message_or ''Unknown error'' e),
                       AThrown e] w)"
  | url_printed:
      "step env twitter openai (Fetched r, w)
         (Url_Printed r, wrote LOG [AString (image_url_line (imageUrl r))] w)"
  | no_image:
      "\<not> truthy (imageUrl r)
       \<Longrightarrow> step env twitter openai (Url_Printed r, w) (Main_Thrown (Error no_image_message), w)"
  | question_sent:
      "imageUrl r = Some u \<Longrightarrow> u \<noteq> []
       \<Longrightarrow> step env twitter openai (Url_Printed r, w)
             (Asked (openai (verification_request u)), sent (ChatParse (verification_request u)) w)"
  | question_threw:
      "step env twitter openai (Asked (Inl e), w)
         (Main_Thrown (Error (openai_failure_message e)),
          wrote ERROR [AString ''Error asking OpenAI:'',
                       (case e of Error m \<Rightarrow> AString m | NonError \<Rightarrow> AThrown e)] w)"
  | verdict_printed:
      "step env twitter openai (Asked (Inr c), w)
         (Ended 0, wrote LOG [AParsed (first_parsed c)] w)"
  | main_caught:
      "step env twitter openai (Main_Thrown e, w)
         (Halting 1,
          wrote ERROR [AString ''Error in main execution:'',
                       AString (message_or ''An unknown error occurred'' e), AThrown e] w)"
  | exited:
      "step env twitter openai (Halting n, w) (Ended n, w)"

inductive reachable :: "env \<Rightarrow> twitter_api \<Rightarrow> openai_api \<Rightarrow> config \<Rightarrow> bool"
  for env :: env and twitter :: twitter_api and openai :: openai_api
  where
    start: "reachable env twitter openai (Boot, init_world)"
  | later: "reachable env twitter openai c \<Longrightarrow> step env twitter openai c c'
            \<Longrightarrow> reachable env twitter openai c'"

section \<open>Steps as a function\<close>

fun advance :: "env \<Rightarrow> twitter_api \<Rightarrow> openai_api \<Rightarrow> config \<Rightarrow> config option" where
  "advance env twitter openai (Boot, w) =
     Some (if \<not> truthy (env ''OPENAI_API_KEY'')
           then (Halting 1, wrote ERROR [AString missing_openai_key] w)
           else (Key_Checked, w))"
| "advance env twitter openai (Key_Checked, w) =
     Some (if \<not> truthy (env ''TWITTER_BEARER_TOKEN'')
           then (Halting 1, wrote ERROR [AString missing_twitter_token] w)
           else (Started, w))"
| "advance env twitter openai (Started, w) =
     Some (Processing, wrote LOG [AString processing_line] w)"
| "advance env twitter openai (Processing, w) =
     Some (Fetching, wrote LOG [AString (fetching_line TWEET_ID)] w)"
| "advance env twitter openai (Fetching, w) =
     Some (Looked_Up (twitter (singleTweet_request TWEET_ID)),
           sent (SingleTweet (singleTweet_request TWEET_ID)) w)"
| "advance env twitter openai (Looked_Up (Inl e), w) = Some (Fetch_Thrown e, w)"
| "advance env twitter openai (Looked_Up (Inr tweet), w) =
     Some (case errors tweet of
             Some (e # es) \<Rightarrow>
               (Fetch_Thrown (Error (api_error_message (or_else (detail e) (title e)))),
                wrote ERROR [AString ''Error fetching tweet:'',
                             arg_of (or_else (detail e) (title e)), AErrors (e # es)] w)
           | _ \<Rightarrow>
               (case data tweet of
                  None \<Rightarrow> (Fetch_Thrown (Error no_data_message), w)
                | Some d \<Rightarrow>
                    (let chosen = select_image (opt_chain (includes' tweet) media) in
                     (Fetched \<lparr>text' = text' d, imageUrl = chosen\<rparr>,
                      if \<not> truthy chosen
                      then wrote WARN [AString (no_image_warning TWEET_ID)] w else w))))"
| "advance env twitter openai (Fetch_Thrown e, w) =
     Some (Main_Thrown (Error (process_error_message TWEET_ID (message_or ''Unknown error'' e))),
           wrote ERROR [AString (catch_line TWEET_ID), AString (message_or ''Unknown error'' e),
                        AThrown e] w)"
| "advance env twitter openai (Fetched r, w) =
     Some (Url_Printed r, wrote LOG [AString (image_url_line (imageUrl r))] w)"
| "advance env twitter openai (Url_Printed r, w) =
     Some (case imageUrl r of
             None \<Rightarrow> (Main_Thrown (Error no_image_message), w)
           | Some u \<Rightarrow>
               if u = [] then (Main_Thrown (Error no_image_message), w)
               else (Asked (openai (verification_request u)),
                     sent (ChatParse (verification_request u)) w))"
| "advance env twitter openai (Asked (Inl e), w) =
     Some (Main_Thrown (Error (openai_failure_message e)),
           wrote ERROR [AString ''Error asking OpenAI:'',
                        (case e of Error m \<Rightarrow> AString m | NonError \<Rightarrow> AThrown e)] w)"
| "advance env twitter openai (Asked (Inr c), w) =
     Some (Ended 0, wrote LOG [AParsed (first_parsed c)] w)"
| "advance env twitter openai (Main_Thrown e, w) =
     Some (Halting 1,
           wrote ERROR [AString ''Error in main execution:'',
                        AString (message_or ''An unknown error occurred'' e), AThrown e] w)"
| "advance env twitter openai (Halting n, w) = Some (Ended n, w)"
| "advance env twitter openai (Ended n, w) = None"

fun exec :: "nat \<Rightarrow> env \<Rightarrow> twitter_api \<Rightarrow> openai_api \<Rightarrow> config \<Rightarrow> config" where
  "exec 0 env twitter openai c = c"
| "exec (Suc k) env twitter openai c =
     (case advance env twitter openai c of
        None \<Rightarrow> c
      | Some c' \<Rightarrow> exec k env twitter openai c')"

fun remaining :: "phase \<Rightarrow> nat" where
  "remaining Boot = 12"
| "remaining Key_Checked = 11"
| "remaining Started = 10"
| "remaining Processing = 9"
| "remaining Fetching = 8"
| "remaining (Looked_Up a) = 7"
| "remaining (Fetch_Thrown e) = 3"
| "remaining (Fetched r) = 6"
| "remaining (Url_Printed r) = 5"
| "remaining (Asked a) = 4"
| "remaining (Main_Thrown e) = 2"
| "remaining (Halting n) = 1"
| "remaining (Ended n) = 0"

section \<open>What holds at every moment\<close>

definition requests_allowed :: "twitter_api \<Rightarrow> request list" where
  "requests_allowed twitter =
     SingleTweet (singleTweet_request TWEET_ID) #
     (case resolved (lookup twitter) of
        None \<Rightarrow> []
      | Some u \<Rightarrow> [ChatParse (verification_request u)])"

fun at_phase :: "twitter_api \<Rightarrow> openai_api \<Rightarrow> phase \<Rightarrow> world \<Rightarrow> bool" where
  "at_phase twitter openai (Looked_Up a) w \<longleftrightarrow>
     lookup twitter = a \<and> outbound w = [SingleTweet (singleTweet_request TWEET_ID)]"
| "at_phase twitter openai (Fetch_Thrown e) w \<longleftrightarrow>
     resolved (lookup twitter) = None
     \<and> outbound w = [SingleTweet (singleTweet_request TWEET_ID)]"
| "at_phase twitter openai (Fetched r) w \<longleftrightarrow>
     resolved (lookup twitter) = imageUrl r
     \<and> outbound w = [SingleTweet (singleTweet_request TWEET_ID)]"
| "at_phase twitter openai (Url_Printed r) w \<longleftrightarrow>
     resolved (lookup twitter) = imageUrl r
     \<and> outbound w = [SingleTweet (singleTweet_request TWEET_ID)]"
| "at_phase twitter openai (Asked a) w \<longleftrightarrow>
     (\<exists>u. resolved (lookup twitter) = Some u \<and> openai (verification_request u) = a)
     \<and> outbound w = requests_allowed twitter"
| "at_phase twitter openai (Main_Thrown e) w \<longleftrightarrow> outbound w \<noteq> []"
| "at_phase twitter openai (Halting n) w \<longleftrightarrow> True"
| "at_phase twitter openai (Ended n) w \<longleftrightarrow> True"
| "at_phase twitter openai ph w \<longleftrightarrow> outbound w = []"

fun env_at :: "env \<Rightarrow> phase \<Rightarrow> bool" where
  "env_at env Boot \<longleftrightarrow> True"
| "env_at env Key_Checked \<longleftrightarrow> truthy (env ''OPENAI_API_KEY'')"
| "env_at env (Halting n) \<longleftrightarrow> n = 1"
| "env_at env (Ended n) \<longleftrightarrow> n = 1 \<or> n = 0 \<and> configured env"
| "env_at env ph \<longleftrightarrow> configured env"

definition inv :: "env \<Rightarrow> twitter_api \<Rightarrow> openai_api \<Rightarrow> config \<Rightarrow> bool" where
  "inv env twitter openai c \<longleftrightarrow>
     prefix (outbound (snd c)) (requests_allowed twitter)
     \<and> (outbound (snd c) \<noteq> [] \<longrightarrow> configured env)
     \<and> env_at env (fst c)
     \<and> at_phase twitter openai (fst c) (snd c)"

section \<open>Lemmas on steps\<close>

lemma wrote_simps [simp]:
  "console (wrote l args w) = console w @ [(l, args)]"
  "outbound (wrote l args w) = outbound w"
  by (simp_all add: wrote_def console_write_def)

lemma sent_simps [simp]:
  "console (sent q w) = console w"
  "outbound (sent q w) = outbound w @ [q]"
  by (simp_all add: sent_def call_def)

inductive_cases step_EndedE [elim!]: "step env twitter openai (Ended n, w) c"

lemma ended_final: "\<not> step env twitter openai (Ended n, w) c"
  by blast

lemma step_advance_Some:
  assumes "step env twitter openai c c'"
  shows "advance env twitter openai c = Some c'"
  using assms
  by (induction rule: step.induct) (auto dest: select_image_not_empty elim: truthyE split: option.splits)

lemma looked_up_step:
  "step env twitter openai (Looked_Up a, w) (the (advance env twitter openai (Looked_Up a, w)))"
proof (cases a rule: tweet_answer_cases)
  case (found tweet d)
  then show ?thesis
    by (cases "select_image (opt_chain (includes' tweet) media)")
      (auto intro: step.intros dest: select_image_not_empty)
qed (auto intro: step.intros)

lemma advance_step:
  assumes "advance env twitter openai c = Some c'"
  shows "step env twitter openai c c'"
proof (cases c)
  case (Pair ph w)
  show ?thesis
  proof (cases ph)
    case (Looked_Up a)
    with assms Pair looked_up_step [of env twitter openai a w] show ?thesis by simp
  next
    case (Url_Printed r)
    with assms Pair show ?thesis
      by (cases "imageUrl r") (auto intro: step.intros split: if_splits)
  next
    case (Asked a)
    with assms Pair show ?thesis by (cases a) (auto intro: step.intros)
  qed (use assms Pair in \<open>auto simp del: One_nat_def intro: step.intros\<close>)
qed

lemma step_remaining:
  "step env twitter openai c c' \<Longrightarrow> remaining (fst c') < remaining (fst c)"
  by (induction rule: step.induct) simp_all

lemma advance_None_iff:
  "advance env twitter openai c = None \<longleftrightarrow> (\<exists>n. fst c = Ended n)"
  by (cases "(env, twitter, openai, c)" rule: advance.cases) auto

lemma exec_stuck: "advance env twitter openai c = None \<Longrightarrow> exec k env twitter openai c = c"
  by (cases k) simp_all

lemma exec_Ended [simp]: "exec k env twitter openai (Ended n, w) = (Ended n, w)"
  by (simp add: exec_stuck)

lemma exec_add:
  "exec (j + k) env twitter openai c = exec k env twitter openai (exec j env twitter openai c)"
  by (induction j arbitrary: c) (auto simp: exec_stuck split: option.splits)

lemma exec_Suc_right:
  "exec (Suc k) env twitter openai c =
     (case advance env twitter openai (exec k env twitter openai c) of
        None \<Rightarrow> exec k env twitter openai c
      | Some c' \<Rightarrow> c')"
proof -
  have "exec (Suc k) env twitter openai c =
      exec (Suc 0) env twitter openai (exec k env twitter openai c)"
    using exec_add [of k "Suc 0" env twitter openai c] by (simp del: exec.simps)
  also have "\<dots> = (case advance env twitter openai (exec k env twitter openai c) of
        None \<Rightarrow> exec k env twitter openai c | Some c' \<Rightarrow> c')"
    by (simp split: option.splits)
  finally show ?thesis .
qed

lemma reachable_exec: "reachable env twitter openai (exec k env twitter openai (Boot, init_world))"
proof (induction k)
  case 0
  show ?case by (simp add: reachable.start)
next
  case (Suc k)
  then show ?case
    unfolding exec_Suc_right
    by (auto split: option.splits intro: reachable.later advance_step)
qed

lemma reachable_is_exec:
  "reachable env twitter openai c \<Longrightarrow> \<exists>k. c = exec k env twitter openai (Boot, init_world)"
proof (induction rule: reachable.induct)
  case start
  have "(Boot, init_world) = exec 0 env twitter openai (Boot, init_world)" by simp
  then show ?case by blast
next
  case (later c c')
  then obtain k where "c = exec k env twitter openai (Boot, init_world)" by blast
  with later.hyps(2) have "c' = exec (Suc k) env twitter openai (Boot, init_world)"
    unfolding exec_Suc_right by (simp add: step_advance_Some)
  then show ?case by blast
qed

lemmas world_unfold = wrote_def sent_def console_write_def call_def init_world_def

lemma exec_unconfigured:
  assumes "\<not> configured env"
  shows "exec 12 env twitter openai (Boot, init_world) =
     (Ended 1, \<lparr>console = [(ERROR, [AString (if truthy (env ''OPENAI_API_KEY'')
                                                then missing_twitter_token else missing_openai_key)])],
                 outbound = []\<rparr>)"
  using assms by (auto simp: eval_nat_numeral configured_def world_unfold)

lemma exec_configured:
  assumes "configured env"
  shows "exec 12 env twitter openai (Boot, init_world) =
     exec 7 env twitter openai
       (Looked_Up (lookup twitter),
        \<lparr>console = [(LOG, [AString processing_line]), (LOG, [AString (fetching_line TWEET_ID)])],
         outbound = [SingleTweet (singleTweet_request TWEET_ID)]\<rparr>)"
  using assms by (simp add: eval_nat_numeral configured_def world_unfold lookup_def)


lemmas summary_unfold = caught_def after_fetch_def fetch_result_def fetch_lines_def catch_entry_def
  main_error_entry_def ask_result_def ask_lines_def exit_code_def

lemma exec_looked_up:
  "exec 7 env twitter openai (Looked_Up a, w) =
     (case caught main_error_entry (after_fetch openai (fetch_result a TWEET_ID)) of
        (r, ls, qs) \<Rightarrow>
          (Ended (exit_code r),
           w\<lparr>console := console w @ tl (fetch_lines a TWEET_ID) @ ls,
             outbound := outbound w @ qs\<rparr>))"
proof (cases a rule: tweet_answer_cases)
  case (transport e)
  then show ?thesis
    by (simp add: eval_nat_numeral world_unfold summary_unfold)
next
  case (api_errors tweet e es)
  then show ?thesis
    by (simp add: eval_nat_numeral world_unfold summary_unfold)
next
  case (no_data tweet)
  then show ?thesis
    by (simp add: eval_nat_numeral world_unfold summary_unfold)
next
  case (found tweet d)
  show ?thesis
  proof (cases "select_image (opt_chain (includes' tweet) media)")
    case None
    with found show ?thesis
      by (simp add: eval_nat_numeral world_unfold summary_unfold)
  next
    case (Some u)
    then have "u \<noteq> []" by (rule select_image_not_empty)
    with found Some show ?thesis
      by (cases "openai (verification_request u)")
        (simp_all add: eval_nat_numeral world_unfold summary_unfold)
  qed
qed

lemma exec_run:
  "exec 12 env twitter openai (Boot, init_world) =
     (Ended (fst (run env twitter openai)), snd (run env twitter openai))"
proof (cases "configured env")
  case False
  then show ?thesis
    by (simp add: exec_unconfigured run_summary script_summary_unconfigured exit_code_def)
next
  case True
  then show ?thesis
    by (simp add: exec_configured exec_looked_up run_summary script_summary_configured
        main_summary_def fetch_lines_def split: prod.splits)
qed

lemma reachable_run:
  "reachable env twitter openai
     (Ended (fst (run env twitter openai)), snd (run env twitter openai))"
  using reachable_exec [of env twitter openai 12] by (simp add: exec_run)

lemma requests_allowed_resolved:
  "resolved (lookup twitter) = Some u \<Longrightarrow>
     requests_allowed twitter =
       [SingleTweet (singleTweet_request TWEET_ID), ChatParse (verification_request u)]"
  "resolved (lookup twitter) = None \<Longrightarrow>
     requests_allowed twitter = [SingleTweet (singleTweet_request TWEET_ID)]"
  by (simp_all add: requests_allowed_def)

lemma prefix_requests_allowed [simp]:
  "prefix [] (requests_allowed twitter)"
  "prefix [SingleTweet (singleTweet_request TWEET_ID)] (requests_allowed twitter)"
  "prefix (requests_allowed twitter) (requests_allowed twitter)"
  by (simp_all add: requests_allowed_def)

lemma requests_allowed_not_Nil [simp]: "requests_allowed twitter \<noteq> []"
  by (simp add: requests_allowed_def)

lemma inv_start: "inv env twitter openai (Boot, init_world)"
  by (simp add: inv_def init_world_def)

lemma inv_step:
  assumes "step env twitter openai c c'" and "inv env twitter openai c"
  shows "inv env twitter openai c'"
  using assms
proof (induction rule: step.induct)
  case (question_sent r u w)
  then have "resolved (lookup twitter) = Some u" by (simp add: inv_def)
  with question_sent show ?case
    by (simp add: inv_def requests_allowed_resolved)
qed (auto simp: inv_def configured_def resolved_simps lookup_def)

lemma reachable_inference:
  assumes "reachable env twitter openai (ph, w)" and "ChatParse q \<in> set (outbound w)"
  shows "configured env
     \<and> (\<exists>u. resolved (lookup twitter) = Some u \<and> q = verification_request u)
     \<and> outbound w = [SingleTweet (singleTweet_request TWEET_ID), ChatParse q]"
proof -
  from assms(1) have "inv env twitter openai (ph, w)"
    by (induction rule: reachable.induct) (auto intro: inv_start inv_step)
  then have p: "prefix (outbound w) (requests_allowed twitter)" and c: "outbound w \<noteq> [] \<longrightarrow> configured env"
    by (simp_all add: inv_def)
  from assms(2) p have "ChatParse q \<in> set (requests_allowed twitter)"
    by (auto dest: set_mono_prefix)
  then obtain u where u: "resolved (lookup twitter) = Some u" "q = verification_request u"
    by (cases "resolved (lookup twitter)") (auto simp: requests_allowed_def)
  with p assms(2) have "outbound w = [SingleTweet (singleTweet_request TWEET_ID), ChatParse q]"
    by (auto simp: requests_allowed_resolved prefix_Cons)
  with c u show ?thesis by auto
qed

section \<open>The executable form of the steps\<close>

lemma step_is_advance:
  "step env twitter openai c c' \<longleftrightarrow> advance env twitter openai c = Some c'"
  by (blast intro: step_advance_Some advance_step)

lemma exec_terminates:
  assumes "remaining (fst c) \<le> k"
  shows "\<exists>n. fst (exec k env twitter openai c) = Ended n"
  using assms
proof (induction k arbitrary: c)
  case 0
  then show ?case by (cases "fst c") simp_all
next
  case (Suc k)
  show ?case
  proof (cases "advance env twitter openai c")
    case None
    then have "\<exists>n. fst c = Ended n" by (simp add: advance_None_iff)
    with None show ?thesis by simp
  next
    case (Some c')
    then have "remaining (fst c') < remaining (fst c)"
      by (intro step_remaining advance_step)
    with Suc.prems have "remaining (fst c') \<le> k" by simp
    with Some Suc.IH [of c'] show ?thesis by simp
  qed
qed

section \<open>The steps and the run\<close>

text \<open>
  C9. The steps and the monadic script agree: the process can end with exit code \<open>n\<close> in
  world \<open>w\<close> by steps from the start if and only if \<open>run\<close> returns \<open>n\<close> and \<open>w\<close>.
\<close>

theorem steps_agree_with_run:
  "reachable env twitter openai (Ended n, w) \<longleftrightarrow> (n, w) = run env twitter openai"
proof
  assume "(n, w) = run env twitter openai"
  then have "run env twitter openai = (n, w)" by simp
  with reachable_run [of env twitter openai]
  show "reachable env twitter openai (Ended n, w)" by simp
next
  assume "reachable env twitter openai (Ended n, w)"
  then obtain k where k: "(Ended n, w) = exec k env twitter openai (Boot, init_world)"
    using reachable_is_exec by blast
  have "exec (k + 12) env twitter openai (Boot, init_world) = (Ended n, w)"
    by (simp add: exec_add [of k 12] k [symmetric])
  moreover have "exec (12 + k) env twitter openai (Boot, init_world) =
      (Ended (fst (run env twitter openai)), snd (run env twitter openai))"
    by (simp add: exec_add [of 12 k] exec_run)
  ultimately show "(n, w) = run env twitter openai"
    by (simp add: add.commute prod_eq_iff)
qed

text \<open>
  C15. At every moment of a run the requests sent so far are a prefix of the two requests
  the run may send (the lookup, then the inference request for the resolved image), no
  request has been sent unless both credentials are set, the phase is one the environment
  allows, and the phase agrees with what has been sent: nothing before the lookup, the
  lookup alone until the question, both once the question is asked.
\<close>

theorem reachable_invariant:
  assumes "reachable env twitter openai c"
  shows "inv env twitter openai c"
  using assms by (induction rule: reachable.induct) (auto intro: inv_start inv_step)

theorem reachable_invariant_witness:
  "inv env_ok twitter_ok openai_ok
     (Ended (fst (run env_ok twitter_ok openai_ok)), snd (run env_ok twitter_ok openai_ok))"
  using reachable_invariant [OF reachable_run [of env_ok twitter_ok openai_ok]] .

end
