(* ===== verification/Legacy_Script.thy ===== *)
theory Legacy_Script
  imports Main_Flow
begin

text \<open>
  The older variant of the script, \<^verbatim>\<open>src/unnamed/part_000\<close>. It shares with
  \<^verbatim>\<open>index.ts\<close> the two checks of the environment (lines 22 to 30), \<^verbatim>\<open>fetchTweetData\<close>
  (lines 45 to 98), the \<^verbatim>\<open>catch\<close> of \<^verbatim>\<open>askOpenAIAboutImage\<close> (lines 122 to 125) and the
  handler of the last statement (lines 186 to 190), whose texts are the same in both
  files; the definitions of the earlier theories are used for them. What differs is
  modelled here, with the suffix \<open>_legacy\<close> where a name is taken:

  \<^item> \<^verbatim>\<open>askOpenAIAboutImage(imageUrl, question)\<close> (lines 103 to 126) sends
    \<open>question_request\<close> to \<^verbatim>\<open>openai.responses.create\<close> and returns the text content of
    the first choice;
  \<^item> \<^verbatim>\<open>main\<close> (lines 136 to 184) lower-cases the answer and looks for keywords in it
    (\<open>keyword_result\<close>, lines 152 to 163), prints what it concluded (\<open>report\<close>), and
    its \<^verbatim>\<open>catch\<close> prints the failure without ending the process.

  \<open>legacy_summary\<close> is the transcript of a run as a pure function of the services'
  answers, and \<open>run_legacy_summary\<close> proves that \<open>run_legacy\<close> produces it.

  Two things are taken as the code presents them. The answer of
  \<^verbatim>\<open>openai.responses.create\<close> has the shape line 121 reads, a \<^verbatim>\<open>choices\<close> array
  (possibly empty) of choices with a message and a content; an answer without that array,
  on which line 121 would raise a \<^verbatim>\<open>TypeError\<close> into the handler of line 122, is not a
  value of the model, and the theorems on an answered question speak of answers with
  the array. And the construction of the inference client (lines 13 to 15), which in this
  variant comes before the credentials are tested, is treated as without effect, so
  that \<open>script_legacy\<close> starts at the tests of lines 22 to 30.
\<close>

section \<open>Constants\<close>

definition TWEET_ID_legacy :: string where
  "TWEET_ID_legacy = ''1921316529062265045''"

definition positiveKeywords :: "string list" where
  "positiveKeywords = [''yes'', ''it does'', ''shows a black baseball hat'']"

definition negativeKeywords :: "string list" where
  "negativeKeywords = [''no'', ''it does not'', ''does not show'']"

section \<open>Asking for a free-text answer\<close>

definition zodTextFormat :: "zod \<Rightarrow> string \<Rightarrow> response_format" where
  "zodTextFormat s n = \<lparr>schema = s, format_name = n\<rparr>"

definition question_request :: "string \<Rightarrow> responses_request" where
  "question_request question =
     \<lparr>model = ''gpt-4o'',
      temperature = 0,
      input = [\<lparr>role = ''user'', content = Parts [Input_text question]\<rparr>],
      text_format = zodTextFormat verificationResponseSchema ''response''\<rparr>"

definition askOpenAIAboutImage_legacy ::
  "responses_api \<Rightarrow> string \<Rightarrow> string \<Rightarrow> string option io" where
  "askOpenAIAboutImage_legacy responses imageUrl' question =
     try_catch
       (io_bind (call (ResponsesCreate (question_request question))
                   (responses (question_request question)))
          (\<lambda>response.
             io_return (opt_chain (opt_chain (index0 (choices response)) message) content')))
       askOpenAIAboutImage_catch"

definition question :: string where
  \<open>question =
     ''Does this picture contain a black baseball hat with a "tunnl" logo on it?\<newline>'' @
     ''I have provided you with 3 example images of the hat with the Tunnl logo on it named "tunnl-hat-front.jpg", "tunnl-hat-side-1.jpg", and "tunnl-hat-side-2.jpg".\<newline>'' @
     ''The image you are analyzing is named "posted-image.jpg".\<newline>'' @
     ''If you cannot see the hat with the logo anywhere in the image, respond with "no".\<newline>'' @
     ''If you can see the hat with the logo anywhere in the image, respond with "yes".\<newline>''\<close>

section \<open>Matching keywords\<close>

definition keyword_result :: "string \<Rightarrow> bool option" where
  "keyword_result openAIResponse =
     (let responseLower = toLowerCase openAIResponse in
      if list_ex (\<lambda>keyword. str_includes responseLower keyword) positiveKeywords
      then Some True
      else if list_ex (\<lambda>keyword. str_includes responseLower keyword) negativeKeywords
      then Some False
      else None)"

definition determined_line :: "bool \<Rightarrow> string" where
  "determined_line result' =
     ''Does the image contain a black baseball hat with white lettering? '' @ template_bool result'"

definition undetermined_line :: string where
  "undetermined_line = ''Could not definitively determine the answer from OpenAI's response.''"

definition assuming_false_line :: string where
  "assuming_false_line =
     ''Assuming 'false' due to ambiguous response for: Does the image contain a black baseball hat with white lettering?''"

definition no_response_line :: string where
  "no_response_line = ''OpenAI did not provide a response.''"

definition no_response_result_line :: string where
  \<open>no_response_result_line =
     ''Result for "Does the image contain a black baseball hat with white lettering?": false (no OpenAI response)''\<close>

definition failure_result_line :: "string \<Rightarrow> string" where
  \<open>failure_result_line errorMessage =
     ''Result for "Does the image contain a black baseball hat with white lettering?": false (due to error: '' @
     errorMessage @ '')''\<close>

definition report :: "string \<Rightarrow> unit io" where
  "report openAIResponse =
     io_then (console_write LOG [AString ''OpenAI Response:'', AString openAIResponse])
       (case keyword_result openAIResponse of
          Some result' \<Rightarrow> console_write LOG [AString (determined_line result')]
        | None \<Rightarrow>
            io_then (console_write LOG [AString undetermined_line])
              (io_then
                 (console_write LOG [AString ''Full OpenAI response:'', AString openAIResponse])
                 (console_write LOG [AString assuming_false_line])))"

definition report_no_response :: "unit io" where
  "report_no_response =
     io_then (console_write LOG [AString no_response_line])
       (console_write LOG [AString no_response_result_line])"

section \<open>The main function and the script\<close>

definition processing_line_legacy :: string where
  "processing_line_legacy = ''Processing Tweet ID: '' @ TWEET_ID_legacy"

definition no_image_message_legacy :: string where
  "no_image_message_legacy = ''No image URL found for Tweet ID: '' @ TWEET_ID_legacy @ ''.''"

definition main_try_legacy :: "twitter_api \<Rightarrow> responses_api \<Rightarrow> unit io" where
  "main_try_legacy twitter responses =
     io_bind (fetchTweetData twitter TWEET_ID_legacy)
       (\<lambda>tweetData.
          case imageUrl tweetData of
            None \<Rightarrow> io_throw (Error no_image_message_legacy)
          | Some u \<Rightarrow>
              if u = [] then io_throw (Error no_image_message_legacy)
              else io_bind (askOpenAIAboutImage_legacy responses u question)
                     (\<lambda>openAIResponse.
                        case openAIResponse of
                          None \<Rightarrow> report_no_response
                        | Some r \<Rightarrow> if r = [] then report_no_response else report r))"

definition main_catch_legacy :: "thrown \<Rightarrow> unit io" where
  "main_catch_legacy error =
     (let errorMessage = message_or ''An unknown error occurred'' error in
      io_then
        (console_write ERROR
           [AString ''Error in main execution:'', AString errorMessage, AThrown error])
        (console_write LOG [AString (failure_result_line errorMessage)]))"

definition main_legacy :: "twitter_api \<Rightarrow> responses_api \<Rightarrow> unit io" where
  "main_legacy twitter responses =
     io_then (console_write LOG [AString processing_line_legacy])
       (try_catch (main_try_legacy twitter responses) main_catch_legacy)"

definition script_legacy :: "env \<Rightarrow> twitter_api \<Rightarrow> responses_api \<Rightarrow> unit io" where
  "script_legacy env twitter responses =
     io_then (check_openai_key env)
       (io_then (check_twitter_token env)
          (try_catch (main_legacy twitter responses) unhandled_catch))"

definition run_legacy :: "env \<Rightarrow> twitter_api \<Rightarrow> responses_api \<Rightarrow> nat \<times> world" where
  "run_legacy env twitter responses =
     (exit_code (fst (script_legacy env twitter responses init_world)),
      snd (script_legacy env twitter responses init_world))"

section \<open>The matching, said simply\<close>

definition keyword_simple :: "string \<Rightarrow> bool option" where
  "keyword_simple openAIResponse =
     (let l = toLowerCase openAIResponse in
      if str_includes l ''yes'' \<or> str_includes l ''it does''
         \<or> str_includes l ''shows a black baseball hat''
      then Some True
      else if str_includes l ''no'' then Some False
      else None)"

section \<open>Transcript of a run\<close>

definition first_content :: "completion \<Rightarrow> string option" where
  "first_content c = opt_chain (opt_chain (index0 (choices c)) message) content'"

definition content_result :: "thrown + completion \<Rightarrow> abrupt + string option" where
  "content_result answer =
     (case answer of
        Inl e \<Rightarrow> Inl (Throw (Error (openai_failure_message e)))
      | Inr c \<Rightarrow> Inr (first_content c))"

definition report_lines :: "string option \<Rightarrow> log_entry list" where
  "report_lines v =
     (if truthy v then
        (LOG, [AString ''OpenAI Response:'', AString (template v)]) #
        (case keyword_result (template v) of
           Some b \<Rightarrow> [(LOG, [AString (determined_line b)])]
         | None \<Rightarrow>
             [(LOG, [AString undetermined_line]),
              (LOG, [AString ''Full OpenAI response:'', AString (template v)]),
              (LOG, [AString assuming_false_line])])
      else [(LOG, [AString no_response_line]), (LOG, [AString no_response_result_line])])"

definition legacy_after_fetch ::
  "thrown + completion \<Rightarrow> abrupt + tweet_result \<Rightarrow> unit summary" where
  "legacy_after_fetch answer fetched =
     (case fetched of
        Inl a \<Rightarrow> (Inl a, [], [])
      | Inr r \<Rightarrow>
          if \<not> truthy (imageUrl r)
          then (Inl (Throw (Error no_image_message_legacy)), [], [])
          else
            (case content_result answer of
               Inl a \<Rightarrow> (Inl a, ask_lines answer, [ResponsesCreate (question_request question)])
             | Inr v \<Rightarrow> (Inr (), ask_lines answer @ report_lines v,
                          [ResponsesCreate (question_request question)])))"

definition legacy_error_lines :: "thrown \<Rightarrow> log_entry list" where
  "legacy_error_lines e =
     [main_error_entry e,
      (LOG, [AString (failure_result_line (message_or ''An unknown error occurred'' e))])]"

definition legacy_caught :: "unit summary \<Rightarrow> unit summary" where
  "legacy_caught t =
     (case t of
        (Inl (Throw e), ls, qs) \<Rightarrow> (Inr (), ls @ legacy_error_lines e, qs)
      | _ \<Rightarrow> t)"

definition lookup_legacy :: "twitter_api \<Rightarrow> thrown + tweet_response" where
  "lookup_legacy twitter = twitter (singleTweet_request TWEET_ID_legacy)"

definition asked :: "responses_api \<Rightarrow> thrown + completion" where
  "asked responses = responses (question_request question)"

definition main_legacy_summary :: "twitter_api \<Rightarrow> responses_api \<Rightarrow> unit summary" where
  "main_legacy_summary twitter responses =
     (case legacy_caught (legacy_after_fetch (asked responses)
                            (fetch_result (lookup_legacy twitter) TWEET_ID_legacy)) of
        (r, ls, qs) \<Rightarrow>
          (r, (LOG, [AString processing_line_legacy]) #
              fetch_lines (lookup_legacy twitter) TWEET_ID_legacy @ ls,
           SingleTweet (singleTweet_request TWEET_ID_legacy) # qs))"

definition legacy_summary :: "env \<Rightarrow> twitter_api \<Rightarrow> responses_api \<Rightarrow> unit summary" where
  "legacy_summary env twitter responses =
     (if configured env then main_legacy_summary twitter responses
      else (Inl (Exit 1),
            [(ERROR, [AString (if truthy (env ''OPENAI_API_KEY'')
                               then missing_twitter_token else missing_openai_key)])], []))"

definition legacy_failure_message :: "thrown + tweet_response \<Rightarrow> responses_api \<Rightarrow> string" where
  "legacy_failure_message answer responses =
     (case answer of
        Inl e \<Rightarrow> process_error_message TWEET_ID_legacy (message_or ''Unknown error'' e)
      | Inr tweet \<Rightarrow>
          (case errors tweet of
             Some (x # xs) \<Rightarrow>
               process_error_message TWEET_ID_legacy
                 (api_error_message (or_else (detail x) (title x)))
           | _ \<Rightarrow>
               (case data tweet of
                  None \<Rightarrow> process_error_message TWEET_ID_legacy no_data_message
                | Some d \<Rightarrow>
                    (case select_image (opt_chain (includes' tweet) media) of
                       None \<Rightarrow> no_image_message_legacy
                     | Some u \<Rightarrow>
                         (case responses (question_request question) of
                            Inl e \<Rightarrow> openai_failure_message e
                          | Inr c \<Rightarrow> [])))))"

subsection \<open>Sample answers\<close>

definition answer_with :: "string option \<Rightarrow> completion" where
  "answer_with v = \<lparr>choices = [\<lparr>message = Some \<lparr>parsed = None, content' = v\<rparr>\<rparr>]\<rparr>"

definition responses_saying :: "string \<Rightarrow> responses_api" where
  "responses_saying s = (\<lambda>_. Inr (answer_with (Some s)))"

section \<open>Lemmas on the keywords\<close>

lemmas keyword_lists = positiveKeywords_def negativeKeywords_def
lemmas keyword_eval = keyword_result_def keyword_lists str_includes_eval lower_eval Let_def

lemma includes_it_does_not: "str_includes s ''it does not'' \<Longrightarrow> str_includes s ''it does''"
  by (erule str_includes_trans) (simp add: str_includes_eval)

lemma includes_it_does_not_no: "str_includes s ''it does not'' \<Longrightarrow> str_includes s ''no''"
  by (erule str_includes_trans) (simp add: str_includes_eval)

lemma includes_does_not_show_no: "str_includes s ''does not show'' \<Longrightarrow> str_includes s ''no''"
  by (erule str_includes_trans) (simp add: str_includes_eval)

lemma keyword_result_lower [simp]: "keyword_result (toLowerCase r) = keyword_result r"
  by (simp add: keyword_result_def)

lemma keyword_result_True_iff:
  "keyword_result r = Some True \<longleftrightarrow>
     (\<exists>k \<in> set positiveKeywords. str_includes (toLowerCase r) k)"
  by (simp add: keyword_result_def Let_def list_ex_iff)

section \<open>Lemmas on asking\<close>

lemma legacy_ask_emits:
  "emits (askOpenAIAboutImage_legacy responses u q)
     (content_result (responses (question_request q)))
     (ask_lines (responses (question_request q)))
     [ResponsesCreate (question_request q)]"
proof (cases "responses (question_request q)")
  case (Inl e)
  from emits_try_Throw [OF emits_bind_Inl [OF emits_call_Inl [OF Inl]] ask_catch_emits] Inl
  show ?thesis
    by (simp add: askOpenAIAboutImage_legacy_def content_result_def ask_lines_def)
next
  case (Inr c)
  from emits_try_Inr [OF emits_bind_Inr [OF emits_call_Inr [OF Inr] emits_return]] Inr
  show ?thesis
    by (simp add: askOpenAIAboutImage_legacy_def content_result_def ask_lines_def
        first_content_def)
qed

lemma content_result_not_Exit: "content_result answer \<noteq> Inl (Exit n)"
  by (cases answer) (simp_all add: content_result_def)

lemma report_emits:
  "r \<noteq> [] \<Longrightarrow> emits (report r) (Inr ()) (report_lines (Some r)) []"
  by (cases "keyword_result r") (simp_all add: report_def report_lines_def emits_def io_unfold)

lemma report_no_response_emits:
  "\<not> truthy v \<Longrightarrow> emits report_no_response (Inr ()) (report_lines v) []"
  by (simp add: report_no_response_def report_lines_def emits_def io_unfold)

lemma main_catch_legacy_emits:
  "emits (main_catch_legacy e) (Inr ()) (legacy_error_lines e) []"
  by (simp add: main_catch_legacy_def legacy_error_lines_def main_error_entry_def emits_def
      io_unfold Let_def)

section \<open>Lemmas on the main function\<close>

lemma main_try_legacy_emits:
  "case legacy_after_fetch (asked responses)
          (fetch_result (lookup_legacy twitter) TWEET_ID_legacy) of
     (r, ls, qs) \<Rightarrow>
       emits (main_try_legacy twitter responses) r
         (fetch_lines (lookup_legacy twitter) TWEET_ID_legacy @ ls)
         (SingleTweet (singleTweet_request TWEET_ID_legacy) # qs)"
proof -
  let ?a = "lookup_legacy twitter"
  have fetched: "emits (fetchTweetData twitter TWEET_ID_legacy)
      (fetch_result ?a TWEET_ID_legacy) (fetch_lines ?a TWEET_ID_legacy)
      [SingleTweet (singleTweet_request TWEET_ID_legacy)]"
    unfolding lookup_legacy_def by (rule fetch_emits)
  show ?thesis
  proof (cases "fetch_result ?a TWEET_ID_legacy")
    case (Inl a)
    with fetched show ?thesis
      by (simp add: legacy_after_fetch_def main_try_legacy_def emits_def io_unfold)
  next
    case (Inr t)
    show ?thesis
    proof (cases "truthy (imageUrl t)")
      case False
      with fetched Inr show ?thesis
        by (cases "imageUrl t")
          (simp_all add: legacy_after_fetch_def main_try_legacy_def emits_def io_unfold)
    next
      case True
      then obtain u where u: "imageUrl t = Some u" "u \<noteq> []" by (rule truthyE)
      have said: "emits (askOpenAIAboutImage_legacy responses u question)
          (content_result (asked responses)) (ask_lines (asked responses))
          [ResponsesCreate (question_request question)]"
        unfolding asked_def by (rule legacy_ask_emits)
      moreover have "emits (case v of None \<Rightarrow> report_no_response
                     | Some r \<Rightarrow> if r = [] then report_no_response else report r)
                (Inr ()) (report_lines v) []" for v
        by (cases v) (simp_all add: report_emits report_no_response_emits)
      ultimately show ?thesis
        using fetched Inr u
        by (cases "content_result (asked responses)")
          (simp_all add: legacy_after_fetch_def main_try_legacy_def emits_def io_unfold)
    qed
  qed
qed

lemma legacy_after_fetch_not_Exit:
  "fst (legacy_after_fetch answer (fetch_result a tweetId)) \<noteq> Inl (Exit n)"
  using fetch_result_not_Exit [of a tweetId] content_result_not_Exit [of answer]
  by (auto simp: legacy_after_fetch_def split: sum.splits)

lemma legacy_caught_Inr:
  assumes "\<And>n. fst t \<noteq> Inl (Exit n)"
  shows "fst (legacy_caught t) = Inr ()"
proof (cases t)
  case (fields r ls qs)
  with assms show ?thesis
    by (cases r; cases "projl r") (auto simp: legacy_caught_def)
qed

lemma main_legacy_emits:
  "case main_legacy_summary twitter responses of
     (r, ls, qs) \<Rightarrow> emits (main_legacy twitter responses) r ls qs"
proof -
  let ?t = "legacy_after_fetch (asked responses)
              (fetch_result (lookup_legacy twitter) TWEET_ID_legacy)"
  obtain r ls qs where t: "?t = (r, ls, qs)" by (cases ?t)
  with main_try_legacy_emits [where twitter = twitter and responses = responses]
  have e: "emits (main_try_legacy twitter responses) r
      (fetch_lines (lookup_legacy twitter) TWEET_ID_legacy @ ls)
      (SingleTweet (singleTweet_request TWEET_ID_legacy) # qs)" by simp
  show ?thesis
  proof (cases r)
    case (Inr x)
    from emits_then_Inr [OF emits_write emits_try_Inr [OF e [unfolded Inr]]] t Inr
    show ?thesis
      by (simp add: main_legacy_summary_def legacy_caught_def main_legacy_def)
  next
    case (Inl a)
    show ?thesis
    proof (cases a)
      case (Throw ex)
      from emits_then_Inr [OF emits_write
          emits_try_Throw [OF e [unfolded Inl Throw] main_catch_legacy_emits]] t Inl Throw
      show ?thesis
        by (simp add: main_legacy_summary_def legacy_caught_def main_legacy_def)
    next
      case (Exit n)
      with t Inl legacy_after_fetch_not_Exit [of "asked responses" "lookup_legacy twitter"
          TWEET_ID_legacy n]
      show ?thesis by simp
    qed
  qed
qed

lemma main_legacy_summary_outcome: "fst (main_legacy_summary twitter responses) = Inr ()"
proof -
  let ?t = "legacy_after_fetch (asked responses)
              (fetch_result (lookup_legacy twitter) TWEET_ID_legacy)"
  have "fst (legacy_caught ?t) = Inr ()"
    by (rule legacy_caught_Inr) (rule legacy_after_fetch_not_Exit)
  then show ?thesis
    by (auto simp: main_legacy_summary_def split: prod.splits)
qed

section \<open>Lemmas on the script\<close>

lemma script_legacy_emits:
  "case legacy_summary env twitter responses of (r, ls, qs) \<Rightarrow>
     emits (script_legacy env twitter responses) r ls qs"
proof (cases "configured env")
  case False
  then show ?thesis
    by (auto simp: configured_def legacy_summary_def script_legacy_def check_openai_key_def
        check_twitter_token_def emits_def io_unfold)
next
  case True
  obtain r ls qs where s: "main_legacy_summary twitter responses = (r, ls, qs)"
    by (cases "main_legacy_summary twitter responses")
  with main_legacy_emits [of twitter responses]
  have "emits (main_legacy twitter responses) r ls qs" by simp
  moreover from s main_legacy_summary_outcome [of twitter responses]
  have "r \<noteq> Inl (Throw e)" for e by auto
  ultimately have "emits (try_catch (main_legacy twitter responses) unhandled_catch) r ls qs"
    by (rule emits_try_no_Throw)
  moreover from True
  have "script_legacy env twitter responses =
      try_catch (main_legacy twitter responses) unhandled_catch"
    by (simp add: script_legacy_def check_openai_key_def check_twitter_token_def configured_def
        io_simps)
  ultimately show ?thesis using True s by (simp add: legacy_summary_def)
qed

lemma run_legacy_summary:
  "run_legacy env twitter responses =
     (case legacy_summary env twitter responses of
        (r, ls, qs) \<Rightarrow> (exit_code r, \<lparr>console = ls, outbound = qs\<rparr>))"
proof -
  obtain r ls qs where s: "legacy_summary env twitter responses = (r, ls, qs)"
    by (cases "legacy_summary env twitter responses")
  with script_legacy_emits [of env twitter responses]
  have "emits (script_legacy env twitter responses) r ls qs" by simp
  then have "script_legacy env twitter responses init_world = (r, \<lparr>console = ls, outbound = qs\<rparr>)"
    by (simp add: emits_def init_world_def)
  with s show ?thesis by (simp add: run_legacy_def)
qed

section \<open>Lemmas on a run\<close>

lemma run_legacy_fst:
  "fst (run_legacy env twitter responses) = exit_code (fst (legacy_summary env twitter responses))"
  by (simp add: run_legacy_summary split: prod.splits)

lemma run_legacy_console:
  "console (snd (run_legacy env twitter responses)) =
     fst (snd (legacy_summary env twitter responses))"
  by (simp add: run_legacy_summary split: prod.splits)

lemma run_legacy_outbound:
  "outbound (snd (run_legacy env twitter responses)) =
     snd (snd (legacy_summary env twitter responses))"
  by (simp add: run_legacy_summary split: prod.splits)

lemmas run_legacy_simps = run_legacy_fst run_legacy_console run_legacy_outbound

lemma legacy_after_fetch_requests:
  "snd (snd (legacy_after_fetch answer (fetch_result a tweetId))) =
     (case resolved a of None \<Rightarrow> [] | Some u \<Rightarrow> [ResponsesCreate (question_request question)])"
proof (cases "fetch_result a tweetId")
  case (Inl x)
  with fetch_result_Inl_resolved [OF Inl] show ?thesis
    by (simp add: legacy_after_fetch_def)
next
  case (Inr t)
  with fetch_result_Inr_resolved [OF Inr] resolved_truthy [of a] show ?thesis
    by (cases "resolved a") (auto simp: legacy_after_fetch_def split: sum.splits)
qed

lemma legacy_caught_requests [simp]: "snd (snd (legacy_caught t)) = snd (snd t)"
  by (auto simp: legacy_caught_def split: prod.splits sum.splits abrupt.splits)

lemma main_legacy_summary_requests:
  "snd (snd (main_legacy_summary twitter responses)) =
     SingleTweet (singleTweet_request TWEET_ID_legacy) #
     (case resolved (lookup_legacy twitter) of
        None \<Rightarrow> [] | Some u \<Rightarrow> [ResponsesCreate (question_request question)])"
proof -
  let ?t = "legacy_after_fetch (asked responses)
              (fetch_result (lookup_legacy twitter) TWEET_ID_legacy)"
  obtain r ls qs where c: "legacy_caught ?t = (r, ls, qs)" by (cases "legacy_caught ?t")
  with legacy_caught_requests [of ?t] have "qs = snd (snd ?t)" by simp
  with c show ?thesis
    by (simp add: main_legacy_summary_def legacy_after_fetch_requests)
qed

lemma legacy_after_fetch_answered:
  assumes "resolved a = Some u" and "answer = Inr c"
  shows "legacy_after_fetch answer (fetch_result a tweetId) =
     (Inr (), report_lines (first_content c), [ResponsesCreate (question_request question)])"
proof -
  from assms(1) obtain t where "fetch_result a tweetId = Inr t" "imageUrl t = Some u" "u \<noteq> []"
    by (auto simp: resolved_Some_iff [of a u tweetId])
  with assms(2) show ?thesis
    by (simp add: legacy_after_fetch_def content_result_def ask_lines_def)
qed

lemma legacy_after_fetch_failure:
  assumes "resolved a = None \<or> responses (question_request question) = Inl e"
  shows "fst (legacy_after_fetch (asked responses) (fetch_result a TWEET_ID_legacy)) =
     Inl (Throw (Error (legacy_failure_message a responses)))"
proof (cases a rule: tweet_answer_cases)
  case (found tweet d)
  show ?thesis
  proof (cases "select_image (opt_chain (includes' tweet) media)")
    case None
    with found show ?thesis
      by (simp add: legacy_after_fetch_def fetch_result_def legacy_failure_message_def)
  next
    case (Some u)
    with found assms select_image_not_empty [OF Some] show ?thesis
      by (auto simp: legacy_after_fetch_def fetch_result_def legacy_failure_message_def
          resolved_simps content_result_def asked_def split: sum.splits)
  qed
qed (simp_all add: legacy_after_fetch_def fetch_result_def legacy_failure_message_def)

lemma main_legacy_summary_failure:
  assumes "resolved (lookup_legacy twitter) = None
      \<or> responses (question_request question) = Inl e"
  shows "\<exists>ls. fst (snd (main_legacy_summary twitter responses)) =
     ls @ legacy_error_lines (Error (legacy_failure_message (lookup_legacy twitter) responses))"
proof -
  let ?t = "legacy_after_fetch (asked responses)
              (fetch_result (lookup_legacy twitter) TWEET_ID_legacy)"
  obtain r ls qs where t: "?t = (r, ls, qs)" by (cases ?t)
  with legacy_after_fetch_failure [of "lookup_legacy twitter" responses e, OF assms]
  have "r = Inl (Throw (Error (legacy_failure_message (lookup_legacy twitter) responses)))"
    by simp
  with t show ?thesis
    by (simp add: main_legacy_summary_def legacy_caught_def)
qed

lemma report_lines_last:
  "last (report_lines v) =
     (LOG, [AString
       (if truthy v
        then (case keyword_result (template v) of
                Some b \<Rightarrow> determined_line b | None \<Rightarrow> assuming_false_line)
        else no_response_result_line)])"
  by (simp add: report_lines_def split: option.splits)

lemma report_lines_not_Nil [simp]: "report_lines v \<noteq> []"
  by (simp add: report_lines_def)

lemma configured_legacy [simp]:
  "configured env \<Longrightarrow> legacy_summary env twitter responses = main_legacy_summary twitter responses"
  by (simp add: legacy_summary_def)

lemma asked_saying [simp]: "asked (responses_saying s) = Inr (answer_with (Some s))"
  by (simp add: asked_def responses_saying_def)

lemma first_content_answer_with [simp]: "first_content (answer_with v) = v"
  by (simp add: first_content_def answer_with_def)

lemma resolved_lookup_legacy_ok [simp]:
  "resolved (lookup_legacy twitter_ok) = Some ''https://pbs.example/a.jpg''"
  using resolved_twitter_ok by (simp add: lookup_def lookup_legacy_def twitter_ok_def)

section \<open>The keyword matching\<close>

text \<open>
  C24. The six keywords are more than the matching needs: the second and third negative
  keywords both contain \<^verbatim>\<open>no\<close>, so the verdict is positive when the lower-cased answer
  contains one of the three positive keywords, negative when it contains none of them
  but contains \<^verbatim>\<open>no\<close>, and undetermined otherwise.
\<close>

theorem keyword_result_refines: "keyword_result r = keyword_simple r"
  by (auto simp: keyword_result_def keyword_simple_def keyword_lists Let_def
      dest: includes_it_does_not_no includes_does_not_show_no)

text \<open>
  C23. An answer that denies with the words \<^verbatim>\<open>it does not\<close> is taken for a confirmation:
  the words contain the positive keyword \<^verbatim>\<open>it does\<close>, and the positive keywords are
  tried first. The negative keyword \<^verbatim>\<open>it does not\<close> therefore never decides a verdict.
\<close>

theorem denial_taken_for_confirmation:
  assumes "str_includes (toLowerCase r) ''it does not''"
  shows "keyword_result r = Some True"
  using includes_it_does_not [OF assms]
  by (simp add: keyword_result_def keyword_lists)

theorem denial_taken_for_confirmation_witness:
  "keyword_result ''No, it does not.'' = Some True"
  using denial_taken_for_confirmation [of "''No, it does not.''"]
  by (simp add: str_includes_eval lower_eval)

text \<open>
  C32. A positive verdict survives any text around the answer: if an answer is classified
  positive, so is every text in which it occurs. In particular \<^verbatim>\<open>yes\<close> inside another word
  decides the verdict, whatever else the text says.
\<close>

theorem keyword_result_superstring:
  assumes "keyword_result r = Some True" and "str_includes s r"
  shows "keyword_result s = Some True"
proof -
  from assms(2) have "str_includes (toLowerCase s) (toLowerCase r)"
    by (rule str_includes_toLowerCase)
  with assms(1) show ?thesis
    by (auto simp: keyword_result_True_iff intro: str_includes_trans)
qed

theorem keyword_result_superstring_witness:
  "keyword_result ''I see two eyes and no hat'' = Some True"
  using keyword_result_superstring [of "''yes''" "''I see two eyes and no hat''"]
  by (simp add: keyword_eval)

section \<open>The request of the older variant\<close>

text \<open>
  C25. The older \<^verbatim>\<open>askOpenAIAboutImage\<close> never sends the image: what it does is the same for
  every image URL, and its request carries one message, of role \<^verbatim>\<open>user\<close>, with the
  question as its only part and no image at all. The request names the model
  \<^verbatim>\<open>gpt-4o\<close> with temperature 0 and asks for text in the two-field schema under the name
  \<^verbatim>\<open>response\<close>, although the answer is then read as free text.
\<close>

theorem legacy_request_without_image:
  "askOpenAIAboutImage_legacy responses u q = askOpenAIAboutImage_legacy responses u' q
   \<and> map content (input (question_request q)) = [Parts [Input_text q]]
   \<and> request_images (input (question_request q)) = []
   \<and> map role (input (question_request q)) = [''user'']
   \<and> model (question_request q) = ''gpt-4o''
   \<and> temperature (question_request q) = 0
   \<and> text_format (question_request q) =
       \<lparr>schema = z_object [(''result'', z_boolean ''Whether the image contains a Tunnl hat.''),
                           (''reasoning'',
                            z_string ''A short explanation of the reasoning for the result.'')],
        format_name = ''response''\<rparr>"
  by (simp add: askOpenAIAboutImage_legacy_def question_request_def request_images_def
      List.map_filter_simps zodTextFormat_def verificationResponseSchema_def)

section \<open>The run of the older script\<close>

text \<open>
  C26. The older script ends with exit code 0 whenever both credentials are set, whatever
  the two services answer: a failed lookup, a tweet without image and a failed question
  are printed and then the script runs to its end. Only a missing credential gives
  exit code 1.
\<close>

theorem run_legacy_exit_code:
  "fst (run_legacy env twitter responses) = (if configured env then 0 else 1)"
  by (simp add: run_legacy_fst main_legacy_summary_outcome legacy_summary_def exit_code_def)

text \<open>
  C28. The requests of a run of the older script: none when a credential is missing;
  otherwise the lookup of its tweet, followed by one question to the inference service
  exactly when an image was chosen. The question is the same whatever image was chosen.
\<close>

theorem run_legacy_requests:
  "outbound (snd (run_legacy env twitter responses)) =
     (if configured env
      then SingleTweet (singleTweet_request TWEET_ID_legacy) #
           (case resolved (lookup_legacy twitter) of
              None \<Rightarrow> []
            | Some u \<Rightarrow> [ResponsesCreate (question_request question)])
      else [])"
  by (simp add: run_legacy_outbound main_legacy_summary_requests legacy_summary_def)

text \<open>
  C29. When the older script gets an answer, its last line states the verdict: the verdict
  of the keyword matching when the answer has a non-empty text and a keyword matches,
  the assumption of \<^verbatim>\<open>false\<close> when no keyword matches, and \<^verbatim>\<open>false\<close> for want of a
  response when the text is absent or empty.
\<close>

theorem run_legacy_reports:
  assumes "configured env" and "resolved (lookup_legacy twitter) = Some u"
    and "responses (question_request question) = Inr c"
  shows "last (console (snd (run_legacy env twitter responses))) =
     (LOG, [AString
       (if truthy (first_content c)
        then (case keyword_result (template (first_content c)) of
                Some b \<Rightarrow> determined_line b | None \<Rightarrow> assuming_false_line)
        else no_response_result_line)])"
  using assms legacy_after_fetch_answered [of "lookup_legacy twitter" u "asked responses" c
      TWEET_ID_legacy]
  by (simp add: run_legacy_console main_legacy_summary_def legacy_caught_def asked_def
      report_lines_last)

theorem run_legacy_reports_witness:
  "last (console (snd (run_legacy env_ok twitter_ok (responses_saying ''No, it does not.'')))) =
     (LOG, [AString ''Does the image contain a black baseball hat with white lettering? true''])"
  using run_legacy_reports [of env_ok twitter_ok "''https://pbs.example/a.jpg''"
      "responses_saying ''No, it does not.''" "answer_with (Some ''No, it does not.'')"]
  by (simp add: responses_saying_def keyword_eval determined_line_def)

text \<open>
  C30. The whole transcript of a run of the older script that gets an answer: it prints the
  tweet it processes and the fetch, and then what the answer leads to. For a non-empty
  text it prints the text and either the one line with the verdict of the keyword
  matching or, when no keyword matches, the three lines that end with the assumption of
  \<^verbatim>\<open>false\<close>; for an absent or empty text the two lines for a missing response. The
  image URL is never printed. It has sent the lookup and the question, and the exit code
  is 0.
\<close>

theorem run_legacy_answered:
  assumes "configured env" and "resolved (lookup_legacy twitter) = Some u"
    and "responses (question_request question) = Inr c"
  shows "run_legacy env twitter responses =
    (0, \<lparr>console =
           (LOG, [AString processing_line_legacy]) #
           (LOG, [AString (fetching_line TWEET_ID_legacy)]) #
           (case first_content c of
              None \<Rightarrow> [(LOG, [AString no_response_line]),
                        (LOG, [AString no_response_result_line])]
            | Some t \<Rightarrow>
                if t = [] then [(LOG, [AString no_response_line]),
                                (LOG, [AString no_response_result_line])]
                else (LOG, [AString ''OpenAI Response:'', AString t]) #
                  (case keyword_result t of
                     Some b \<Rightarrow> [(LOG, [AString (determined_line b)])]
                   | None \<Rightarrow>
                       [(LOG, [AString undetermined_line]),
                        (LOG, [AString ''Full OpenAI response:'', AString t]),
                        (LOG, [AString assuming_false_line])])),
         outbound = [SingleTweet (singleTweet_request TWEET_ID_legacy),
                     ResponsesCreate (question_request question)]\<rparr>)"
  using assms legacy_after_fetch_answered [of "lookup_legacy twitter" u "asked responses" c
      TWEET_ID_legacy] fetch_lines_resolved [OF assms(2), of TWEET_ID_legacy]
  by (simp add: run_legacy_summary main_legacy_summary_def legacy_caught_def asked_def
      report_lines_def exit_code_def split: option.splits)

theorem run_legacy_answered_witness:
  "run_legacy env_ok twitter_ok (responses_saying ''Maybe.'') =
    (0, \<lparr>console =
           [(LOG, [AString ''Processing Tweet ID: 1921316529062265045'']),
            (LOG, [AString ''Fetching tweet from Twitter API: 1921316529062265045'']),
            (LOG, [AString ''OpenAI Response:'', AString ''Maybe.'']),
            (LOG, [AString ''Could not definitively determine the answer from OpenAI's response.'']),
            (LOG, [AString ''Full OpenAI response:'', AString ''Maybe.'']),
            (LOG, [AString ''Assuming 'false' due to ambiguous response for: Does the image contain a black baseball hat with white lettering?''])],
         outbound = [SingleTweet (singleTweet_request ''1921316529062265045''),
                     ResponsesCreate (question_request question)]\<rparr>)"
  using run_legacy_answered [of env_ok twitter_ok "''https://pbs.example/a.jpg''"
      "responses_saying ''Maybe.''" "answer_with (Some ''Maybe.'')"]
  by (simp add: responses_saying_def keyword_eval processing_line_legacy_def fetch_texts
      TWEET_ID_legacy_def undetermined_line_def assuming_false_line_def)

text \<open>
  C31. When the older script gets no answer (the lookup failed, no image was chosen, or the
  question failed), the exit code is still 0 and its last two console lines are those
  of the handler of \<^verbatim>\<open>main\<close>: the error line, with the message that tells what failed
  and the \<^verbatim>\<open>Error\<close> itself, and then the result line \<^verbatim>\<open>false (due to error: ...)\<close>
  with the same message. The message is the wrapped message of the lookup's failure, the
  text for a missing image, or the wrapped message of the question's failure.
\<close>

theorem run_legacy_failure:
  assumes "configured env"
    and "resolved (lookup_legacy twitter) = None \<or> responses (question_request question) = Inl e"
  shows "fst (run_legacy env twitter responses) = 0
     \<and> last (butlast (console (snd (run_legacy env twitter responses)))) =
         (ERROR, [AString ''Error in main execution:'',
                  AString (legacy_failure_message (lookup_legacy twitter) responses),
                  AThrown (Error (legacy_failure_message (lookup_legacy twitter) responses))])
     \<and> last (console (snd (run_legacy env twitter responses))) =
         (LOG, [AString (failure_result_line
                           (legacy_failure_message (lookup_legacy twitter) responses))])"
proof -
  from main_legacy_summary_failure [of twitter responses e, OF assms(2)] obtain ls where
    "fst (snd (main_legacy_summary twitter responses)) =
       ls @ legacy_error_lines (Error (legacy_failure_message (lookup_legacy twitter) responses))"
    by blast
  with assms(1) show ?thesis
    by (simp add: run_legacy_simps main_legacy_summary_outcome exit_code_def
        legacy_error_lines_def main_error_entry_def butlast_append)
qed

theorem run_legacy_failure_witness:
  \<open>fst (run_legacy env_ok (\<lambda>_. Inr tweet_failed) (responses_saying ''yes'')) = 0
   \<and> last (butlast (console (snd (run_legacy env_ok (\<lambda>_. Inr tweet_failed)
                                       (responses_saying ''yes''))))) =
       (ERROR, [AString ''Error in main execution:'',
          AString ''Failed to process tweet 1921316529062265045: Failed to fetch tweet: Could not find tweet'',
          AThrown (Error ''Failed to process tweet 1921316529062265045: Failed to fetch tweet: Could not find tweet'')])
   \<and> last (console (snd (run_legacy env_ok (\<lambda>_. Inr tweet_failed) (responses_saying ''yes'')))) =
       (LOG, [AString ''Result for "Does the image contain a black baseball hat with white lettering?": false (due to error: Failed to process tweet 1921316529062265045: Failed to fetch tweet: Could not find tweet)''])\<close>
  using run_legacy_failure [of env_ok "\<lambda>_. Inr tweet_failed" "responses_saying ''yes''"]
  by (simp add: resolved_def lookup_legacy_def no_errors_def tweet_failed_def
      legacy_failure_message_def process_error_message_def api_error_message_def
      TWEET_ID_legacy_def failure_result_line_def)

end
