(* ===== verification/Spec2Isabelle.thy ===== *)
theory Spec2Isabelle
  imports Script_Steps Legacy_Script
begin

text \<open>
  \<^bold>\<open>The program.\<close> \<^verbatim>\<open>proof-of-hat\<close> is a command-line script. It reads two credentials
  from the environment, asks the tweet lookup of a social network for one fixed tweet,
  chooses an image of that tweet, sends the image together with three fixed reference
  images to a vision model, prints the structured verdict the model returns and ends
  with an exit code. The repository holds the script as \<^verbatim>\<open>src/src/index.ts\<close> and an
  older variant of it as \<^verbatim>\<open>src/unnamed/part_000\<close>, which asks for a free-text answer
  and looks for keywords in it. Both are modelled.

  \<^bold>\<open>The theories\<close>, in the order of their imports.

  \<^item> \<open>JS_Prelude\<close>: the JavaScript primitives the scripts use, as executable functions
    (truthiness, \<^verbatim>\<open>||\<close>, \<^verbatim>\<open>?.\<close>, template literals, \<^verbatim>\<open>find\<close>, \<^verbatim>\<open>includes\<close>,
    \<^verbatim>\<open>toLowerCase\<close>, thrown values), and the lemmas on them that every component uses.
  \<^item> \<open>Interfaces\<close>: the records and datatypes that cross the boundary of the program:
    the lookup's request and response, the inference requests and their completion, the
    environment, the console entries, and the type of each remote service as a function
    from its request to a thrown value or a response.
  \<^item> \<open>Effects\<close>: the effects of a run as an exception and state monad over the
    \<open>world\<close> (console lines written and requests sent, in order). \<open>emits m r ls qs\<close>
    summarises an action; its rules compose summaries along \<open>io_bind\<close> and \<open>try_catch\<close>.
  \<^item> \<open>Tweet_Resolver\<close>: \<^verbatim>\<open>fetchTweetData\<close> (\<^verbatim>\<open>index.ts\<close> lines 38 to 91).
    \<open>fetchTweetData_try\<close> is the body of its \<^verbatim>\<open>try\<close>, \<open>fetchTweetData_catch\<close> its handler,
    \<open>select_image\<close> the block that chooses \<^verbatim>\<open>imageUrl\<close> (lines 56 to 77).
    \<open>select_spec\<close> is the promised precedence (the first of: direct URLs of photos,
    preview URLs of photos, preview URLs of videos) and \<open>resolved\<close> the image a lookup's
    answer leads to; the lemmas show that the code refines \<open>select_spec\<close>, that the
    chosen URL comes from the media list and is not empty, and give, for every branch of
    the function, the outcome together with the world it leaves: the console lines
    written and the one request sent.
  \<^item> \<open>Visual_Verifier\<close>: the constants of the inference request (lines 10 to 14, 30 to
    33, 142 to 151) and \<^verbatim>\<open>askOpenAIAboutImage\<close> (lines 96 to 140).
    \<open>verification_request\<close> is the argument of \<^verbatim>\<open>openai.beta.chat.completions.parse\<close>; the
    lemmas fix its shape (two messages, four images, the candidate last) and give the
    outcome of the function and the world it leaves, on an answer and on a failure.
  \<^item> \<open>Main_Flow\<close>: the checks of the environment (lines 16 to 24), \<^verbatim>\<open>main\<close> (lines 154
    to 175) and the call of \<^verbatim>\<open>main\<close> (lines 177 to 181), composed as \<open>script\<close>; \<open>run\<close>
    starts it in the empty world. \<open>script_summary\<close> is the transcript of a run as a
    pure function of the environment and of the two services' answers, and
    \<open>run_summary\<close> proves that \<open>run\<close> produces exactly that transcript. The theorems
    on \<open>run\<close> are consequences of it: the exit code, the requests sent, the whole
    transcript of a success and of each kind of failure, and that a run depends on the
    services only through the two answers it asks for.
  \<^item> \<open>Script_Steps\<close>: the same script one observable step at a time, as the inductive
    relation \<open>step\<close> on configurations (a \<open>phase\<close> and the world) and as the
    executable function \<open>advance\<close>. The lemmas show that the two are the same, that
    every sequence of steps ends, that the end is the result of \<open>run\<close>, and that
    \<open>inv\<close> holds in every configuration a run passes through. The phases are
    program points chosen by the model; what the theory adds to \<open>Main_Flow\<close> is the
    statement at every moment of a run, where \<open>run\<close> speaks of its end.
  \<^item> \<open>Legacy_Script\<close>: the older variant: its \<^verbatim>\<open>askOpenAIAboutImage\<close> (lines 103 to 126
    of \<^verbatim>\<open>part_000\<close>), the keyword matching \<open>keyword_result\<close> (lines 152 to 163) and its
    \<^verbatim>\<open>main\<close> (lines 136 to 184), composed as \<open>script_legacy\<close> and run by \<open>run_legacy\<close>.
    The parts whose text is the same in both files (the checks of the environment,
    \<^verbatim>\<open>fetchTweetData\<close>, the handler of \<^verbatim>\<open>askOpenAIAboutImage\<close>, the last statement) use
    the definitions of the earlier theories. The lemmas characterise the verdict of
    the matching and give the exit code, the requests, the transcript of an answered
    run and the last lines of a failed one.
  \<^item> \<open>Spec2Isabelle\<close> (this theory): the properties that span components: the resolver,
    the verifier and the steps of the main flow; the two variants of the script.

  \<^bold>\<open>How the model corresponds to the code.\<close> Every \<^verbatim>\<open>async\<close> function is an action of
  the monad and every \<^verbatim>\<open>await\<close> an \<open>io_bind\<close>. A remote call is \<open>call q (service q)\<close>: it
  records the request \<open>q\<close> and yields what the service answers, and the service is a
  parameter (\<open>twitter\<close>, \<open>openai\<close>, \<open>responses\<close>) over which every theorem is
  universally quantified. \<^verbatim>\<open>console.log\<close>, \<^verbatim>\<open>console.warn\<close> and \<^verbatim>\<open>console.error\<close> are
  \<open>console_write\<close> with the level and the arguments; \<^verbatim>\<open>throw\<close> is \<open>io_throw\<close>,
  \<^verbatim>\<open>try\<close>/\<^verbatim>\<open>catch\<close> is \<open>try_catch\<close>, and \<^verbatim>\<open>process.exit(n)\<close> is \<open>io_exit n\<close>, which no
  handler catches. Values that may be \<^verbatim>\<open>undefined\<close> are options, and the tests the code
  makes of them are \<open>truthy\<close>. In \<open>Script_Steps\<close> each rule of \<open>step\<close> is one statement
  that writes, sends, throws or decides, and a thrown value travels to the enclosing
  handler as a phase of its own (\<open>Fetch_Thrown\<close>, \<open>Main_Thrown\<close>).

  \<^bold>\<open>Bounds and fuel.\<close> The scripts have no loop of their own: the only iterations are
  the \<^verbatim>\<open>find\<close> scans of the media list, the \<^verbatim>\<open>map\<close> over the reference images and the
  \<^verbatim>\<open>some\<close>/\<^verbatim>\<open>includes\<close> scans of the keyword matching, which are structural recursions on
  finite lists, so every definition is total. \<open>exec\<close> iterates \<open>advance\<close> with fuel;
  \<open>remaining\<close> assigns to each phase the number of steps that are enough from it, at
  most twelve, and each step lowers it, so fuel twelve always reaches the end of the
  process (\<open>step_remaining\<close>, \<open>exec_run\<close>). Twelve counts the phases of the model
  on the longest path, not anything in the code; no theorem on \<open>run\<close> depends on it.
  The exit code is a natural number; the temperature of a request is the integer 0.

  \<^bold>\<open>What is not modelled.\<close>

  \<^item> The two remote services and the libraries that reach them: only their interface
    is, and nothing is assumed of their answers beyond their shape. A service is a
    total function from the request to a thrown value or a response, so every
    \<^verbatim>\<open>await\<close> settles; a call that never returns or is cancelled is not a behaviour
    of the model, and that every run ends is a consequence of this, not a property of
    the network.
  \<^item> Answers of another shape than the one the code reads. A completion has a
    \<^verbatim>\<open>choices\<close> array, which may be empty; an answer without that array, on which
    \<^verbatim>\<open>result.choices[0]\<close> (line 135 of \<^verbatim>\<open>index.ts\<close>, line 121 of \<^verbatim>\<open>part_000\<close>) would
    raise a \<^verbatim>\<open>TypeError\<close> into the handler of the function, is not a value of the
    model. The theorems on an answered question hold for answers with that array.
  \<^item> \<^verbatim>\<open>dotenv\<close>, which fills the environment before the script reads it, and the
    construction of the clients (lines 26 to 28 and 35 to 36 of \<^verbatim>\<open>index.ts\<close>, lines 13
    to 15 and 32 to 33 of \<^verbatim>\<open>part_000\<close>), which is treated as without effect. In
    \<^verbatim>\<open>part_000\<close> the inference client is constructed before the credentials are
    tested; \<open>script_legacy\<close> starts at the tests. \<open>script\<close>, \<open>step\<close> and \<open>advance\<close>
    cover the module from line 16 to line 181 except those lines.
  \<^item> The validation of the model's answer against the schema, which the library
    performs and reports by throwing.
  \<^item> The text of a thrown value that is not an \<^verbatim>\<open>Error\<close> object.
  \<^item> Lower-casing outside ASCII: \<open>toLowerCase\<close> maps the letters A to Z and leaves
    every other byte alone. The keywords of the older variant are ASCII.
\<close>

section \<open>From the lookup's answer to the inference request\<close>

text \<open>
  C3. An inference request is sent only for an image of the tweet, at every moment of a
  run: if a request to the vision model has been sent, then both credentials are set,
  the lookup answered without errors and with a media list, the request is the one
  built for the first candidate of that list, which is not empty, its images are the
  three reference images followed by that candidate, and exactly two requests have
  been sent, the lookup first.
\<close>

theorem inference_after_resolution:
  assumes "reachable env twitter openai (ph, w)" and "ChatParse q \<in> set (outbound w)"
  shows "\<exists>tweet inc ms u.
      configured env
    \<and> twitter (singleTweet_request TWEET_ID) = Inr tweet
    \<and> no_errors tweet
    \<and> includes' tweet = Some inc \<and> media inc = Some ms
    \<and> select_spec ms = Some u \<and> u \<noteq> [] \<and> Some u \<in> set (candidates ms)
    \<and> q = verification_request u
    \<and> request_images (messages q) = referenceImageUrls @ [u]
    \<and> outbound w = [SingleTweet (singleTweet_request TWEET_ID), ChatParse q]"
proof -
  from reachable_inference [OF assms] obtain u where c: "configured env"
    and u: "resolved (lookup twitter) = Some u" "q = verification_request u"
    and o: "outbound w = [SingleTweet (singleTweet_request TWEET_ID), ChatParse q]"
    by blast
  from u(1) obtain tweet d where t: "twitter (singleTweet_request TWEET_ID) = Inr tweet"
      "no_errors tweet" "select_image (opt_chain (includes' tweet) media) = Some u"
    by (auto simp: resolved_explicit lookup_def)
  from t(3) obtain inc ms where m: "includes' tweet = Some inc" "media inc = Some ms"
      "select_image (Some ms) = Some u"
    by (cases "includes' tweet"; cases "opt_chain (includes' tweet) media") auto
  from m(3) have s: "select_spec ms = Some u"
    by (simp add: select_image_Some select_simple_spec)
  from t(3) have "u \<noteq> []" by (rule select_image_not_empty)
  with c u t m s o select_spec_mem [OF s] show ?thesis by simp
qed

theorem inference_after_resolution_witness:
  "\<exists>tweet inc ms u.
      configured env_ok
    \<and> twitter_ok (singleTweet_request TWEET_ID) = Inr tweet
    \<and> no_errors tweet
    \<and> includes' tweet = Some inc \<and> media inc = Some ms
    \<and> select_spec ms = Some u \<and> u \<noteq> [] \<and> Some u \<in> set (candidates ms)
    \<and> verification_request ''https://pbs.example/a.jpg'' = verification_request u
    \<and> request_images (messages (verification_request ''https://pbs.example/a.jpg''))
        = referenceImageUrls @ [u]
    \<and> outbound (snd (run env_ok twitter_ok openai_ok)) =
        [SingleTweet (singleTweet_request TWEET_ID),
         ChatParse (verification_request ''https://pbs.example/a.jpg'')]"
proof -
  have "reachable env_ok twitter_ok openai_ok
      (Ended (fst (run env_ok twitter_ok openai_ok)), snd (run env_ok twitter_ok openai_ok))"
    by (rule reachable_run)
  from inference_after_resolution [OF this, of "verification_request ''https://pbs.example/a.jpg''"]
  show ?thesis
    by (simp add: run_outbound script_summary_configured main_summary_requests resolved_twitter_ok)
qed

section \<open>The two variants of the script\<close>

text \<open>
  C27. The older script fails open where the current one fails closed: its exit code is
  never greater than the exit code of the current script in the same environment, and
  when the current script ends without a verdict and exits with code 1, the older
  script exits with code 0, whatever its services answered.
\<close>

theorem legacy_fails_open:
  "fst (run_legacy env twitter' responses) \<le> fst (run env twitter openai)
   \<and> (configured env \<and> verdict (lookup twitter) openai = None
        \<longrightarrow> fst (run_legacy env twitter' responses) = 0 \<and> fst (run env twitter openai) = 1)"
  by (cases "verdict (lookup twitter) openai")
    (auto simp: run_legacy_fst run_fst script_summary_configured script_summary_unconfigured
      main_summary_verdict main_legacy_summary_outcome legacy_summary_def exit_code_def)

theorem legacy_fails_open_witness:
  "fst (run_legacy env_ok (\<lambda>_. Inr tweet_failed) (responses_saying ''yes'')) = 0
   \<and> fst (run env_ok (\<lambda>_. Inr tweet_failed) openai_ok) = 1"
  using legacy_fails_open [of env_ok "\<lambda>_. Inr tweet_failed" "responses_saying ''yes''"
      "\<lambda>_. Inr tweet_failed" openai_ok]
  by (simp add: verdict_def resolved_def lookup_def no_errors_def tweet_failed_def)

end
